theory Spec2Isabelle
  imports Main "HOL-Library.Monad_Syntax"
begin

section \<open>JS Runtime Visualizer: parser, state manager and executor\<close>

text \<open>
  A shallow embedding of the three modules of the visualizer:
  \<^item> \<open>Parser\<close> (the instruction data, \<open>processHoisting\<close> and, further down, the line
    recognisers of \<open>parse\<close> with \<open>parseValue\<close> and \<open>parseArguments\<close>),
  \<^item> \<open>StateManager\<close> (the runtime state and its mutation operations),
  \<^item> \<open>Executor\<close> (the step interpreter and \<open>processEventLoop\<close>).

  Conventions of the embedding.
  \<^item> A source text is a list of 8-bit characters (every character of the text below
    \<open>U+0100\<close>).
  \<^item> A JavaScript number is only ever produced by a literal and only ever printed
    (the executor performs no arithmetic), so a number value is carried as the text
    \<open>String(n)\<close> prints for it (\<open>numberText\<close> below).
  \<^item> The heap \<open>Map\<close> is a finite map. An object used as a dictionary
    (\<open>scope.variables\<close>, \<open>frame.variables\<close>) is created by \<open>{}\<close>: it is a finite map of
    its own keys, and a read \<open>variables[name]\<close> that finds no own key goes on to
    \<open>Object.prototype\<close> (see \<open>getProperty\<close> below). The functions found there are
    shared by all dictionaries; the \<open>value\<close> property that \<open>updateScopeVariable\<close> can
    write on them is the component \<open>inheritedValue\<close> of the module.
  \<^item> A write \<open>variables['__proto__'] = ...\<close> replaces the prototype of the dictionary and
    \<open>variables['__proto__'].value = ...\<close> writes on \<open>Object.prototype\<close> itself. The model
    records that such a write took place (\<open>prototypeWritten\<close>) and describes the
    dictionaries only as long as none has: every statement below on the content of a
    scope is about states in which \<open>prototypeWritten\<close> is false.
  \<^item> A field read with \<open>x || default\<close> is given as its falsy value when it is absent.
  \<^item> \<open>Date.now()\<close> time stamps (\<open>createdAt\<close>, \<open>startTime\<close>, \<open>timestamp\<close>) are display
    data and are left out; the identities \<open>Date.now() + Math.random()\<close> are an input
    of the operation that draws them.
  \<^item> \<open>notify\<close> appends to the sequence of emitted notifications; the copy of the
    changed collection that each payload carries is the collection of the state at
    that moment and is not repeated in the notification.
\<close>

subsection \<open>Decimal text of a counter\<close>

definition digitChar :: "nat \<Rightarrow> char" where
  "digitChar d = char_of (48 + d)"

fun dec :: "nat \<Rightarrow> string" where
  "dec n = (if n < 10 then [digitChar n] else dec (n div 10) @ [digitChar (n mod 10)])"

declare dec.simps [simp del]

fun join :: "string \<Rightarrow> string list \<Rightarrow> string" where
  "join sep [] = []"
| "join sep [x] = x"
| "join sep (x # y # ys) = x @ sep @ join sep (y # ys)"

subsection \<open>Parser: value expressions and instructions\<close>

datatype valueExpr =
    ENumber string
  | EString string
  | EBoolean bool
  | ENull
  | EUndefined
  | EArray "valueExpr list"
  | EObject "(string \<times> valueExpr) list"
  | EArrowFunction "string list" string
  | EFunction "string list" string
  | ECall string "valueExpr list"
  | EPropertyAccess string
  | EReference string

datatype instruction =
    HoistingPhase "string list" "string list"
      \<comment> \<open>functions, vars (line 0)\<close>
  | FunctionDeclaration string "string list" nat string nat bool
      \<comment> \<open>name, params, line, body, endLine, hoisted\<close>
  | HoistedVar string nat nat
      \<comment> \<open>name, line, originalLine\<close>
  | VariableDeclaration string string valueExpr nat
      \<comment> \<open>declarationType, name, value, line\<close>
  | SetTimeout "string option" string nat
      \<comment> \<open>callback, delay, line\<close>
  | Promise string nat
      \<comment> \<open>callback, line\<close>
  | Console string "valueExpr list" nat
      \<comment> \<open>method, args, line\<close>
  | FunctionCall string "valueExpr list" nat
      \<comment> \<open>name, args, line\<close>
  | MethodCall string string "valueExpr list" nat
      \<comment> \<open>object, method, args, line\<close>
  | Assignment string valueExpr nat
      \<comment> \<open>name, value, line\<close>
  | Return valueExpr nat
      \<comment> \<open>value, line\<close>
  | NewObject string string string "valueExpr list" nat
      \<comment> \<open>declarationType, name, constructor, args, line\<close>

fun instLine :: "instruction \<Rightarrow> nat" where
  "instLine (HoistingPhase fs vs) = 0"
| "instLine (FunctionDeclaration n ps l b e h) = l"
| "instLine (HoistedVar n l ol) = l"
| "instLine (VariableDeclaration d n v l) = l"
| "instLine (SetTimeout c d l) = l"
| "instLine (Promise c l) = l"
| "instLine (Console m as l) = l"
| "instLine (FunctionCall n as l) = l"
| "instLine (MethodCall ob m as l) = l"
| "instLine (Assignment n v l) = l"
| "instLine (Return v l) = l"
| "instLine (NewObject d n c as l) = l"

fun isFunctionDeclaration :: "instruction \<Rightarrow> bool" where
  "isFunctionDeclaration (FunctionDeclaration n ps l b e h) = True"
| "isFunctionDeclaration i = False"

fun isVarDeclaration :: "instruction \<Rightarrow> bool" where
  "isVarDeclaration (VariableDeclaration d n v l) = (d = ''var'')"
| "isVarDeclaration i = False"

fun instName :: "instruction \<Rightarrow> string" where
  "instName (FunctionDeclaration n ps l b e h) = n"
| "instName (HoistedVar n l ol) = n"
| "instName (VariableDeclaration d n v l) = n"
| "instName (FunctionCall n as l) = n"
| "instName (Assignment n v l) = n"
| "instName (NewObject d n c as l) = n"
| "instName i = []"

text \<open>
  \<open>processHoisting\<close>: one pass over the instructions fills three lists
  (\<open>functionDeclarations\<close>, \<open>varDeclarations\<close>, \<open>rest\<close>); the marker is added only when
  one of the first two is not empty.
\<close>

fun hoistPass :: "instruction list \<Rightarrow>
    instruction list \<times> instruction list \<times> instruction list \<Rightarrow>
    instruction list \<times> instruction list \<times> instruction list" where
  "hoistPass [] acc = acc"
| "hoistPass (FunctionDeclaration n ps l b e h # is) (fds, vds, rest) =
     hoistPass is (fds @ [FunctionDeclaration n ps l b e True], vds, rest)"
| "hoistPass (VariableDeclaration d n v l # is) (fds, vds, rest) =
     (if d = ''var''
      then hoistPass is (fds, vds @ [HoistedVar n l l], rest @ [VariableDeclaration d n v l])
      else hoistPass is (fds, vds, rest @ [VariableDeclaration d n v l]))"
| "hoistPass (i # is) (fds, vds, rest) = hoistPass is (fds, vds, rest @ [i])"

definition processHoisting :: "instruction list \<Rightarrow> instruction list" where
  "processHoisting insts =
     (case hoistPass insts ([], [], []) of (functionDeclarations, varDeclarations, rest) \<Rightarrow>
        (if length functionDeclarations > 0 \<or> length varDeclarations > 0
         then [HoistingPhase (map instName functionDeclarations) (map instName varDeclarations)]
         else [])
        @ functionDeclarations @ varDeclarations @ rest)"

text \<open>
  \<open>Parser.parse\<close> runs its line recognisers over the text, collects the instructions
  they recognise and ends with \<open>return processHoisting(instructions)\<close>; it is embedded
  in the sections on the parser's text operations and line recognisers below.
\<close>

definition getFunctionNames :: "instruction list \<Rightarrow> string list" where
  "getFunctionNames insts = map instName (filter isFunctionDeclaration insts)"

definition findFunction :: "instruction list \<Rightarrow> string \<Rightarrow> instruction option" where
  "findFunction insts name =
     List.find (\<lambda>i. isFunctionDeclaration i \<and> instName i = name) insts"

subsection \<open>StateManager: the data of the runtime state\<close>

datatype jsvalue =
    VUndefined
  | VNull
  | VNumber string
  | VString string
  | VBoolean bool
  | VArray "jsvalue list"
  | VObject "(string \<times> jsvalue) list"
  | VFunction bool "string list" string
      \<comment> \<open>a function expression kept as it was parsed: is it an arrow function, params, body\<close>

record frameBinding =
  fb_value :: string
  fb_type :: string

record frame =
  frame_id :: nat
  frame_name :: string
  frame_type :: string
  frame_variables :: "string \<rightharpoonup> frameBinding"
  thisBinding :: string
  frame_line :: nat
  isActive :: bool

datatype heapPayload =
    FunctionPayload string "string list" string "string option"
      \<comment> \<open>name, params, body, closure (a scope id)\<close>
  | ValuePayload jsvalue

record heapObject =
  heap_id :: string
  heap_type :: string
  heap_value :: heapPayload
  references :: "string list"

record scopeBinding =
  sb_value :: jsvalue
  sb_type :: string
  declarationType :: string

record scope =
  scope_id :: string
  scope_name :: string
  scope_type :: string
  parentId :: "string option"
  scope_variables :: "string \<rightharpoonup> scopeBinding"

record task =
  task_id :: nat
  task_name :: string
  task_callback :: "string option"
  task_delay :: string
  task_type :: string

record eventLoop =
  webAPIs :: "task list"
  callbackQueue :: "task list"
  microtaskQueue :: "task list"

datatype notification =
    NCode string
  | NCallStack string "frame option"
      \<comment> \<open>action (push, pop, update, reset), frame\<close>
  | NHeap string "heapObject option" "(string \<times> string) option"
      \<comment> \<open>action (allocate, reference, deallocate, reset), object, (from, to)\<close>
  | NScopes string "scope option" "string option"
      \<comment> \<open>action (create, addVariable, updateVariable, destroy, reset), scope, variable\<close>
  | NEventLoop string "task option"
      \<comment> \<open>action (addWebAPI, moveToCallback, addMicrotask, processMicrotask,
          processCallback, reset), task\<close>
  | NCurrentLine int
  | NExecution bool bool
  | NConsole string "string list"
      \<comment> \<open>type, args\<close>

record state =
  code :: string
  parsedCode :: "instruction list"
  callStack :: "frame list"
  heap :: "string \<rightharpoonup> heapObject"
  heapIdCounter :: nat
  scopes :: "scope list"
  scopeIdCounter :: nat
  eventLoop :: eventLoop
  currentLine :: int
  currentStep :: nat
  isRunning :: bool
  isPaused :: bool
  speed :: int
  executionQueue :: "instruction list"
  timers :: "nat list"

text \<open>
  The module: its \<open>state\<close> variable, the notifications it has sent, and what its
  operations can change outside \<open>state\<close>: the \<open>value\<close> property of the functions of
  \<open>Object.prototype\<close> (absent until written), and whether a prototype has been written.
  These last two belong to the page, not to \<open>state\<close>: \<open>reset\<close> does not touch them.
\<close>

record manager = state +
  emitted :: "notification list"
  inheritedValue :: "string \<rightharpoonup> jsvalue"
  prototypeWritten :: bool

definition initialState :: state where
  "initialState = \<lparr> code = [], parsedCode = [], callStack = [], heap = Map.empty,
     heapIdCounter = 0, scopes = [], scopeIdCounter = 0,
     eventLoop = \<lparr> webAPIs = [], callbackQueue = [], microtaskQueue = [] \<rparr>,
     currentLine = -1, currentStep = 0, isRunning = False, isPaused = False,
     speed = 1000, executionQueue = [], timers = [] \<rparr>"

definition initialManager :: manager where
  "initialManager = state.extend initialState
     \<lparr> emitted = [], inheritedValue = Map.empty, prototypeWritten = False \<rparr>"

definition notify :: "notification \<Rightarrow> manager \<Rightarrow> manager" where
  "notify ev m = m\<lparr> emitted := emitted m @ [ev] \<rparr>"

subsection \<open>Reading a dictionary\<close>

text \<open>
  What \<open>variables[name]\<close> evaluates to for a dictionary created by \<open>{}\<close>: the own property
  when there is one; otherwise, for the names of the function properties of
  \<open>Object.prototype\<close>, that function; for \<open>__proto__\<close>, the prototype of the dictionary,
  which is \<open>Object.prototype\<close>; for every other name, \<open>undefined\<close> (\<open>Absent\<close>).
\<close>

definition objectPrototypeNames :: "string list" where
  "objectPrototypeNames =
     [''constructor'', ''__defineGetter__'', ''__defineSetter__'', ''hasOwnProperty'',
      ''__lookupGetter__'', ''__lookupSetter__'', ''isPrototypeOf'', ''propertyIsEnumerable'',
      ''toString'', ''valueOf'', ''toLocaleString'']"

datatype 'a property =
    Own 'a
  | InheritedFunction
  | PrototypeObject
  | Absent

definition getProperty :: "(string \<rightharpoonup> 'a) \<Rightarrow> string \<Rightarrow> 'a property" where
  "getProperty variables name =
     (case variables name of
        Some b \<Rightarrow> Own b
      | None \<Rightarrow>
          if name \<in> set objectPrototypeNames then InheritedFunction
          else if name = ''__proto__'' then PrototypeObject
          else Absent)"

subsection \<open>StateManager: the operations\<close>

definition getState :: "manager \<Rightarrow> state" where
  \<comment> \<open>the values held by the snapshot; what the snapshot shares with the module is the
      subject of the section on object identity below\<close>
  "getState m = state.truncate m"

definition setCode :: "string \<Rightarrow> manager \<Rightarrow> manager" where
  "setCode c m = notify (NCode c) (m\<lparr> code := c \<rparr>)"

definition setParsedCode :: "instruction list \<Rightarrow> manager \<Rightarrow> manager" where
  "setParsedCode parsed m = m\<lparr> parsedCode := parsed \<rparr>"

record frameInput =
  fi_name :: string
  fi_type :: string
  fi_variables :: "string \<rightharpoonup> frameBinding"
  fi_thisBinding :: string
  fi_line :: nat

definition pushCallStack :: "nat \<Rightarrow> frameInput \<Rightarrow> manager \<Rightarrow> frame \<times> manager" where
  \<comment> \<open>\<open>fresh\<close> is the value of \<open>Date.now() + Math.random()\<close>\<close>
  "pushCallStack fresh fi m =
     (let newFrame = \<lparr> frame_id = fresh,
            frame_name = (if fi_name fi = [] then ''anonymous'' else fi_name fi),
            frame_type = (if fi_type fi = [] then ''function'' else fi_type fi),
            frame_variables = fi_variables fi,
            thisBinding = (if fi_thisBinding fi = [] then ''window'' else fi_thisBinding fi),
            frame_line = fi_line fi,
            isActive = True \<rparr>;
          cs = callStack m;
          cs1 = (if length cs > 0
                 then cs[length cs - 1 := (cs ! (length cs - 1))\<lparr> isActive := False \<rparr>]
                 else cs);
          m1 = m\<lparr> callStack := cs1 @ [newFrame] \<rparr>
      in (newFrame, notify (NCallStack ''push'' (Some newFrame)) m1))"

definition popCallStack :: "manager \<Rightarrow> frame option \<times> manager" where
  "popCallStack m =
     (let cs = callStack m;
          popped = (if cs = [] then None else Some (last cs));
          cs1 = butlast cs;
          cs2 = (if length cs1 > 0
                 then cs1[length cs1 - 1 := (cs1 ! (length cs1 - 1))\<lparr> isActive := True \<rparr>]
                 else cs1);
          m1 = m\<lparr> callStack := cs2 \<rparr>
      in (popped, notify (NCallStack ''pop'' popped) m1))"

definition updateFrameVariable :: "string \<Rightarrow> string \<Rightarrow> string \<Rightarrow> manager \<Rightarrow> manager" where
  \<comment> \<open>\<open>topFrame.variables[name] = { value, type }\<close> adds or replaces an own key, except
      for \<open>__proto__\<close>, where it replaces the prototype and leaves the own keys alone\<close>
  "updateFrameVariable name val ty m =
     (let cs = callStack m in
      if length cs > 0
      then (let topFrame = cs ! (length cs - 1) in
            if name = ''__proto__''
            then notify (NCallStack ''update'' (Some topFrame)) (m\<lparr> prototypeWritten := True \<rparr>)
            else (let topFrame1 = topFrame\<lparr> frame_variables :=
                        (frame_variables topFrame)(name \<mapsto> \<lparr> fb_value = val, fb_type = ty \<rparr>) \<rparr>
                  in notify (NCallStack ''update'' (Some topFrame1))
                       (m\<lparr> callStack := cs[length cs - 1 := topFrame1] \<rparr>)))
      else m)"

definition allocateHeap ::
    "string \<Rightarrow> heapPayload \<Rightarrow> string option \<Rightarrow> manager \<Rightarrow> string \<times> manager" where
  \<comment> \<open>\<open>refId || `ref_${++state.heapIdCounter}`\<close>: a missing or empty \<open>refId\<close> draws from
      the counter, any other is taken as it is and leaves the counter alone\<close>
  "allocateHeap ty val refId m =
     (let given = (case refId of None \<Rightarrow> [] | Some r \<Rightarrow> r);
          m1 = (if given \<noteq> [] then m else m\<lparr> heapIdCounter := heapIdCounter m + 1 \<rparr>);
          ident = (if given \<noteq> [] then given else ''ref_'' @ dec (heapIdCounter m1));
          heapObj = \<lparr> heap_id = ident, heap_type = ty, heap_value = val, references = [] \<rparr>;
          m2 = m1\<lparr> heap := (heap m1)(ident \<mapsto> heapObj) \<rparr>
      in (ident, notify (NHeap ''allocate'' (Some heapObj) None) m2))"

definition addHeapReference :: "string \<Rightarrow> string \<Rightarrow> manager \<Rightarrow> manager" where
  "addHeapReference fromId toId m =
     (case heap m fromId of
        None \<Rightarrow> m
      | Some obj \<Rightarrow>
          if toId \<notin> set (references obj)
          then notify (NHeap ''reference'' None (Some (fromId, toId)))
                 (m\<lparr> heap := (heap m)(fromId \<mapsto> obj\<lparr> references := references obj @ [toId] \<rparr>) \<rparr>)
          else m)"

definition deallocateHeap :: "string \<Rightarrow> manager \<Rightarrow> manager" where
  "deallocateHeap ident m =
     (case heap m ident of
        None \<Rightarrow> m
      | Some obj \<Rightarrow>
          notify (NHeap ''deallocate'' (Some obj) None) (m\<lparr> heap := (heap m)(ident := None) \<rparr>))"

definition createScope :: "string \<Rightarrow> string \<Rightarrow> string option \<Rightarrow> manager \<Rightarrow> scope \<times> manager" where
  "createScope name ty parent m =
     (let m1 = m\<lparr> scopeIdCounter := scopeIdCounter m + 1 \<rparr>;
          sc = \<lparr> scope_id = ''scope_'' @ dec (scopeIdCounter m1), scope_name = name,
                 scope_type = ty, parentId = parent, scope_variables = Map.empty \<rparr>;
          m2 = m1\<lparr> scopes := scopes m1 @ [sc] \<rparr>
      in (sc, notify (NScopes ''create'' (Some sc) None) m2))"

text \<open>
  \<open>state.scopes.find(s => s.id === scopeId)\<close> yields the first scope with that id, and the
  operation then changes that object in place; \<open>scopeId\<close> may be \<open>null\<close>, which no scope's
  id equals.
\<close>

fun updateFirst :: "('a \<Rightarrow> bool) \<Rightarrow> ('a \<Rightarrow> 'a) \<Rightarrow> 'a list \<Rightarrow> 'a list" where
  "updateFirst P f [] = []"
| "updateFirst P f (x # xs) = (if P x then f x # xs else x # updateFirst P f xs)"

fun removeFirst :: "('a \<Rightarrow> bool) \<Rightarrow> 'a list \<Rightarrow> 'a list" where
  "removeFirst P [] = []"
| "removeFirst P (x # xs) = (if P x then xs else x # removeFirst P xs)"

definition hasScopeId :: "string option \<Rightarrow> scope \<Rightarrow> bool" where
  "hasScopeId scopeId s = (scopeId = Some (scope_id s))"

definition addScopeVariable ::
    "string option \<Rightarrow> string \<Rightarrow> jsvalue \<Rightarrow> string \<Rightarrow> string \<Rightarrow> manager \<Rightarrow> manager" where
  \<comment> \<open>\<open>scope.variables[name] = {...}\<close> adds or replaces an own key (also when the name is
      that of an inherited function), except for \<open>__proto__\<close>, where it replaces the
      prototype and leaves the own keys alone\<close>
  "addScopeVariable scopeId name val varType declType m =
     (case List.find (hasScopeId scopeId) (scopes m) of
        None \<Rightarrow> m
      | Some sc \<Rightarrow>
          if name = ''__proto__''
          then notify (NScopes ''addVariable'' (Some sc) None) (m\<lparr> prototypeWritten := True \<rparr>)
          else
          (let sc1 = sc\<lparr> scope_variables := (scope_variables sc)(name \<mapsto>
                       \<lparr> sb_value = val, sb_type = varType, declarationType = declType \<rparr>) \<rparr>
           in notify (NScopes ''addVariable'' (Some sc1) None)
                (m\<lparr> scopes := updateFirst (hasScopeId scopeId) (\<lambda>_. sc1) (scopes m) \<rparr>)))"

definition updateScopeVariable :: "string option \<Rightarrow> string \<Rightarrow> jsvalue \<Rightarrow> manager \<Rightarrow> manager" where
  \<comment> \<open>the guard \<open>scope && scope.variables[name]\<close> holds for every object that the read
      yields: an own binding, an inherited function, the prototype; the write
      \<open>scope.variables[name].value = value\<close> then goes to that object\<close>
  "updateScopeVariable scopeId name val m =
     (case List.find (hasScopeId scopeId) (scopes m) of
        None \<Rightarrow> m
      | Some sc \<Rightarrow>
          (case getProperty (scope_variables sc) name of
             Absent \<Rightarrow> m
           | Own b \<Rightarrow>
               (let sc1 = sc\<lparr> scope_variables :=
                            (scope_variables sc)(name \<mapsto> b\<lparr> sb_value := val \<rparr>) \<rparr>
                in notify (NScopes ''updateVariable'' (Some sc1) (Some name))
                     (m\<lparr> scopes := updateFirst (hasScopeId scopeId) (\<lambda>_. sc1) (scopes m) \<rparr>))
           | InheritedFunction \<Rightarrow>
               notify (NScopes ''updateVariable'' (Some sc) (Some name))
                 (m\<lparr> inheritedValue := (inheritedValue m)(name \<mapsto> val) \<rparr>)
           | PrototypeObject \<Rightarrow>
               notify (NScopes ''updateVariable'' (Some sc) (Some name))
                 (m\<lparr> prototypeWritten := True \<rparr>)))"

definition destroyScope :: "string option \<Rightarrow> manager \<Rightarrow> manager" where
  "destroyScope scopeId m =
     (case List.find (hasScopeId scopeId) (scopes m) of
        None \<Rightarrow> m
      | Some sc \<Rightarrow>
          notify (NScopes ''destroy'' (Some sc) None)
            (m\<lparr> scopes := removeFirst (hasScopeId scopeId) (scopes m) \<rparr>))"

record taskInput =
  ti_name :: string
  ti_callback :: "string option"
  ti_delay :: string
  ti_type :: string

definition addToWebAPI :: "nat \<Rightarrow> taskInput \<Rightarrow> manager \<Rightarrow> task \<times> manager" where
  \<comment> \<open>\<open>fresh\<close> is the value of \<open>Date.now() + Math.random()\<close>; the id of the argument is not read\<close>
  "addToWebAPI fresh ti m =
     (let apiTask = \<lparr> task_id = fresh, task_name = ti_name ti, task_callback = ti_callback ti,
            task_delay = (if ti_delay ti = [] then ''0'' else ti_delay ti),
            task_type = (if ti_type ti = [] then ''timer'' else ti_type ti) \<rparr>;
          el = eventLoop m;
          m1 = m\<lparr> eventLoop := el\<lparr> webAPIs := webAPIs el @ [apiTask] \<rparr> \<rparr>
      in (apiTask, notify (NEventLoop ''addWebAPI'' (Some apiTask)) m1))"

definition moveToCallbackQueue :: "nat \<Rightarrow> manager \<Rightarrow> task option \<times> manager" where
  "moveToCallbackQueue taskId m =
     (let el = eventLoop m in
      case List.find (\<lambda>t. task_id t = taskId) (webAPIs el) of
        None \<Rightarrow> (None, m)
      | Some t \<Rightarrow>
          (let el1 = el\<lparr> webAPIs := removeFirst (\<lambda>t. task_id t = taskId) (webAPIs el) \<rparr>;
               el2 = el1\<lparr> callbackQueue := callbackQueue el1 @ [t] \<rparr>
           in (Some t, notify (NEventLoop ''moveToCallback'' (Some t)) (m\<lparr> eventLoop := el2 \<rparr>))))"

definition addToMicrotaskQueue :: "nat \<Rightarrow> taskInput \<Rightarrow> manager \<Rightarrow> task \<times> manager" where
  "addToMicrotaskQueue fresh ti m =
     (let microTask = \<lparr> task_id = fresh, task_name = ti_name ti, task_callback = ti_callback ti,
            task_delay = [], task_type = ''microtask'' \<rparr>;
          el = eventLoop m;
          m1 = m\<lparr> eventLoop := el\<lparr> microtaskQueue := microtaskQueue el @ [microTask] \<rparr> \<rparr>
      in (microTask, notify (NEventLoop ''addMicrotask'' (Some microTask)) m1))"

definition processNextMicrotask :: "manager \<Rightarrow> task option \<times> manager" where
  "processNextMicrotask m =
     (let el = eventLoop m in
      case microtaskQueue el of
        [] \<Rightarrow> (None, m)
      | t # rest \<Rightarrow>
          (Some t, notify (NEventLoop ''processMicrotask'' (Some t))
                     (m\<lparr> eventLoop := el\<lparr> microtaskQueue := rest \<rparr> \<rparr>)))"

definition processNextCallback :: "manager \<Rightarrow> task option \<times> manager" where
  "processNextCallback m =
     (let el = eventLoop m in
      case callbackQueue el of
        [] \<Rightarrow> (None, m)
      | t # rest \<Rightarrow>
          (Some t, notify (NEventLoop ''processCallback'' (Some t))
                     (m\<lparr> eventLoop := el\<lparr> callbackQueue := rest \<rparr> \<rparr>)))"

definition setCurrentLine :: "int \<Rightarrow> manager \<Rightarrow> manager" where
  "setCurrentLine l m = notify (NCurrentLine l) (m\<lparr> currentLine := l \<rparr>)"

definition incrementStep :: "manager \<Rightarrow> nat \<times> manager" where
  "incrementStep m = (currentStep m + 1, m\<lparr> currentStep := currentStep m + 1 \<rparr>)"

definition setExecutionState :: "bool \<Rightarrow> bool \<Rightarrow> manager \<Rightarrow> manager" where
  "setExecutionState running paused m =
     notify (NExecution running paused) (m\<lparr> isRunning := running, isPaused := paused \<rparr>)"

definition setSpeed :: "int \<Rightarrow> manager \<Rightarrow> manager" where
  "setSpeed sp m = m\<lparr> speed := sp \<rparr>"

definition logConsole :: "string \<Rightarrow> string list \<Rightarrow> manager \<Rightarrow> manager" where
  "logConsole ty args m = notify (NConsole ty args) m"

definition addTimer :: "nat \<Rightarrow> manager \<Rightarrow> manager" where
  "addTimer timerId m = m\<lparr> timers := timers m @ [timerId] \<rparr>"

definition reset :: "manager \<Rightarrow> manager" where
  \<comment> \<open>\<open>clearTimeout\<close> on every tracked handle acts on the host, not on the state\<close>
  "reset m =
     (let m1 = m\<lparr> code := code m, parsedCode := [], callStack := [], heap := Map.empty,
                  heapIdCounter := 0, scopes := [], scopeIdCounter := 0,
                  eventLoop := \<lparr> webAPIs = [], callbackQueue = [], microtaskQueue = [] \<rparr>,
                  currentLine := -1, currentStep := 0, isRunning := False, isPaused := False,
                  speed := speed m, executionQueue := [], timers := [] \<rparr>
      in notify (NExecution False False)
          (notify (NCurrentLine (-1))
            (notify (NEventLoop ''reset'' None)
              (notify (NScopes ''reset'' None None)
                (notify (NHeap ''reset'' None None)
                  (notify (NCallStack ''reset'' None) m1))))))"

subsection \<open>Sequences of StateManager operations\<close>

text \<open>
  The executor and every other client change the state only through the public
  operations, so the states of a session are the states reached from the initial one by
  a sequence of operations.
\<close>

datatype storeOp =
    OpSetCode string
  | OpSetParsedCode "instruction list"
  | OpPushCallStack nat frameInput
  | OpPopCallStack
  | OpUpdateFrameVariable string string string
  | OpAllocateHeap string heapPayload "string option"
  | OpAddHeapReference string string
  | OpDeallocateHeap string
  | OpCreateScope string string "string option"
  | OpAddScopeVariable "string option" string jsvalue string string
  | OpUpdateScopeVariable "string option" string jsvalue
  | OpDestroyScope "string option"
  | OpAddToWebAPI nat taskInput
  | OpMoveToCallbackQueue nat
  | OpAddToMicrotaskQueue nat taskInput
  | OpProcessNextMicrotask
  | OpProcessNextCallback
  | OpSetCurrentLine int
  | OpIncrementStep
  | OpSetExecutionState bool bool
  | OpSetSpeed int
  | OpLogConsole string "string list"
  | OpAddTimer nat
  | OpReset

fun applyOp :: "storeOp \<Rightarrow> manager \<Rightarrow> manager" where
  "applyOp (OpSetCode c) m = setCode c m"
| "applyOp (OpSetParsedCode p) m = setParsedCode p m"
| "applyOp (OpPushCallStack fresh fi) m = snd (pushCallStack fresh fi m)"
| "applyOp OpPopCallStack m = snd (popCallStack m)"
| "applyOp (OpUpdateFrameVariable n v t) m = updateFrameVariable n v t m"
| "applyOp (OpAllocateHeap t v r) m = snd (allocateHeap t v r m)"
| "applyOp (OpAddHeapReference f t) m = addHeapReference f t m"
| "applyOp (OpDeallocateHeap i) m = deallocateHeap i m"
| "applyOp (OpCreateScope n t p) m = snd (createScope n t p m)"
| "applyOp (OpAddScopeVariable s n v t d) m = addScopeVariable s n v t d m"
| "applyOp (OpUpdateScopeVariable s n v) m = updateScopeVariable s n v m"
| "applyOp (OpDestroyScope s) m = destroyScope s m"
| "applyOp (OpAddToWebAPI fresh ti) m = snd (addToWebAPI fresh ti m)"
| "applyOp (OpMoveToCallbackQueue i) m = snd (moveToCallbackQueue i m)"
| "applyOp (OpAddToMicrotaskQueue fresh ti) m = snd (addToMicrotaskQueue fresh ti m)"
| "applyOp OpProcessNextMicrotask m = snd (processNextMicrotask m)"
| "applyOp OpProcessNextCallback m = snd (processNextCallback m)"
| "applyOp (OpSetCurrentLine l) m = setCurrentLine l m"
| "applyOp OpIncrementStep m = snd (incrementStep m)"
| "applyOp (OpSetExecutionState r p) m = setExecutionState r p m"
| "applyOp (OpSetSpeed sp) m = setSpeed sp m"
| "applyOp (OpLogConsole t as) m = logConsole t as m"
| "applyOp (OpAddTimer h) m = addTimer h m"
| "applyOp OpReset m = reset m"

fun runOps :: "storeOp list \<Rightarrow> manager \<Rightarrow> manager" where
  "runOps [] m = m"
| "runOps (op # ops) m = runOps ops (applyOp op m)"

text \<open>The identities that the allocations of a sequence return, in order.\<close>

fun allocatedIds :: "storeOp list \<Rightarrow> manager \<Rightarrow> string list" where
  "allocatedIds [] m = []"
| "allocatedIds (OpAllocateHeap t v r # ops) m =
     fst (allocateHeap t v r m) # allocatedIds ops (applyOp (OpAllocateHeap t v r) m)"
| "allocatedIds (op # ops) m = allocatedIds ops (applyOp op m)"

fun returnedId :: "storeOp \<Rightarrow> manager \<Rightarrow> string list" where
  \<comment> \<open>the identity that an allocation returns in a state (no other operation returns one)\<close>
  "returnedId (OpAllocateHeap t v r) m = [fst (allocateHeap t v r m)]"
| "returnedId op m = []"

fun drawsIdentity :: "storeOp \<Rightarrow> bool" where
  \<comment> \<open>an allocation that leaves the identity to the counter (no \<open>refId\<close>, or an empty one)\<close>
  "drawsIdentity (OpAllocateHeap t v None) = True"
| "drawsIdentity (OpAllocateHeap t v (Some r)) = (r = [])"
| "drawsIdentity op = False"

fun givesIdentity :: "storeOp \<Rightarrow> bool" where
  \<comment> \<open>an allocation whose caller passes the identity\<close>
  "givesIdentity (OpAllocateHeap t v (Some r)) = (r \<noteq> [])"
| "givesIdentity op = False"

text \<open>The identities that the allocations of a sequence draw from the counter, in order.\<close>

fun drawnIds :: "storeOp list \<Rightarrow> manager \<Rightarrow> string list" where
  "drawnIds [] m = []"
| "drawnIds (op # ops) m =
     (if drawsIdentity op then returnedId op m else []) @ drawnIds ops (applyOp op m)"

definition activeOnlyTop :: "frame list \<Rightarrow> bool" where
  \<comment> \<open>the active frames are exactly the top of the stack\<close>
  "activeOnlyTop cs = (\<forall>i < length cs. isActive (cs ! i) = (Suc i = length cs))"

definition referencesDistinct :: "(string \<rightharpoonup> heapObject) \<Rightarrow> bool" where
  "referencesDistinct h = (\<forall>i obj. h i = Some obj \<longrightarrow> distinct (references obj))"

subsection \<open>Parser: text operations\<close>

text \<open>
  A text is a list of 8-bit characters. \<open>isSpace\<close> is the white space of \<open>trim()\<close> and of
  \<open>\s\<close> among them, \<open>isWord\<close> is \<open>\w\<close>, \<open>isDigit\<close> is \<open>\d\<close>.
\<close>

definition isSpace :: "char \<Rightarrow> bool" where
  "isSpace c = (c \<in> set [CHR 0x09, CHR 0x0A, CHR 0x0B, CHR 0x0C, CHR 0x0D, CHR 0x20, CHR 0xA0])"

definition isDigit :: "char \<Rightarrow> bool" where
  "isDigit c = (c \<in> set ''0123456789'')"

definition isWord :: "char \<Rightarrow> bool" where
  "isWord c = (c \<in> set ''abcdefghijklmnopqrstuvwxyzABCDEFGHIJKLMNOPQRSTUVWXYZ0123456789_'')"

definition trim :: "string \<Rightarrow> string" where
  "trim s = rev (dropWhile isSpace (rev (dropWhile isSpace s)))"

fun splitFrom :: "char \<Rightarrow> string \<Rightarrow> string \<Rightarrow> string list" where
  "splitFrom sep cur [] = [cur]"
| "splitFrom sep cur (c # cs) =
     (if c = sep then cur # splitFrom sep [] cs else splitFrom sep (cur @ [c]) cs)"

definition splitText :: "char \<Rightarrow> string \<Rightarrow> string list" where
  \<comment> \<open>\<open>s.split(sep)\<close> for a separator of one character\<close>
  "splitText sep s = splitFrom sep [] s"

definition startsWith :: "string \<Rightarrow> string \<Rightarrow> bool" where
  "startsWith s p = (take (length p) s = p)"

definition endsWith :: "string \<Rightarrow> string \<Rightarrow> bool" where
  "endsWith s p = (length p \<le> length s \<and> drop (length s - length p) s = p)"

fun includesText :: "string \<Rightarrow> string \<Rightarrow> bool" where
  "includesText [] p = (p = [])"
| "includesText (c # cs) p = (startsWith (c # cs) p \<or> includesText cs p)"

definition slice1 :: "string \<Rightarrow> string" where
  \<comment> \<open>\<open>s.slice(1, -1)\<close>\<close>
  "slice1 s = butlast (drop 1 s)"

subsection \<open>Parser: the text of a number\<close>

text \<open>
  A numeral \<open>-?\d+(\.\d+)?\<close> is read by \<open>parseFloat\<close> (a run of digits by \<open>parseInt\<close>) and
  the number is printed by \<open>String\<close>. For a numeral of at most fifteen significant digits
  the printed text is determined by the digits: it is computed here following
  \<open>Number::toString\<close> (the digits without leading and trailing zeros, the exponent \<open>n\<close>
  with value \<open>0.digits \<times> 10\<^sup>n\<close>, plain notation for \<open>-6 < n \<le> 21\<close>). For a numeral with more
  significant digits the number is the nearest double, whose text is not computed: the
  function then still gives the text of the numeral's own value.
\<close>

definition numberText :: "string \<Rightarrow> string" where
  "numberText txt =
     (let negative = startsWith txt ''-'';
          unsigned = (if negative then drop 1 txt else txt);
          intPart = takeWhile isDigit unsigned;
          fracPart = drop (length intPart + 1) unsigned;
          digits = intPart @ fracPart;
          zeros = length (takeWhile (\<lambda>c. c = CHR ''0'') digits);
          sig = rev (dropWhile (\<lambda>c. c = CHR ''0'') (rev (drop zeros digits)));
          k = length sig;
          n = int (length intPart) - int zeros;
          body =
            (if sig = [] then ''0''
             else if int k \<le> n \<and> n \<le> 21 then sig @ replicate (nat (n - int k)) CHR ''0''
             else if 0 < n \<and> n \<le> 21 then take (nat n) sig @ ''.'' @ drop (nat n) sig
             else if -6 < n \<and> n \<le> 0 then ''0.'' @ replicate (nat (- n)) CHR ''0'' @ sig
             else (if k = 1 then sig else take 1 sig @ ''.'' @ drop 1 sig)
                  @ ''e'' @ (if n - 1 < 0 then ''-'' else ''+'') @ dec (nat (abs (n - 1))))
      in if negative \<and> sig \<noteq> [] then ''-'' @ body else body)"

subsection \<open>Parser: regular expressions\<close>

text \<open>
  The regular expressions of the parser use literal characters, character classes,
  sequence, alternative, the greedy quantifiers \<open>?\<close>, \<open>*\<close>, \<open>+\<close>, the lazy quantifiers \<open>*?\<close>,
  \<open>+?\<close>, capture groups and the end anchor \<open>$\<close>. The start anchor \<open>^\<close> only occurs as the
  first item of an expression: such an expression is matched at the start of the text
  (\<open>matchStart\<close>), the others at the first position where they match (\<open>search\<close>).

  \<open>matches r (rest, groups)\<close> lists the ways in which \<open>r\<close> matches a prefix of \<open>rest\<close>, each
  with the text that is left and the groups captured so far, in the order in which a
  backtracking matcher tries them; the first element of the list for the whole
  expression is the match that \<open>String.prototype.match\<close> returns. A quantifier does not
  repeat an iteration that has consumed nothing.
\<close>

datatype charClass =
    AnyChar
      \<comment> \<open>\<open>.\<close>: every character but a line terminator\<close>
  | Space
  | Word
  | Digit
  | NoneOf string
  | OneOf string

fun inClass :: "charClass \<Rightarrow> char \<Rightarrow> bool" where
  "inClass AnyChar c = (c \<noteq> CHR 0x0A \<and> c \<noteq> CHR 0x0D)"
| "inClass Space c = isSpace c"
| "inClass Word c = isWord c"
| "inClass Digit c = isDigit c"
| "inClass (NoneOf cs) c = (c \<notin> set cs)"
| "inClass (OneOf cs) c = (c \<in> set cs)"

datatype regex =
    Lit string
  | Class charClass
  | Seq regex regex
  | Alt regex regex
  | Opt regex
  | Star regex
  | LazyStar regex
  | Group nat regex
  | End

type_synonym matchState = "string \<times> (nat \<rightharpoonup> string)"

fun iterate :: "bool \<Rightarrow> (matchState \<Rightarrow> matchState list) \<Rightarrow> nat \<Rightarrow> matchState \<Rightarrow> matchState list" where
  \<comment> \<open>the iterations of a quantifier; the third argument bounds their number, and the
      length of the text does, since every iteration consumes a character\<close>
  "iterate greedy once 0 st = [st]"
| "iterate greedy once (Suc n) st =
     (let further = concat (map (\<lambda>st'. if length (fst st') < length (fst st)
                                          then iterate greedy once n st' else [])
                                (once st))
      in if greedy then further @ [st] else st # further)"

primrec matches :: "regex \<Rightarrow> matchState \<Rightarrow> matchState list" where
  "matches (Lit s) =
     (\<lambda>st. if take (length s) (fst st) = s then [(drop (length s) (fst st), snd st)] else [])"
| "matches (Class k) =
     (\<lambda>st. case fst st of [] \<Rightarrow> [] | c # cs \<Rightarrow> if inClass k c then [(cs, snd st)] else [])"
| "matches (Seq a b) = (\<lambda>st. concat (map (matches b) (matches a st)))"
| "matches (Alt a b) = (\<lambda>st. matches a st @ matches b st)"
| "matches (Opt a) =
     (\<lambda>st. filter (\<lambda>st'. length (fst st') < length (fst st)) (matches a st) @ [st])"
| "matches (Star a) = (\<lambda>st. iterate True (matches a) (length (fst st)) st)"
| "matches (LazyStar a) = (\<lambda>st. iterate False (matches a) (length (fst st)) st)"
| "matches (Group n a) =
     (\<lambda>st. map (\<lambda>st'. (fst st',
                        (snd st')(n \<mapsto> take (length (fst st) - length (fst st')) (fst st))))
                (matches a st))"
| "matches End = (\<lambda>st. if fst st = [] then [st] else [])"

definition matchStart :: "regex \<Rightarrow> string \<Rightarrow> (nat \<rightharpoonup> string) option" where
  "matchStart r s = (case matches r (s, Map.empty) of [] \<Rightarrow> None | st # sts \<Rightarrow> Some (snd st))"

fun search :: "regex \<Rightarrow> string \<Rightarrow> (nat \<rightharpoonup> string) option" where
  "search r [] = matchStart r []"
| "search r (c # cs) =
     (case matchStart r (c # cs) of Some m \<Rightarrow> Some m | None \<Rightarrow> search r cs)"

definition group :: "(nat \<rightharpoonup> string) \<Rightarrow> nat \<Rightarrow> string" where
  \<comment> \<open>the text of a group; the empty text for a group that took no part in the match
      (both are falsy where the parser tests a group)\<close>
  "group m n = (case m n of Some s \<Rightarrow> s | None \<Rightarrow> [])"

fun seqs :: "regex list \<Rightarrow> regex" where
  "seqs [] = Lit []"
| "seqs [r] = r"
| "seqs (r # rs) = Seq r (seqs rs)"

definition oneOrMore :: "regex \<Rightarrow> regex" where
  "oneOrMore r = Seq r (Star r)"

definition lazyOneOrMore :: "regex \<Rightarrow> regex" where
  "lazyOneOrMore r = Seq r (LazyStar r)"

definition spaces :: regex where
  \<comment> \<open>\<open>\s*\<close>\<close>
  "spaces = Star (Class Space)"

definition spaces1 :: regex where
  \<comment> \<open>\<open>\s+\<close>\<close>
  "spaces1 = oneOrMore (Class Space)"

definition wordChars :: regex where
  \<comment> \<open>\<open>\w+\<close>\<close>
  "wordChars = oneOrMore (Class Word)"

definition declKeyword :: regex where
  \<comment> \<open>\<open>var|let|const\<close>\<close>
  "declKeyword = Alt (Lit ''var'') (Alt (Lit ''let'') (Lit ''const''))"

definition untilParen :: regex where
  \<comment> \<open>\<open>[^)]*\<close>\<close>
  "untilParen = Star (Class (NoneOf '')''))"

definition funcRegex :: regex where
  \<comment> \<open>\<open>/^function\s+(\w+)\s*\(([^)]*)\)\s*{?/\<close>\<close>
  "funcRegex = seqs [Lit ''function'', spaces1, Group 1 wordChars, spaces, Lit ''('',
     Group 2 untilParen, Lit '')'', spaces, Opt (Lit ''{'')]"

definition bodyRegex :: regex where
  \<comment> \<open>\<open>/{(.*)}/\<close>\<close>
  "bodyRegex = seqs [Lit ''{'', Group 1 (Star (Class AnyChar)), Lit ''}'']"

definition varRegex :: regex where
  \<comment> \<open>\<open>/^(var|let|const)\s+(\w+)\s*=\s*(.+?);?$/\<close>\<close>
  "varRegex = seqs [Group 1 declKeyword, spaces1, Group 2 wordChars, spaces, Lit ''='', spaces,
     Group 3 (lazyOneOrMore (Class AnyChar)), Opt (Lit '';''), End]"

definition varDeclRegex :: regex where
  \<comment> \<open>\<open>/^(var|let|const)\s+(\w+)\s*;?$/\<close>\<close>
  "varDeclRegex = seqs [Group 1 declKeyword, spaces1, Group 2 wordChars, spaces, Opt (Lit '';''), End]"

definition setTimeoutRegex :: regex where
  \<comment> \<open>\<open>/setTimeout\s*\(\s*(?:function\s*\(\)\s*{([^}]*)}\s*|(\w+))\s*,\s*(\d+)\s*\)/\<close>\<close>
  "setTimeoutRegex = seqs [Lit ''setTimeout'', spaces, Lit ''('', spaces,
     Alt (seqs [Lit ''function'', spaces, Lit ''()'', spaces, Lit ''{'',
                Group 1 (Star (Class (NoneOf ''}''))), Lit ''}'', spaces])
         (Group 2 wordChars),
     spaces, Lit '','', spaces, Group 3 (oneOrMore (Class Digit)), spaces, Lit '')'']"

definition setTimeoutArrowRegex :: regex where
  \<comment> \<open>\<open>/setTimeout\s*\(\s*\(\)\s*=>\s*{?\s*([^}]*?)\s*}?\s*,\s*(\d+)\s*\)/\<close>\<close>
  "setTimeoutArrowRegex = seqs [Lit ''setTimeout'', spaces, Lit ''('', spaces, Lit ''()'', spaces,
     Lit ''=>'', spaces, Opt (Lit ''{''), spaces, Group 1 (LazyStar (Class (NoneOf ''}''))),
     spaces, Opt (Lit ''}''), spaces, Lit '','', spaces, Group 2 (oneOrMore (Class Digit)), spaces,
     Lit '')'']"

definition promiseRegex :: regex where
  \<comment> \<open>\<open>/Promise\.resolve\s*\([^)]*\)\s*\.then\s*\(\s*(?:function\s*\(\)\s*{([^}]*)}\s*|\(\)\s*=>\s*{?\s*([^})]*?)\s*}?)\s*\)/\<close>\<close>
  "promiseRegex = seqs [Lit ''Promise.resolve'', spaces, Lit ''('', untilParen, Lit '')'', spaces,
     Lit ''.then'', spaces, Lit ''('', spaces,
     Alt (seqs [Lit ''function'', spaces, Lit ''()'', spaces, Lit ''{'',
                Group 1 (Star (Class (NoneOf ''}''))), Lit ''}'', spaces])
         (seqs [Lit ''()'', spaces, Lit ''=>'', spaces, Opt (Lit ''{''), spaces,
                Group 2 (LazyStar (Class (NoneOf ''})''))), spaces, Opt (Lit ''}'')]),
     spaces, Lit '')'']"

definition consoleRegex :: regex where
  \<comment> \<open>\<open>/console\.(log|warn|error|info)\s*\(([^)]*)\)/\<close>\<close>
  "consoleRegex = seqs [Lit ''console.'',
     Group 1 (Alt (Lit ''log'') (Alt (Lit ''warn'') (Alt (Lit ''error'') (Lit ''info'')))),
     spaces, Lit ''('', Group 2 untilParen, Lit '')'']"

definition callRegex :: regex where
  \<comment> \<open>\<open>/^(\w+)\s*\(([^)]*)\)\s*;?$/\<close>\<close>
  "callRegex = seqs [Group 1 wordChars, spaces, Lit ''('', Group 2 untilParen, Lit '')'', spaces,
     Opt (Lit '';''), End]"

definition methodCallRegex :: regex where
  \<comment> \<open>\<open>/^(\w+)\.(\w+)\s*\(([^)]*)\)\s*;?$/\<close>\<close>
  "methodCallRegex = seqs [Group 1 wordChars, Lit ''.'', Group 2 wordChars, spaces, Lit ''('',
     Group 3 untilParen, Lit '')'', spaces, Opt (Lit '';''), End]"

definition assignRegex :: regex where
  \<comment> \<open>\<open>/^(\w+)\s*=\s*(.+?);?$/\<close>\<close>
  "assignRegex = seqs [Group 1 wordChars, spaces, Lit ''='', spaces,
     Group 2 (lazyOneOrMore (Class AnyChar)), Opt (Lit '';''), End]"

definition returnRegex :: regex where
  \<comment> \<open>\<open>/^return\s+(.+?);?$/\<close>\<close>
  "returnRegex = seqs [Lit ''return'', spaces1, Group 1 (lazyOneOrMore (Class AnyChar)),
     Opt (Lit '';''), End]"

definition newRegex :: regex where
  \<comment> \<open>\<open>/^(var|let|const)\s+(\w+)\s*=\s*new\s+(\w+)\s*\(([^)]*)\)\s*;?$/\<close>\<close>
  "newRegex = seqs [Group 1 declKeyword, spaces1, Group 2 wordChars, spaces, Lit ''='', spaces,
     Lit ''new'', spaces1, Group 3 wordChars, spaces, Lit ''('', Group 4 untilParen, Lit '')'', spaces,
     Opt (Lit '';''), End]"

definition numberRegex :: regex where
  \<comment> \<open>\<open>/^-?\d+(\.\d+)?$/\<close>\<close>
  "numberRegex = seqs [Opt (Lit ''-''), oneOrMore (Class Digit),
     Opt (Group 1 (Seq (Lit ''.'') (oneOrMore (Class Digit)))), End]"

definition quoteChars :: string where
  \<comment> \<open>the double quote, the single quote and the backtick\<close>
  "quoteChars = [CHR 0x22, CHR 0x27, CHR 0x60]"

definition stringRegex :: regex where
  \<comment> \<open>\<open>/^["'`].*["'`]$/\<close>\<close>
  "stringRegex = seqs [Class (OneOf quoteChars), Star (Class AnyChar), Class (OneOf quoteChars), End]"

definition arrowRegex :: regex where
  \<comment> \<open>\<open>/^\(?([^)]*)\)?\s*=>\s*(.+)$/\<close>\<close>
  "arrowRegex = seqs [Opt (Lit ''(''), Group 1 untilParen, Opt (Lit '')''), spaces, Lit ''=>'',
     spaces, Group 2 (oneOrMore (Class AnyChar)), End]"

definition funcExprRegex :: regex where
  \<comment> \<open>\<open>/^function\s*\(?([^)]*)\)?\s*{\s*(.*)?\s*}$/\<close>\<close>
  "funcExprRegex = seqs [Lit ''function'', spaces, Opt (Lit ''(''), Group 1 untilParen,
     Opt (Lit '')''), spaces, Lit ''{'', spaces, Opt (Group 2 (Star (Class AnyChar))), spaces,
     Lit ''}'', End]"

definition valueCallRegex :: regex where
  \<comment> \<open>\<open>/^(\w+)\s*\(([^)]*)\)$/\<close>\<close>
  "valueCallRegex = seqs [Group 1 wordChars, spaces, Lit ''('', Group 2 untilParen, Lit '')'', End]"

subsection \<open>Parser: \<open>parseValue\<close> and \<open>parseArguments\<close>\<close>

definition paramList :: "string \<Rightarrow> string list" where
  \<comment> \<open>\<open>s.split(',').map(p => p.trim()).filter(p => p)\<close>\<close>
  "paramList s = filter (\<lambda>p. p \<noteq> []) (map trim (splitText CHR '','' s))"

text \<open>
  The properties of an object literal are collected in an object \<open>props = {}\<close> and read
  back with \<open>Object.entries\<close>: an assignment to a key that is there replaces the value in
  place, an assignment to \<open>__proto__\<close> adds no key, and the keys that are array indices
  come first, in ascending order, before the others in the order of their creation.
\<close>

definition setKey :: "string \<Rightarrow> 'a \<Rightarrow> (string \<times> 'a) list \<Rightarrow> (string \<times> 'a) list" where
  "setKey k v kvs =
     (if k = ''__proto__'' then kvs
      else if k \<in> set (map fst kvs) then map (\<lambda>kv. if fst kv = k then (k, v) else kv) kvs
      else kvs @ [(k, v)])"

definition digitsValue :: "string \<Rightarrow> nat" where
  "digitsValue s = foldl (\<lambda>n c. 10 * n + (of_char c - 48)) 0 s"

definition isArrayIndex :: "string \<Rightarrow> bool" where
  "isArrayIndex k = (k \<noteq> [] \<and> list_all isDigit k \<and> (k = ''0'' \<or> hd k \<noteq> CHR ''0'')
                     \<and> length k \<le> 10 \<and> digitsValue k < 4294967295)"

definition entries :: "(string \<times> 'a) list \<Rightarrow> (string \<times> 'a) list" where
  "entries kvs =
     sort_key (\<lambda>kv. digitsValue (fst kv)) (filter (\<lambda>kv. isArrayIndex (fst kv)) kvs)
     @ filter (\<lambda>kv. \<not> isArrayIndex (fst kv)) kvs"

fun splitTop :: "int \<Rightarrow> string \<Rightarrow> string \<Rightarrow> string list" where
  \<comment> \<open>the loop of \<open>parseArguments\<close>: the texts between the commas at depth 0, the last one
      being what is left in \<open>current\<close> at the end\<close>
  "splitTop depth current [] = [current]"
| "splitTop depth current (c # cs) =
     (let depth1 = (if c \<in> set ''([{'' then depth + 1 else depth);
          depth2 = (if c \<in> set '')]}'' then depth1 - 1 else depth1)
      in if c = CHR '','' \<and> depth2 = 0 then current # splitTop depth2 [] cs
         else splitTop depth2 (current @ [c]) cs)"

definition parseArgumentsWith :: "(string \<Rightarrow> valueExpr) \<Rightarrow> string \<Rightarrow> valueExpr list" where
  "parseArgumentsWith pv argsStr =
     (if trim argsStr = [] then []
      else (let pieces = splitTop 0 [] argsStr
            in map (\<lambda>p. pv (trim p)) (butlast pieces)
               @ (if trim (last pieces) \<noteq> [] then [pv (trim (last pieces))] else [])))"

definition objectPairs :: "(string \<Rightarrow> valueExpr) \<Rightarrow> string \<Rightarrow> (string \<times> valueExpr) list" where
  \<comment> \<open>\<open>pairs.forEach(pair => ...)\<close> followed by \<open>Object.entries\<close>\<close>
  "objectPairs pv inner =
     entries (foldl (\<lambda>props pair.
                (case map trim (splitText CHR '':'' pair) of
                   key # val # others \<Rightarrow>
                     if key \<noteq> [] \<and> val \<noteq> []
                     then setKey (filter (\<lambda>c. c \<noteq> CHR 0x22 \<and> c \<noteq> CHR 0x27) key) (pv val) props
                     else props
                 | short \<Rightarrow> props))
              [] (splitText CHR '','' inner))"

text \<open>
  \<open>parseValue\<close> calls itself on parts of its argument (the elements of an array, the
  values of an object, the arguments of a call). The first argument of \<open>parseValueIn\<close>
  bounds the nesting of these calls; \<open>parseValue\<close> starts it with the length of the
  text, and every nested call is on a shorter text.
\<close>

fun parseValueIn :: "nat \<Rightarrow> string \<Rightarrow> valueExpr" where
  "parseValueIn 0 text = EReference (trim text)"
| "parseValueIn (Suc n) text =
     (let expr = trim text in
      if matchStart numberRegex expr \<noteq> None then ENumber (numberText expr)
      else if matchStart stringRegex expr \<noteq> None then EString (slice1 expr)
      else if expr = ''true'' \<or> expr = ''false'' then EBoolean (expr = ''true'')
      else if expr = ''null'' then ENull
      else if expr = ''undefined'' then EUndefined
      else if startsWith expr ''['' \<and> endsWith expr '']''
      then (let inner = trim (slice1 expr)
            in EArray (if inner \<noteq> []
                       then map (\<lambda>e. parseValueIn n (trim e)) (splitText CHR '','' inner) else []))
      else if startsWith expr ''{'' \<and> endsWith expr ''}''
      then (let inner = trim (slice1 expr)
            in EObject (if inner \<noteq> [] then objectPairs (parseValueIn n) inner else []))
      else
        (case (if includesText expr ''=>'' then matchStart arrowRegex expr else None) of
           Some m \<Rightarrow> EArrowFunction (paramList (group m 1)) (trim (group m 2))
         | None \<Rightarrow>
        (case (if startsWith expr ''function'' then matchStart funcExprRegex expr else None) of
           Some m \<Rightarrow> EFunction (if group m 1 \<noteq> [] then paramList (group m 1) else []) (group m 2)
         | None \<Rightarrow>
        (case matchStart valueCallRegex expr of
           Some m \<Rightarrow> ECall (group m 1) (parseArgumentsWith (parseValueIn n) (group m 2))
         | None \<Rightarrow>
        if includesText expr ''.'' then EPropertyAccess expr
        else EReference expr))))"

definition parseValue :: "string \<Rightarrow> valueExpr" where
  "parseValue expr = parseValueIn (length expr) expr"

definition parseArguments :: "string \<Rightarrow> valueExpr list" where
  "parseArguments argsStr = parseArgumentsWith parseValue argsStr"

subsection \<open>Parser: the line recognisers\<close>

record openFunction =
  of_name :: string
  of_params :: "string list"
  of_line :: nat

record scanner =
  recognised :: "instruction list"
  inFunction :: "openFunction option"
  functionBody :: "string list"
  braceCount :: int

definition braces :: "string \<Rightarrow> int" where
  \<comment> \<open>\<open>(line.match(/{/g) || []).length - (line.match(/}/g) || []).length\<close>\<close>
  "braces line = int (count_list line CHR ''{'') - int (count_list line CHR ''}'')"

definition recogniseStatement :: "nat \<Rightarrow> string \<Rightarrow> instruction list" where
  \<comment> \<open>the recognisers after the one of function declarations, tried in order on a trimmed
      line; the instruction of the first that matches, or nothing\<close>
  "recogniseStatement lineNumber line =
     (case matchStart varRegex line of
        Some m \<Rightarrow> [VariableDeclaration (group m 1) (group m 2) (parseValue (group m 3)) lineNumber]
      | None \<Rightarrow>
     (case matchStart varDeclRegex line of
        Some m \<Rightarrow> [VariableDeclaration (group m 1) (group m 2) EUndefined lineNumber]
      | None \<Rightarrow>
     (case search setTimeoutRegex line of
        Some m \<Rightarrow> [SetTimeout (if group m 1 \<noteq> [] then Some (group m 1) else m 2)
                      (numberText (group m 3)) lineNumber]
      | None \<Rightarrow>
     (case search setTimeoutArrowRegex line of
        Some m \<Rightarrow> [SetTimeout (Some (trim (group m 1))) (numberText (group m 2)) lineNumber]
      | None \<Rightarrow>
     (case search promiseRegex line of
        Some m \<Rightarrow> [Promise (trim (if group m 1 \<noteq> [] then group m 1 else group m 2)) lineNumber]
      | None \<Rightarrow>
     (case search consoleRegex line of
        Some m \<Rightarrow> [Console (group m 1) (parseArguments (group m 2)) lineNumber]
      | None \<Rightarrow>
     (case matchStart callRegex line of
        Some m \<Rightarrow> [FunctionCall (group m 1) (parseArguments (group m 2)) lineNumber]
      | None \<Rightarrow>
     (case matchStart methodCallRegex line of
        Some m \<Rightarrow> [MethodCall (group m 1) (group m 2) (parseArguments (group m 3)) lineNumber]
      | None \<Rightarrow>
     (case matchStart assignRegex line of
        Some m \<Rightarrow> [Assignment (group m 1) (parseValue (group m 2)) lineNumber]
      | None \<Rightarrow>
     (case matchStart returnRegex line of
        Some m \<Rightarrow> [Return (parseValue (group m 1)) lineNumber]
      | None \<Rightarrow>
     (case matchStart newRegex line of
        Some m \<Rightarrow> [NewObject (group m 1) (group m 2) (group m 3) (parseArguments (group m 4))
                      lineNumber]
      | None \<Rightarrow> [])))))))))))"

definition scanLine :: "nat \<Rightarrow> string \<Rightarrow> scanner \<Rightarrow> scanner" where
  \<comment> \<open>one round of the loop over the lines: \<open>raw\<close> is \<open>lines[i]\<close>, \<open>lineNumber\<close> is \<open>i + 1\<close>\<close>
  "scanLine lineNumber raw sc =
     (let line = trim raw in
      if line = [] \<or> startsWith line ''//'' then sc
      else
        (case inFunction sc of
           Some f \<Rightarrow>
             (let cnt = braceCount sc + braces line in
              if cnt = 0
              then sc\<lparr> recognised := recognised sc @
                         [FunctionDeclaration (of_name f) (of_params f) (of_line f)
                            (join [CHR 0x0A] (functionBody sc)) lineNumber False],
                       inFunction := None, functionBody := [], braceCount := cnt \<rparr>
              else sc\<lparr> functionBody := functionBody sc @ [raw], braceCount := cnt \<rparr>)
         | None \<Rightarrow>
             (case matchStart funcRegex line of
                Some m \<Rightarrow>
                  (if braces line = 0 \<and> CHR ''{'' \<in> set line \<and> CHR ''}'' \<in> set line
                   then sc\<lparr> recognised := recognised sc @
                              [FunctionDeclaration (group m 1) (paramList (group m 2)) lineNumber
                                 (case search bodyRegex line of
                                    Some b \<Rightarrow> trim (group b 1) | None \<Rightarrow> [])
                                 lineNumber False],
                            braceCount := braces line \<rparr>
                   else sc\<lparr> inFunction := Some \<lparr> of_name = group m 1,
                                                  of_params = paramList (group m 2),
                                                  of_line = lineNumber \<rparr>,
                            braceCount := braces line \<rparr>)
              | None \<Rightarrow> sc\<lparr> recognised := recognised sc @ recogniseStatement lineNumber line \<rparr>)))"

fun scanFrom :: "nat \<Rightarrow> string list \<Rightarrow> scanner \<Rightarrow> scanner" where
  "scanFrom i [] sc = sc"
| "scanFrom i (raw # lines) sc = scanFrom (i + 1) lines (scanLine (i + 1) raw sc)"

definition scanLines :: "string \<Rightarrow> instruction list" where
  \<comment> \<open>the body of \<open>parse\<close> up to its last statement: the instructions in \<open>instructions\<close>
      when the loop over \<open>code.split('\n')\<close> ends\<close>
  "scanLines source =
     recognised (scanFrom 0 (splitText CHR 0x0A source)
                   \<lparr> recognised = [], inFunction = None, functionBody = [], braceCount = 0 \<rparr>)"

definition parse :: "string \<Rightarrow> instruction list" where
  "parse source = processHoisting (scanLines source)"

subsection \<open>Executor: values\<close>

text \<open>\<open>getValueType\<close> and \<open>formatValue\<close>. A parsed function expression is an object whose
  \<open>type\<close> is \<open>function\<close> or \<open>arrowFunction\<close>; an object literal with such a \<open>type\<close> property
  passes the same test.\<close>

fun isFunctionObject :: "jsvalue \<Rightarrow> bool" where
  "isFunctionObject (VFunction arrow ps b) = True"
| "isFunctionObject (VObject kvs) =
     (map_of kvs ''type'' = Some (VString ''function'')
      \<or> map_of kvs ''type'' = Some (VString ''arrowFunction''))"
| "isFunctionObject v = False"

fun getValueType :: "jsvalue \<Rightarrow> string" where
  "getValueType VNull = ''null''"
| "getValueType VUndefined = ''undefined''"
| "getValueType (VArray vs) = ''array''"
| "getValueType (VFunction arrow ps b) = ''function''"
| "getValueType (VObject kvs) = (if isFunctionObject (VObject kvs) then ''function'' else ''object'')"
| "getValueType (VNumber n) = ''number''"
| "getValueType (VString s) = ''string''"
| "getValueType (VBoolean b) = ''boolean''"

fun formatValue :: "jsvalue \<Rightarrow> string" where
  "formatValue VUndefined = ''undefined''"
| "formatValue VNull = ''null''"
| "formatValue (VString s) = [CHR 0x22] @ s @ [CHR 0x22]"
| "formatValue (VArray vs) =
     (if length vs \<le> 3 then ''['' @ join '', '' (map formatValue vs) @ '']''
      else ''['' @ dec (length vs) @ '' items]'')"
| "formatValue (VFunction arrow ps b) = ''[Function]''"
| "formatValue (VObject kvs) =
     (if isFunctionObject (VObject kvs) then ''[Function]''
      else if length kvs \<le> 2
      then ''{'' @ join '', '' (map (\<lambda>kv. fst kv @ '': '' @ formatValue (snd kv)) kvs) @ ''}''
      else ''{...}'')"
| "formatValue (VNumber n) = n"
| "formatValue (VBoolean b) = (if b then ''true'' else ''false'')"

fun isHeapValue :: "jsvalue \<Rightarrow> bool" where
  \<comment> \<open>\<open>typeof value === 'object' && value !== null\<close>\<close>
  "isHeapValue (VArray vs) = True"
| "isHeapValue (VObject kvs) = True"
| "isHeapValue (VFunction arrow ps b) = True"
| "isHeapValue v = False"

fun isArrayValue :: "jsvalue \<Rightarrow> bool" where
  "isArrayValue (VArray vs) = True"
| "isArrayValue v = False"

subsection \<open>Executor: the module state and the host\<close>

record executor =
  instructions :: "instruction list"
  currentIndex :: nat
  executionStack :: "instruction list"
  globalScope :: "scope option"
  isRunningEx :: bool
  isPausedEx :: bool
  pendingTimers :: "(nat \<times> string option) list"
  pendingMicrotasks :: "string list"

text \<open>
  The executor is described for any line recogniser in the place of the parser's
  (\<open>scan\<close>: the instructions of a text before hoisting; the parser's own is \<open>scanLines\<close>),
  so that what is proved of it does not depend on what a text is recognised as. The
  host decides the numbers \<open>Date.now() + Math.random()\<close>,
  the handles that \<open>setTimeout\<close> returns, and which registered timers fire while the
  executor waits in \<open>await delay()\<close> (each firing calls \<open>moveToCallbackQueue\<close> with the id
  of its task). Timers fire only during such a wait: every other \<open>await\<close> of the
  executor resumes before the host runs another timer.
\<close>

record host =
  scan :: "string \<Rightarrow> instruction list"
  freshId :: "nat \<Rightarrow> nat"
  timerHandle :: "nat \<Rightarrow> nat"
  firedDuring :: "nat \<Rightarrow> nat list"

definition parseBody :: "host \<Rightarrow> string \<Rightarrow> instruction list" where
  \<comment> \<open>\<open>Parser.parseBody(body)\<close> as the executor calls it\<close>
  "parseBody h body = processHoisting (scan h body)"

record world =
  mgr :: manager
  exe :: executor
  idsDrawn :: nat
  timersSet :: nat
  waits :: nat

definition initialExecutor :: executor where
  "initialExecutor = \<lparr> instructions = [], currentIndex = 0, executionStack = [],
     globalScope = None, isRunningEx = False, isPausedEx = False,
     pendingTimers = [], pendingMicrotasks = [] \<rparr>"

definition initialWorld :: world where
  "initialWorld = \<lparr> mgr = initialManager, exe = initialExecutor,
     idsDrawn = 0, timersSet = 0, waits = 0 \<rparr>"

definition moveFired :: "nat list \<Rightarrow> manager \<Rightarrow> manager" where
  "moveFired ids m = foldl (\<lambda>m i. snd (moveToCallbackQueue i m)) m ids"

definition delay :: "host \<Rightarrow> world \<Rightarrow> world" where
  \<comment> \<open>\<open>await delay()\<close>: a timer is set and tracked, then the executor waits for it\<close>
  "delay h w =
     (let m1 = addTimer (timerHandle h (timersSet w)) (mgr w);
          m2 = moveFired (firedDuring h (waits w)) m1
      in w\<lparr> mgr := m2, timersSet := timersSet w + 1, waits := waits w + 1 \<rparr>)"

subsection \<open>Executor: scope chain\<close>

text \<open>
  The loop \<open>for (let i = state.scopes.length - 1; i >= 0; i--)\<close>; the counter of the
  model is \<open>i + 1\<close>. The test \<open>scope.variables[name] !== undefined\<close> holds for whatever
  the read finds, an own binding or an object inherited from \<open>Object.prototype\<close>, and
  the result is the \<open>value\<close> property of what was found: of an inherited function, what
  \<open>updateScopeVariable\<close> has written there, if anything (\<open>inh\<close>); of \<open>Object.prototype\<close>,
  nothing.
\<close>

fun lookupFrom :: "(string \<rightharpoonup> jsvalue) \<Rightarrow> scope list \<Rightarrow> string \<Rightarrow> nat \<Rightarrow> jsvalue" where
  "lookupFrom inh scs name 0 = VUndefined"
| "lookupFrom inh scs name (Suc i) =
     (case getProperty (scope_variables (scs ! i)) name of
        Own b \<Rightarrow> sb_value b
      | InheritedFunction \<Rightarrow> (case inh name of Some v \<Rightarrow> v | None \<Rightarrow> VUndefined)
      | PrototypeObject \<Rightarrow> VUndefined
      | Absent \<Rightarrow> lookupFrom inh scs name i)"

definition lookupVariable :: "manager \<Rightarrow> string \<Rightarrow> jsvalue" where
  "lookupVariable m name =
     (let st = getState m
      in lookupFrom (inheritedValue m) (scopes st) name (length (scopes st)))"

definition getCurrentScopeId :: "manager \<Rightarrow> string option" where
  "getCurrentScopeId m =
     (let st = getState m in
      if length (scopes st) > 0 then Some (scope_id (scopes st ! (length (scopes st) - 1)))
      else None)"

fun findScopeFrom :: "scope list \<Rightarrow> string \<Rightarrow> nat \<Rightarrow> string option" where
  "findScopeFrom scs name 0 = None"
| "findScopeFrom scs name (Suc i) =
     (case getProperty (scope_variables (scs ! i)) name of
        Absent \<Rightarrow> findScopeFrom scs name i
      | found \<Rightarrow> Some (scope_id (scs ! i)))"

definition findVariableScope :: "manager \<Rightarrow> string \<Rightarrow> string option" where
  "findVariableScope m name =
     (let st = getState m in
      case findScopeFrom (scopes st) name (length (scopes st)) of
        Some i \<Rightarrow> Some i
      | None \<Rightarrow> getCurrentScopeId m)"

subsection \<open>Executor: instructions that resolve no value\<close>

definition executeHoisting :: "string list \<Rightarrow> string list \<Rightarrow> world \<Rightarrow> world" where
  "executeHoisting fs vs w =
     w\<lparr> mgr := logConsole ''info''
          [''Hoisting: Functions ['' @ join '', '' fs @ ''], Vars ['' @ join '', '' vs @ '']'']
          (mgr w) \<rparr>"

definition executeFunctionDeclaration ::
    "string \<Rightarrow> string list \<Rightarrow> string \<Rightarrow> world \<Rightarrow> world" where
  "executeFunctionDeclaration name params body w =
     (let (funcId, m1) = allocateHeap ''function''
            (FunctionPayload name params body (getCurrentScopeId (mgr w))) None (mgr w);
          m2 = addScopeVariable (getCurrentScopeId m1) name (VString funcId)
                 ''function'' ''function'' m1;
          m3 = updateFrameVariable name (''[Function: '' @ name @ '']'') ''function'' m2
      in w\<lparr> mgr := m3 \<rparr>)"

definition executeHoistedVar :: "string \<Rightarrow> world \<Rightarrow> world" where
  "executeHoistedVar name w =
     (let m1 = addScopeVariable (getCurrentScopeId (mgr w)) name VUndefined
                 ''undefined'' ''var'' (mgr w);
          m2 = updateFrameVariable name ''undefined'' ''undefined'' m1
      in w\<lparr> mgr := m2 \<rparr>)"

definition executeSetTimeout :: "host \<Rightarrow> string option \<Rightarrow> string \<Rightarrow> world \<Rightarrow> world" where
  "executeSetTimeout h callback dl w =
     (let taskId = freshId h (idsDrawn w);
          (t, m1) = addToWebAPI (freshId h (idsDrawn w + 1))
                      \<lparr> ti_name = ''setTimeout'', ti_callback = callback, ti_delay = dl,
                        ti_type = ''timer'' \<rparr> (mgr w);
          m2 = logConsole ''info'' [''setTimeout registered ('' @ dl @ ''ms)''] m1;
          m3 = addTimer (timerHandle h (timersSet w)) m2
      in w\<lparr> mgr := m3,
            exe := (exe w)\<lparr> pendingTimers := pendingTimers (exe w) @ [(taskId, callback)] \<rparr>,
            idsDrawn := idsDrawn w + 2, timersSet := timersSet w + 1 \<rparr>)"

definition executePromise :: "host \<Rightarrow> string \<Rightarrow> world \<Rightarrow> world" where
  "executePromise h callback w =
     (let (t, m1) = addToMicrotaskQueue (freshId h (idsDrawn w))
                      \<lparr> ti_name = ''Promise.then'', ti_callback = Some callback, ti_delay = [],
                        ti_type = [] \<rparr> (mgr w);
          m2 = logConsole ''info'' [''Promise.then added to microtask queue''] m1
      in w\<lparr> mgr := m2,
            exe := (exe w)\<lparr> pendingMicrotasks := pendingMicrotasks (exe w) @ [callback] \<rparr>,
            idsDrawn := idsDrawn w + 1 \<rparr>)"

definition executeNewObject :: "string \<Rightarrow> string \<Rightarrow> world \<Rightarrow> world" where
  "executeNewObject declType name w =
     (let (heapId, m1) = allocateHeap ''object'' (ValuePayload (VObject [])) None (mgr w);
          m2 = addScopeVariable (getCurrentScopeId m1) name (VString heapId) ''object'' declType m1;
          m3 = updateFrameVariable name ''{...}'' ''object'' m2
      in w\<lparr> mgr := m3 \<rparr>)"

subsection \<open>Executor: instructions that resolve a value, after the value is resolved\<close>

text \<open>
  Each of the next four is the body of the source function of the same name from the
  statement after \<open>await resolveValue(...)\<close> on; the value is their argument.
\<close>

definition executeVariableDeclaration :: "string \<Rightarrow> string \<Rightarrow> jsvalue \<Rightarrow> world \<Rightarrow> world" where
  "executeVariableDeclaration declType name val w =
     (let valueType = getValueType val;
          (storedValue, m1) =
             (if isHeapValue val
              then (let (heapId, m) = allocateHeap (if isArrayValue val then ''array'' else ''object'')
                                        (ValuePayload val) None (mgr w)
                    in (VString heapId, m))
              else (val, mgr w));
          m2 = addScopeVariable (getCurrentScopeId m1) name storedValue valueType declType m1;
          m3 = updateFrameVariable name (formatValue val) valueType m2
      in w\<lparr> mgr := m3 \<rparr>)"

definition executeAssignment :: "string \<Rightarrow> jsvalue \<Rightarrow> world \<Rightarrow> world" where
  "executeAssignment name val w =
     (let valueType = getValueType val;
          m1 = updateScopeVariable (findVariableScope (mgr w) name) name val (mgr w);
          m2 = updateFrameVariable name (formatValue val) valueType m1
      in w\<lparr> mgr := m2 \<rparr>)"

definition executeConsole :: "string \<Rightarrow> jsvalue list \<Rightarrow> world \<Rightarrow> world" where
  "executeConsole method args w =
     (let formatted = join '' '' (map formatValue args)
      in w\<lparr> mgr := logConsole method [formatted] (mgr w) \<rparr>)"

definition executeReturn :: "jsvalue \<Rightarrow> world \<Rightarrow> world" where
  "executeReturn val w =
     w\<lparr> mgr := logConsole ''log'' [''Return: '' @ formatValue val] (mgr w) \<rparr>"

fun bindParameters :: "string option \<Rightarrow> string list \<Rightarrow> jsvalue list \<Rightarrow> manager \<Rightarrow> manager" where
  \<comment> \<open>\<open>func.params.forEach((param, i) => ...)\<close>; an argument that is missing is \<open>undefined\<close>\<close>
  "bindParameters scopeId [] args m = m"
| "bindParameters scopeId (param # params) args m =
     (let val = (case args of [] \<Rightarrow> VUndefined | a # rest \<Rightarrow> a);
          m1 = addScopeVariable scopeId param val (getValueType val) ''param'' m;
          m2 = updateFrameVariable param (formatValue val) (getValueType val) m1
      in bindParameters scopeId params (case args of [] \<Rightarrow> [] | a # rest \<Rightarrow> rest) m2)"

fun instParams :: "instruction \<Rightarrow> string list" where
  "instParams (FunctionDeclaration n ps l b e h) = ps"
| "instParams i = []"

fun instBody :: "instruction \<Rightarrow> string" where
  "instBody (FunctionDeclaration n ps l b e h) = b"
| "instBody i = []"

fun instExprs :: "instruction \<Rightarrow> valueExpr list" where
  \<comment> \<open>the value expressions that an instruction carries\<close>
  "instExprs (VariableDeclaration d n e l) = [e]"
| "instExprs (Assignment n e l) = [e]"
| "instExprs (Return e l) = [e]"
| "instExprs (FunctionCall n args l) = args"
| "instExprs (Console m args l) = args"
| "instExprs (MethodCall ob m args l) = args"
| "instExprs i = []"

subsection \<open>Executor: the interpreter\<close>

text \<open>
  \<open>resolveValue\<close>, \<open>executeFunctionCall\<close> and \<open>executeInstruction\<close> call each other, and a
  function body is parsed again on every call, so a call may nest without end. \<open>fuel\<close>
  bounds the nesting of function calls: entering a function body takes one unit, and
  \<open>None\<close> says that the fuel did not suffice.

  The properties of an object literal are resolved one after the other, as the source's
  \<open>for\<close> loop with \<open>await\<close> does. The elements of an array and of an argument list, which
  the source hands to \<open>Promise.all\<close> together, are resolved from left to right: this is the
  order of the source's effects when no element calls a declared function; where one
  does, the source interleaves the body of the call with the resolution of the elements
  after it, which the model does not follow.
\<close>

function
  resolveValue :: "host \<Rightarrow> nat \<Rightarrow> valueExpr \<Rightarrow> world \<Rightarrow> (jsvalue \<times> world) option" and
  resolveValues :: "host \<Rightarrow> nat \<Rightarrow> valueExpr list \<Rightarrow> world \<Rightarrow> (jsvalue list \<times> world) option" and
  resolveProps :: "host \<Rightarrow> nat \<Rightarrow> (string \<times> valueExpr) list \<Rightarrow> world \<Rightarrow>
      ((string \<times> jsvalue) list \<times> world) option" and
  executeFunctionCall :: "host \<Rightarrow> nat \<Rightarrow> string \<Rightarrow> valueExpr list \<Rightarrow> world \<Rightarrow> world option" and
  executeInstruction :: "host \<Rightarrow> nat \<Rightarrow> instruction \<Rightarrow> world \<Rightarrow> world option" and
  executeBody :: "host \<Rightarrow> nat \<Rightarrow> nat \<Rightarrow> instruction list \<Rightarrow> world \<Rightarrow> world option"
where
  "resolveValue h fuel (ENumber n) w = Some (VNumber n, w)"
| "resolveValue h fuel (EString s) w = Some (VString s, w)"
| "resolveValue h fuel (EBoolean b) w = Some (VBoolean b, w)"
| "resolveValue h fuel ENull w = Some (VNull, w)"
| "resolveValue h fuel EUndefined w = Some (VUndefined, w)"
| "resolveValue h fuel (EArray es) w =
     (case resolveValues h fuel es w of
        None \<Rightarrow> None
      | Some (vs, w1) \<Rightarrow> Some (VArray vs, w1))"
| "resolveValue h fuel (EObject props) w =
     (case resolveProps h fuel props w of
        None \<Rightarrow> None
      | Some (kvs, w1) \<Rightarrow> Some (VObject kvs, w1))"
| "resolveValue h fuel (EReference name) w = Some (lookupVariable (mgr w) name, w)"
| "resolveValue h fuel (ECall name args) w =
     (case executeFunctionCall h fuel name args w of
        None \<Rightarrow> None
      | Some w1 \<Rightarrow> Some (VUndefined, w1))"
| "resolveValue h fuel (EFunction ps b) w = Some (VFunction False ps b, w)"
| "resolveValue h fuel (EArrowFunction ps b) w = Some (VFunction True ps b, w)"
| "resolveValue h fuel (EPropertyAccess e) w = Some (VString e, w)"

| "resolveValues h fuel [] w = Some ([], w)"
| "resolveValues h fuel (e # es) w =
     (case resolveValue h fuel e w of
        None \<Rightarrow> None
      | Some (v, w1) \<Rightarrow>
          (case resolveValues h fuel es w1 of
             None \<Rightarrow> None
           | Some (vs, w2) \<Rightarrow> Some (v # vs, w2)))"

| "resolveProps h fuel [] w = Some ([], w)"
| "resolveProps h fuel ((k, e) # props) w =
     (case resolveValue h fuel e w of
        None \<Rightarrow> None
      | Some (v, w1) \<Rightarrow>
          (case resolveProps h fuel props w1 of
             None \<Rightarrow> None
           | Some (kvs, w2) \<Rightarrow> Some ((k, v) # kvs, w2)))"

| "executeFunctionCall h fuel name args w =
     (case findFunction (instructions (exe w)) name of
        None \<Rightarrow>
          Some (w\<lparr> mgr := logConsole ''error''
                  [''ReferenceError: '' @ name @ '' is not defined''] (mgr w) \<rparr>)
      | Some func \<Rightarrow>
          (case fuel of
             0 \<Rightarrow> None
           | Suc fuel1 \<Rightarrow>
               (case resolveValues h (Suc fuel1) args w of
                  None \<Rightarrow> None
                | Some (argValues, w1) \<Rightarrow>
                    (let (funcScope, m2) =
                           createScope name ''function'' (getCurrentScopeId (mgr w1)) (mgr w1);
                         (fr, m3) = pushCallStack (freshId h (idsDrawn w1))
                           \<lparr> fi_name = name, fi_type = ''function'', fi_variables = Map.empty,
                             fi_thisBinding = ''window'', fi_line = instLine func \<rparr> m2;
                         m4 = bindParameters (Some (scope_id funcScope)) (instParams func)
                                argValues m3;
                         w4 = w1\<lparr> mgr := m4, idsDrawn := idsDrawn w1 + 1 \<rparr>
                     in case (if instBody func \<noteq> []
                              then executeBody h fuel1 (instLine func)
                                     (parseBody h (instBody func)) w4
                              else Some w4) of
                          None \<Rightarrow> None
                        | Some w5 \<Rightarrow>
                            Some (w5\<lparr> mgr := destroyScope (Some (scope_id funcScope))
                                               (snd (popCallStack (mgr w5))) \<rparr>)))))"

| "executeInstruction h fuel (HoistingPhase fs vs) w = Some (executeHoisting fs vs w)"
| "executeInstruction h fuel (FunctionDeclaration name ps l body e hoisted) w =
     Some (executeFunctionDeclaration name ps body w)"
| "executeInstruction h fuel (HoistedVar name l ol) w = Some (executeHoistedVar name w)"
| "executeInstruction h fuel (VariableDeclaration declType name e l) w =
     (case resolveValue h fuel e w of
        None \<Rightarrow> None
      | Some (v, w1) \<Rightarrow> Some (executeVariableDeclaration declType name v w1))"
| "executeInstruction h fuel (Assignment name e l) w =
     (case resolveValue h fuel e w of
        None \<Rightarrow> None
      | Some (v, w1) \<Rightarrow> Some (executeAssignment name v w1))"
| "executeInstruction h fuel (FunctionCall name args l) w = executeFunctionCall h fuel name args w"
| "executeInstruction h fuel (MethodCall ob method args l) w =
     (if ob = ''console''
      then (case resolveValues h fuel args w of
              None \<Rightarrow> None
            | Some (vs, w1) \<Rightarrow> Some (executeConsole method vs w1))
      else Some w)"
| "executeInstruction h fuel (Console method args l) w =
     (case resolveValues h fuel args w of
        None \<Rightarrow> None
      | Some (vs, w1) \<Rightarrow> Some (executeConsole method vs w1))"
| "executeInstruction h fuel (SetTimeout callback dl l) w = Some (executeSetTimeout h callback dl w)"
| "executeInstruction h fuel (Promise callback l) w = Some (executePromise h callback w)"
| "executeInstruction h fuel (Return e l) w =
     (case resolveValue h fuel e w of
        None \<Rightarrow> None
      | Some (v, w1) \<Rightarrow> Some (executeReturn v w1))"
| "executeInstruction h fuel (NewObject declType name c args l) w =
     Some (executeNewObject declType name w)"

| "executeBody h fuel funcLine [] w = Some w"
| "executeBody h fuel funcLine (bodyInst # rest) w =
     (let w1 = w\<lparr> mgr := setCurrentLine
                   (int (if instLine bodyInst \<noteq> 0 then instLine bodyInst else funcLine)) (mgr w) \<rparr>
      in case executeInstruction h fuel bodyInst w1 of
           None \<Rightarrow> None
         | Some w2 \<Rightarrow> executeBody h fuel funcLine rest (delay h w2))"
  by pat_completeness auto
termination
  apply (relation "inv_image (less_than <*lex*> less_than) (\<lambda>x. case x of
      Inl (Inl (h, fuel, e, w)) \<Rightarrow> (fuel, 3 * size e)
    | Inl (Inr (Inl (h, fuel, es, w))) \<Rightarrow> (fuel, 3 * size_list size es + 1)
    | Inl (Inr (Inr (h, fuel, ps, w))) \<Rightarrow> (fuel, 3 * size_list (size_prod (\<lambda>k. 0) size) ps + 1)
    | Inr (Inl (h, fuel, name, args, w)) \<Rightarrow> (fuel, 3 * size_list size args + 2)
    | Inr (Inr (Inl (h, fuel, inst, w))) \<Rightarrow> (fuel, 3 * size_list size (instExprs inst) + 3)
    | Inr (Inr (Inr (h, fuel, fl, insts, w))) \<Rightarrow>
        (fuel, size_list (\<lambda>i. 3 * size_list size (instExprs i) + 3) insts))")
                      apply (intro wf_inv_image wf_lex_prod wf_less_than)
                     apply simp_all
  done

subsection \<open>Executor: the event loop and the stepping primitive\<close>

fun executeCallbackInstructions :: "host \<Rightarrow> nat \<Rightarrow> instruction list \<Rightarrow> world \<Rightarrow> world option" where
  \<comment> \<open>\<open>for (const inst of callbackInstructions) { await executeInstruction(inst); await delay(); }\<close>\<close>
  "executeCallbackInstructions h fuel [] w = Some w"
| "executeCallbackInstructions h fuel (inst # rest) w =
     (case executeInstruction h fuel inst w of
        None \<Rightarrow> None
      | Some w1 \<Rightarrow> executeCallbackInstructions h fuel rest (delay h w1))"

definition callbackText :: "task \<Rightarrow> string" where
  \<comment> \<open>\<open>task.callback\<close> is falsy when it is missing or the empty string\<close>
  "callbackText t = (case task_callback t of None \<Rightarrow> [] | Some c \<Rightarrow> c)"

definition hasPendingTasks :: "world \<Rightarrow> bool" where
  "hasPendingTasks w =
     (let st = getState (mgr w) in
      length (webAPIs (eventLoop st)) > 0 \<or>
      length (callbackQueue (eventLoop st)) > 0 \<or>
      length (microtaskQueue (eventLoop st)) > 0 \<or>
      length (pendingTimers (exe w)) > 0 \<or>
      length (pendingMicrotasks (exe w)) > 0)"

text \<open>
  The \<open>while\<close> loop of \<open>processEventLoop\<close>. Its condition reads \<open>state\<close>, the snapshot that
  \<open>getState\<close> returned before the loop, and the executor's own \<open>pendingMicrotasks\<close>.
  \<open>iters\<close> bounds the number of times the body of the loop runs: with none left, a loop
  that would run its body once more yields \<open>None\<close>.
\<close>

fun drainMicrotasks :: "host \<Rightarrow> nat \<Rightarrow> nat \<Rightarrow> state \<Rightarrow> world \<Rightarrow> world option" where
  "drainMicrotasks h fuel 0 snapshot w =
     (if length (microtaskQueue (eventLoop snapshot)) > 0
         \<or> length (pendingMicrotasks (exe w)) > 0
      then None
      else Some w)"
| "drainMicrotasks h fuel (Suc iters) snapshot w =
     (if length (microtaskQueue (eventLoop snapshot)) > 0
         \<or> length (pendingMicrotasks (exe w)) > 0
      then
        (let (t, m1) = processNextMicrotask (mgr w);
             w1 = w\<lparr> mgr := m1 \<rparr>
         in case (case t of
                    None \<Rightarrow> Some w1
                  | Some tk \<Rightarrow>
                      if callbackText tk \<noteq> []
                      then (let w2 = w1\<lparr> mgr := logConsole ''info''
                                        [''Executing microtask: '' @ task_name tk] m1 \<rparr>;
                                w3 = delay h w2
                            in executeCallbackInstructions h fuel
                                 (parseBody h (callbackText tk)) w3)
                      else Some w1) of
              None \<Rightarrow> None
            | Some w4 \<Rightarrow>
                drainMicrotasks h fuel iters snapshot
                  (w4\<lparr> exe := (exe w4)\<lparr> pendingMicrotasks :=
                                             drop 1 (pendingMicrotasks (exe w4)) \<rparr> \<rparr>))
      else Some w)"



text \<open>
  A call returns \<open>Inr\<close> of its result, or \<open>Inl\<close> of the error it throws:
  \<open>globalScope.id\<close> throws when \<open>init\<close> has not set \<open>globalScope\<close>.
\<close>

definition shiftPendingTimers :: "world \<Rightarrow> world" where
  "shiftPendingTimers w = w\<lparr> exe := (exe w)\<lparr> pendingTimers := drop 1 (pendingTimers (exe w)) \<rparr> \<rparr>"

definition processEventLoop ::
    "host \<Rightarrow> nat \<Rightarrow> nat \<Rightarrow> world \<Rightarrow> ((string + bool) \<times> world) option" where
  "processEventLoop h fuel iters w =
     (let snapshot = getState (mgr w) in
      case drainMicrotasks h fuel iters snapshot w of
        None \<Rightarrow> None
      | Some w1 \<Rightarrow>
          (let callbackState = getState (mgr w1) in
           if length (callbackQueue (eventLoop callbackState)) > 0
              \<or> length (pendingTimers (exe w1)) > 0
           then
             (let (cb, m2) = processNextCallback (mgr w1);
                  w2 = w1\<lparr> mgr := m2 \<rparr>
              in case cb of
                   None \<Rightarrow>
                     (let w7 = shiftPendingTimers w2 in Some (Inr (hasPendingTasks w7), w7))
                 | Some tk \<Rightarrow>
                     if callbackText tk \<noteq> []
                     then
                       (let m3 = logConsole ''info'' [''Executing callback: '' @ task_name tk] m2
                        in case globalScope (exe w2) of
                             None \<Rightarrow> Some (Inl ''TypeError'', w2\<lparr> mgr := m3 \<rparr>)
                           | Some gs \<Rightarrow>
                               (let (callbackScope, m4) =
                                      createScope ''setTimeout callback'' ''function''
                                        (Some (scope_id gs)) m3;
                                    (fr, m5) = pushCallStack (freshId h (idsDrawn w2))
                                      \<lparr> fi_name = ''setTimeout callback'', fi_type = ''function'',
                                        fi_variables = Map.empty, fi_thisBinding = ''window'',
                                        fi_line = 0 \<rparr> m4;
                                    w5 = delay h (w2\<lparr> mgr := m5, idsDrawn := idsDrawn w2 + 1 \<rparr>)
                                in case executeCallbackInstructions h fuel
                                          (parseBody h (callbackText tk)) w5 of
                                     None \<Rightarrow> None
                                   | Some w6 \<Rightarrow>
                                       (let w7 = shiftPendingTimers
                                              (w6\<lparr> mgr := destroyScope (Some (scope_id callbackScope))
                                                             (snd (popCallStack (mgr w6))) \<rparr>)
                                        in Some (Inr (hasPendingTasks w7), w7))))
                     else (let w7 = shiftPendingTimers w2
                           in Some (Inr (hasPendingTasks w7), w7)))
           else Some (Inr (hasPendingTasks w1), w1)))"

definition init :: "host \<Rightarrow> instruction list \<Rightarrow> world \<Rightarrow> world" where
  "init h parsedInstructions w =
     (let ex1 = (exe w)\<lparr> instructions := parsedInstructions, currentIndex := 0,
                   executionStack := [], pendingTimers := [], pendingMicrotasks := [] \<rparr>;
          (gs, m1) = createScope ''Global'' ''global'' None (mgr w);
          (fr, m2) = pushCallStack (freshId h (idsDrawn w))
             \<lparr> fi_name = ''Global Execution Context'', fi_type = ''global'',
               fi_variables = Map.empty, fi_thisBinding = ''window'', fi_line = 0 \<rparr> m1
      in w\<lparr> mgr := m2, exe := ex1\<lparr> globalScope := Some gs \<rparr>, idsDrawn := idsDrawn w + 1 \<rparr>)"

definition step :: "host \<Rightarrow> nat \<Rightarrow> nat \<Rightarrow> world \<Rightarrow> ((string + bool) \<times> world) option" where
  "step h fuel iters w =
     (if currentIndex (exe w) \<ge> length (instructions (exe w))
      then (case processEventLoop h fuel iters w of
              None \<Rightarrow> None
            | Some (Inl err, w1) \<Rightarrow> Some (Inl err, w1)
            | Some (Inr pending, w1) \<Rightarrow> Some (Inr False, w1))
      else
        (let instruction = instructions (exe w) ! currentIndex (exe w);
             m1 = setCurrentLine (int (instLine instruction)) (mgr w);
             m2 = snd (incrementStep m1)
         in case executeInstruction h fuel instruction (w\<lparr> mgr := m2 \<rparr>) of
              None \<Rightarrow> None
            | Some w1 \<Rightarrow>
                (let w2 = w1\<lparr> exe := (exe w1)\<lparr> currentIndex := currentIndex (exe w1) + 1 \<rparr> \<rparr>
                 in Some (Inr (currentIndex (exe w2) < length (instructions (exe w2))
                               \<or> hasPendingTasks w2), w2))))"

text \<open>
  \<open>run\<close>, when nothing outside the executor calls \<open>pause\<close>, \<open>resume\<close>, \<open>stop\<close> or \<open>reset\<close>
  while it runs: \<open>while (await step()) { if (!isRunning) break; while (isPaused) ...;
  await delay(); }\<close>. \<open>steps\<close> bounds the number of calls of \<open>step\<close>. A run that finds
  \<open>isPaused\<close> set waits for a \<open>resume\<close>, which the model does not have.
\<close>

fun runLoop :: "host \<Rightarrow> nat \<Rightarrow> nat \<Rightarrow> nat \<Rightarrow> world \<Rightarrow> ((string + unit) \<times> world) option" where
  "runLoop h fuel iters 0 w = None"
| "runLoop h fuel iters (Suc steps) w =
     (case step h fuel iters w of
        None \<Rightarrow> None
      | Some (Inl err, w1) \<Rightarrow> Some (Inl err, w1)
      | Some (Inr hasMore, w1) \<Rightarrow>
          if hasMore
          then (if \<not> isRunningEx (exe w1) then Some (Inr (), w1)
                else if isPausedEx (exe w1) then None
                else runLoop h fuel iters steps (delay h w1))
          else Some (Inr (), w1))"

definition run :: "host \<Rightarrow> nat \<Rightarrow> nat \<Rightarrow> nat \<Rightarrow> world \<Rightarrow> ((string + unit) \<times> world) option" where
  "run h fuel iters steps w =
     (let w0 = w\<lparr> exe := (exe w)\<lparr> isRunningEx := True, isPausedEx := False \<rparr>,
                  mgr := setExecutionState True False (mgr w) \<rparr>
      in case runLoop h fuel iters steps w0 of
           None \<Rightarrow> None
         | Some (Inl err, w1) \<Rightarrow> Some (Inl err, w1)
         | Some (Inr u, w1) \<Rightarrow>
             Some (Inr (),
                   w1\<lparr> exe := (exe w1)\<lparr> isRunningEx := False \<rparr>,
                       mgr := logConsole ''info'' [''Execution completed'']
                                (setExecutionState False False (mgr w1)) \<rparr>))"

subsection \<open>StateManager: object identity and the snapshot\<close>

text \<open>
  \<open>getState\<close> builds its result with spread syntax: \<open>{...state}\<close> copies the fields of the
  state object, \<open>[...xs]\<close> and \<open>new Map(m)\<close> make a new array and a new map that hold the
  same elements. To say what a snapshot shares with the module, this section gives
  objects an identity: \<open>memory\<close> maps a reference to the object behind it, an array holds
  the references of its elements (the \<open>timers\<close> array the handles themselves), and the
  state object holds the references of its containers. The state object and its
  \<open>eventLoop\<close> object are written by value: \<open>getState\<close> makes both anew, and the module
  never assigns to a field of either that holds a reference.
\<close>

datatype cell =
    Unallocated
  | FrameCell frame
  | ScopeCell scope
  | HeapObjectCell heapObject
  | TaskCell task
  | ArrayCell "nat list"
  | MapCell "(string \<times> nat) list"
  | InstructionsCell "instruction list"

record memory =
  cells :: "nat \<Rightarrow> cell"
  nextRef :: nat

record eventLoopObject =
  el_webAPIs :: nat
  el_callbackQueue :: nat
  el_microtaskQueue :: nat

record stateObject =
  so_code :: string
  so_parsedCode :: nat
  so_callStack :: nat
  so_heap :: nat
  so_heapIdCounter :: nat
  so_scopes :: nat
  so_scopeIdCounter :: nat
  so_eventLoop :: eventLoopObject
  so_currentLine :: int
  so_currentStep :: nat
  so_isRunning :: bool
  so_isPaused :: bool
  so_speed :: int
  so_executionQueue :: nat
  so_timers :: nat

definition alloc :: "cell \<Rightarrow> memory \<Rightarrow> nat \<times> memory" where
  \<comment> \<open>a new object: a reference that no object has yet\<close>
  "alloc c mem =
     (nextRef mem, mem\<lparr> cells := (cells mem)(nextRef mem := c), nextRef := nextRef mem + 1 \<rparr>)"

definition setCell :: "nat \<Rightarrow> cell \<Rightarrow> memory \<Rightarrow> memory" where
  "setCell a c mem = mem\<lparr> cells := (cells mem)(a := c) \<rparr>"

fun arrayOf :: "cell \<Rightarrow> nat list" where
  "arrayOf (ArrayCell xs) = xs"
| "arrayOf c = []"

definition modifyFrame :: "nat \<Rightarrow> (frame \<Rightarrow> frame) \<Rightarrow> memory \<Rightarrow> memory" where
  \<comment> \<open>an assignment to a field of the frame object behind a reference\<close>
  "modifyFrame a g mem =
     (case cells mem a of
        FrameCell f \<Rightarrow> setCell a (FrameCell (g f)) mem
      | _ \<Rightarrow> mem)"

definition getStateObj :: "stateObject \<Rightarrow> memory \<Rightarrow> stateObject \<times> memory" where
  "getStateObj st mem =
     (let (cs, mem1) = alloc (cells mem (so_callStack st)) mem;
          (hp, mem2) = alloc (cells mem1 (so_heap st)) mem1;
          (sc, mem3) = alloc (cells mem2 (so_scopes st)) mem2;
          (wa, mem4) = alloc (cells mem3 (el_webAPIs (so_eventLoop st))) mem3;
          (cq, mem5) = alloc (cells mem4 (el_callbackQueue (so_eventLoop st))) mem4;
          (mq, mem6) = alloc (cells mem5 (el_microtaskQueue (so_eventLoop st))) mem5
      in (st\<lparr> so_callStack := cs, so_heap := hp, so_scopes := sc,
               so_eventLoop := \<lparr> el_webAPIs = wa, el_callbackQueue = cq,
                                 el_microtaskQueue = mq \<rparr> \<rparr>,
          mem6))"

definition pushCallStackObj :: "nat \<Rightarrow> frameInput \<Rightarrow> stateObject \<Rightarrow> memory \<Rightarrow> nat \<times> memory" where
  "pushCallStackObj fresh fi st mem =
     (let newFrame = \<lparr> frame_id = fresh,
            frame_name = (if fi_name fi = [] then ''anonymous'' else fi_name fi),
            frame_type = (if fi_type fi = [] then ''function'' else fi_type fi),
            frame_variables = fi_variables fi,
            thisBinding = (if fi_thisBinding fi = [] then ''window'' else fi_thisBinding fi),
            frame_line = fi_line fi,
            isActive = True \<rparr>;
          (fa, mem1) = alloc (FrameCell newFrame) mem;
          stack = arrayOf (cells mem1 (so_callStack st));
          mem2 = (if length stack > 0
                  then modifyFrame (stack ! (length stack - 1)) (\<lambda>f. f\<lparr> isActive := False \<rparr>) mem1
                  else mem1)
      in (fa, setCell (so_callStack st) (ArrayCell (stack @ [fa])) mem2))"

definition popCallStackObj :: "stateObject \<Rightarrow> memory \<Rightarrow> nat option \<times> memory" where
  "popCallStackObj st mem =
     (let stack = arrayOf (cells mem (so_callStack st));
          popped = (if stack = [] then None else Some (last stack));
          stack1 = butlast stack;
          mem1 = setCell (so_callStack st) (ArrayCell stack1) mem;
          mem2 = (if length stack1 > 0
                  then modifyFrame (stack1 ! (length stack1 - 1)) (\<lambda>f. f\<lparr> isActive := True \<rparr>) mem1
                  else mem1)
      in (popped, mem2))"

definition updateFrameVariableObj ::
    "string \<Rightarrow> string \<Rightarrow> string \<Rightarrow> stateObject \<Rightarrow> memory \<Rightarrow> memory" where
  "updateFrameVariableObj name val ty st mem =
     (let stack = arrayOf (cells mem (so_callStack st)) in
      if length stack > 0
      then modifyFrame (stack ! (length stack - 1))
             (\<lambda>f. f\<lparr> frame_variables :=
                      (frame_variables f)(name \<mapsto> \<lparr> fb_value = val, fb_type = ty \<rparr>) \<rparr>) mem
      else mem)"

definition addTimerObj :: "nat \<Rightarrow> stateObject \<Rightarrow> memory \<Rightarrow> memory" where
  \<comment> \<open>\<open>state.timers.push(timerId)\<close>\<close>
  "addTimerObj timerId st mem =
     setCell (so_timers st) (ArrayCell (arrayOf (cells mem (so_timers st)) @ [timerId])) mem"

datatype objOp =
    ObjPushCallStack nat frameInput
  | ObjPopCallStack
  | ObjUpdateFrameVariable string string string
  | ObjAddTimer nat

fun applyObjOp :: "stateObject \<Rightarrow> objOp \<Rightarrow> memory \<Rightarrow> memory" where
  "applyObjOp st (ObjPushCallStack fresh fi) mem = snd (pushCallStackObj fresh fi st mem)"
| "applyObjOp st ObjPopCallStack mem = snd (popCallStackObj st mem)"
| "applyObjOp st (ObjUpdateFrameVariable n v t) mem = updateFrameVariableObj n v t st mem"
| "applyObjOp st (ObjAddTimer h) mem = addTimerObj h st mem"

fun runObjOps :: "stateObject \<Rightarrow> objOp list \<Rightarrow> memory \<Rightarrow> memory" where
  "runObjOps st [] mem = mem"
| "runObjOps st (op # ops) mem = runObjOps st ops (applyObjOp st op mem)"

text \<open>The module as it is loaded: every container of the state is a new, empty object.\<close>

definition initialMemory :: memory where
  "initialMemory = \<lparr> cells = (\<lambda>a. if a = 0 \<or> a = 7 then InstructionsCell []
                                   else if a = 2 then MapCell []
                                   else if a < 9 then ArrayCell []
                                   else Unallocated),
                     nextRef = 9 \<rparr>"

definition initialStateObject :: stateObject where
  "initialStateObject = \<lparr> so_code = [], so_parsedCode = 0, so_callStack = 1, so_heap = 2,
     so_heapIdCounter = 0, so_scopes = 3, so_scopeIdCounter = 0,
     so_eventLoop = \<lparr> el_webAPIs = 4, el_callbackQueue = 5, el_microtaskQueue = 6 \<rparr>,
     so_currentLine = -1, so_currentStep = 0, so_isRunning = False, so_isPaused = False,
     so_speed = 1000, so_executionQueue = 7, so_timers = 8 \<rparr>"

fun frameFlags :: "cell \<Rightarrow> bool list" where
  "frameFlags (FrameCell f) = [isActive f]"
| "frameFlags c = []"

definition activeFlags :: "stateObject \<Rightarrow> memory \<Rightarrow> bool list" where
  \<comment> \<open>the \<open>isActive\<close> fields read through the \<open>callStack\<close> of a state object or snapshot\<close>
  "activeFlags st mem =
     concat (map (\<lambda>a. frameFlags (cells mem a)) (arrayOf (cells mem (so_callStack st))))"

definition snapshotContainers :: "stateObject \<Rightarrow> nat list" where
  \<comment> \<open>the references of the containers that \<open>getState\<close> copies\<close>
  "snapshotContainers s =
     [so_callStack s, so_heap s, so_scopes s, el_webAPIs (so_eventLoop s),
      el_callbackQueue (so_eventLoop s), el_microtaskQueue (so_eventLoop s)]"

definition sharedContainers :: "stateObject \<Rightarrow> nat list" where
  \<comment> \<open>the references that \<open>{...state}\<close> copies as they are\<close>
  "sharedContainers s = [so_parsedCode s, so_executionQueue s, so_timers s]"

definition wellFormed :: "stateObject \<Rightarrow> memory \<Rightarrow> bool" where
  \<comment> \<open>the containers of the state object are different objects, and every reference of
      the state object and of its call stack is one of an object\<close>
  "wellFormed st mem =
     (distinct (snapshotContainers st @ sharedContainers st)
      \<and> (\<forall>a \<in> set (snapshotContainers st @ sharedContainers st). a < nextRef mem)
      \<and> (\<forall>a \<in> set (arrayOf (cells mem (so_callStack st))). a < nextRef mem))"

subsection \<open>Notions used to state the properties\<close>

fun hoistedFunction :: "instruction \<Rightarrow> instruction" where
  \<comment> \<open>\<open>{...inst, hoisted: true}\<close>\<close>
  "hoistedFunction (FunctionDeclaration n ps l b e h) = FunctionDeclaration n ps l b e True"
| "hoistedFunction i = i"

fun hoistedVarOf :: "instruction \<Rightarrow> instruction" where
  \<comment> \<open>the placeholder \<open>{type: 'hoistedVar', name, line, originalLine: line}\<close> of a declaration\<close>
  "hoistedVarOf (VariableDeclaration d n v l) = HoistedVar n l l"
| "hoistedVarOf i = i"

definition scopeIdsOk :: "manager \<Rightarrow> bool" where
  \<comment> \<open>the scope ids are pairwise distinct and were drawn from the counter\<close>
  "scopeIdsOk m = (distinct (map scope_id (scopes m)) \<and>
     (\<forall>i \<in> set (map scope_id (scopes m)). \<exists>k. k \<le> scopeIdCounter m \<and> i = ''scope_'' @ dec k))"

definition inheritedName :: "string \<Rightarrow> bool" where
  \<comment> \<open>a name that every dictionary created by \<open>{}\<close> has without binding it\<close>
  "inheritedName name = (name \<in> set objectPrototypeNames \<or> name = ''__proto__'')"

fun namesPrototype :: "storeOp \<Rightarrow> bool" where
  \<comment> \<open>an operation that writes a dictionary under the name \<open>__proto__\<close>\<close>
  "namesPrototype (OpUpdateFrameVariable n v t) = (n = ''__proto__'')"
| "namesPrototype (OpAddScopeVariable s n v t d) = (n = ''__proto__'')"
| "namesPrototype (OpUpdateScopeVariable s n v) = (n = ''__proto__'')"
| "namesPrototype op = False"

definition keptApart :: "nat set \<Rightarrow> stateObject \<Rightarrow> memory \<Rightarrow> memory \<Rightarrow> bool" where
  \<comment> \<open>the objects behind \<open>S\<close> are as they were in \<open>mem1\<close>, and the module's call stack
      holds none of them\<close>
  "keptApart S st mem1 mem2 =
     ((\<forall>a \<in> S. a < nextRef mem2 \<and> cells mem2 a = cells mem1 a)
      \<and> (\<forall>a \<in> set (arrayOf (cells mem2 (so_callStack st))). a \<notin> S))"

fun isLiteral :: "valueExpr \<Rightarrow> bool" where
  "isLiteral (ENumber n) = True"
| "isLiteral (EString s) = True"
| "isLiteral (EBoolean b) = True"
| "isLiteral ENull = True"
| "isLiteral EUndefined = True"
| "isLiteral e = False"

fun isPromise :: "instruction \<Rightarrow> bool" where
  "isPromise (Promise callback l) = True"
| "isPromise i = False"

fun plainInstruction :: "instruction \<Rightarrow> bool" where
  \<comment> \<open>a timer registration, a promise registration, or a console call on literals\<close>
  "plainInstruction (SetTimeout callback dl l) = True"
| "plainInstruction (Promise callback l) = True"
| "plainInstruction (Console method args l) = list_all isLiteral args"
| "plainInstruction i = False"

definition doomed :: "world \<Rightarrow> bool" where
  \<comment> \<open>a run in progress whose remaining instructions are plain, with a microtask queued
      or a promise registration still to come\<close>
  "doomed w =
     (isRunningEx (exe w) \<and> \<not> isPausedEx (exe w)
      \<and> (\<forall>j. currentIndex (exe w) \<le> j \<and> j < length (instructions (exe w))
             \<longrightarrow> plainInstruction (instructions (exe w) ! j))
      \<and> (microtaskQueue (eventLoop (mgr w)) \<noteq> []
           \<or> (\<exists>j. currentIndex (exe w) \<le> j \<and> j < length (instructions (exe w))
                  \<and> isPromise (instructions (exe w) ! j))))"

fun consoleEntry :: "notification \<Rightarrow> (string \<times> string list) list" where
  "consoleEntry (NConsole ty args) = [(ty, args)]"
| "consoleEntry n = []"

definition consoleOutput :: "world \<Rightarrow> (string \<times> string list) list" where
  \<comment> \<open>the console entries among the notifications, in order\<close>
  "consoleOutput w = concat (map consoleEntry (emitted (mgr w)))"

subsection \<open>Example inputs\<close>

definition frameInput0 :: frameInput where
  "frameInput0 = \<lparr> fi_name = ''f'', fi_type = ''function'', fi_variables = Map.empty,
                    fi_thisBinding = ''window'', fi_line = 0 \<rparr>"

definition consoleText :: string where
  \<comment> \<open>the one line \<open>console.log("hi")\<close>\<close>
  "consoleText = ''console.log('' @ [CHR 0x22] @ ''hi'' @ [CHR 0x22] @ '')''"

definition hoistingText :: string where
  \<comment> \<open>nine lines, with a comment, a console call, a \<open>var\<close> declaration and a function
      declaration over three lines\<close>
  "hoistingText = join [CHR 0x0A]
     [''// hoisting'',
      ''console.log(x);'',
      '''',
      '''',
      ''var x = 5;'',
      '''',
      ''function greet() {'',
      ''    console.log(1);'',
      ''}'']"

definition hoistingExample :: "instruction list" where
  \<comment> \<open>what the line recognisers yield for \<open>hoistingText\<close>\<close>
  "hoistingExample =
     [Console ''log'' [EReference ''x''] 2,
      VariableDeclaration ''var'' ''x'' (ENumber ''5'') 5,
      FunctionDeclaration ''greet'' [] 7 ''    console.log(1);'' 9 False]"

definition oneLineText :: string where
  "oneLineText = ''var x = 1; var y = 2;''"

definition oneLineExample :: "instruction list" where
  \<comment> \<open>what the line recognisers yield for \<open>oneLineText\<close>: the declaration recogniser takes
      the line as one declaration of \<open>x\<close>, whose initialiser is the rest of the line without
      its last semicolon\<close>
  "oneLineExample = [VariableDeclaration ''var'' ''x'' (EReference ''1; var y = 2'') 1]"

definition scopesExample :: manager where
  \<comment> \<open>a global scope binding \<open>x\<close> and \<open>y\<close>, and inside it a function scope binding \<open>x\<close>\<close>
  "scopesExample = runOps
     [OpCreateScope ''Global'' ''global'' None,
      OpAddScopeVariable (Some ''scope_1'') ''x'' (VNumber ''1'') ''number'' ''var'',
      OpAddScopeVariable (Some ''scope_1'') ''y'' (VNumber ''2'') ''number'' ''var'',
      OpCreateScope ''f'' ''function'' (Some ''scope_1''),
      OpAddScopeVariable (Some ''scope_2'') ''x'' (VNumber ''10'') ''number'' ''let'']
     initialManager"

definition inheritedExample :: manager where
  \<comment> \<open>a global scope binding \<open>toString\<close> and \<open>y\<close>, and inside it the scope of a function
      \<open>f\<close> without bindings\<close>
  "inheritedExample = runOps
     [OpCreateScope ''Global'' ''global'' None,
      OpAddScopeVariable (Some ''scope_1'') ''toString'' (VNumber ''5'') ''number'' ''var'',
      OpAddScopeVariable (Some ''scope_1'') ''y'' (VNumber ''2'') ''number'' ''var'',
      OpCreateScope ''f'' ''function'' (Some ''scope_1'')]
     initialManager"

definition valueOfExample :: world where
  \<comment> \<open>a global scope binding \<open>valueOf\<close>, inside it the scope of a function \<open>f\<close> without
      bindings, and the frame of \<open>f\<close> on the call stack\<close>
  "valueOfExample = initialWorld\<lparr> mgr := runOps
     [OpCreateScope ''Global'' ''global'' None,
      OpAddScopeVariable (Some ''scope_1'') ''valueOf'' (VNumber ''5'') ''number'' ''var'',
      OpCreateScope ''f'' ''function'' (Some ''scope_1''),
      OpPushCallStack 1 frameInput0]
     initialManager \<rparr>"

definition host0 :: host where
  \<comment> \<open>a host whose scanner recognises nothing and whose timers never fire\<close>
  "host0 = \<lparr> scan = (\<lambda>text. []), freshId = (\<lambda>k. k), timerHandle = (\<lambda>k. k),
             firedDuring = (\<lambda>k. []) \<rparr>"

definition scopesWorld :: world where
  "scopesWorld = initialWorld\<lparr> mgr := scopesExample \<rparr>"


definition asyncText :: string where
  "asyncText = join [CHR 0x0A]
     [''setTimeout(() => console.log(1), 1000);'',
      ''Promise.resolve().then(() => console.log(2));'',
      ''Promise.resolve().then(() => console.log(3));'']"

definition asyncExample :: "instruction list" where
  \<comment> \<open>what the line recognisers yield for \<open>asyncText\<close>; the callback text that the
      promise recogniser captures (\<open>[^})]*?\<close>) ends before the first closing parenthesis\<close>
  "asyncExample =
     [SetTimeout (Some ''console.log(1)'') ''1000'' 1,
      Promise ''console.log(2'' 2,
      Promise ''console.log(3'' 3]"

definition asyncWorld :: world where
  \<comment> \<open>the three instructions of \<open>asyncExample\<close> executed after \<open>init\<close>\<close>
  "asyncWorld =
     executePromise host0 ''console.log(3''
       (executePromise host0 ''console.log(2''
         (executeSetTimeout host0 (Some ''console.log(1)'') ''1000''
           (init host0 asyncExample initialWorld)))"

definition setInactive :: "frame \<Rightarrow> frame" where
  "setInactive f = f\<lparr> isActive := False \<rparr>"

definition snapshotExample :: "stateObject \<times> memory" where
  \<comment> \<open>one frame is pushed, then the snapshot is taken\<close>
  "snapshotExample =
     getStateObj initialStateObject
       (snd (pushCallStackObj 1 frameInput0 initialStateObject initialMemory))"

definition timerExample :: "instruction list" where
  \<comment> \<open>the raw instructions of: \<open>setTimeout(() => console.log(1), 1000);\<close> (line 1)\<close>
  "timerExample = [SetTimeout (Some ''console.log(1)'') ''1000'' 1]"

definition host1 :: host where
  \<comment> \<open>a host whose scanner knows the callback text \<open>console.log(1)\<close> and whose first wait
      sees the timer of the task with id 2 fire\<close>
  "host1 = \<lparr> scan = (\<lambda>text. if text = ''console.log(1)''
                              then [Console ''log'' [ENumber ''1''] 1] else []),
             freshId = (\<lambda>k. k), timerHandle = (\<lambda>k. k),
             firedDuring = (\<lambda>k. if k = 0 then [2] else []) \<rparr>"

section \<open>Properties\<close>

subsection \<open>Hoisting\<close>

lemma hoistPass_acc:
  "hoistPass insts (fds, vds, rest) =
     (fds @ map hoistedFunction (filter isFunctionDeclaration insts),
      vds @ map hoistedVarOf (filter isVarDeclaration insts),
      rest @ filter (\<lambda>i. \<not> isFunctionDeclaration i) insts)"
proof (induction insts arbitrary: fds vds rest)
  case Nil
  then show ?case by simp
next
  case (Cons i insts)
  then show ?case by (cases i) simp_all
qed

lemma instName_hoistedFunction: "instName (hoistedFunction i) = instName i"
  by (cases i) simp_all

lemma instName_hoistedVarOf: "isVarDeclaration i \<Longrightarrow> instName (hoistedVarOf i) = instName i"
  by (cases i) simp_all

lemma processHoisting_shape:
  "processHoisting insts =
     (if filter isFunctionDeclaration insts \<noteq> [] \<or> filter isVarDeclaration insts \<noteq> []
      then [HoistingPhase (map instName (filter isFunctionDeclaration insts))
                          (map instName (filter isVarDeclaration insts))]
      else [])
     @ map hoistedFunction (filter isFunctionDeclaration insts)
     @ map hoistedVarOf (filter isVarDeclaration insts)
     @ filter (\<lambda>i. \<not> isFunctionDeclaration i) insts"
proof -
  have "map (instName \<circ> hoistedVarOf) (filter isVarDeclaration insts) =
        map instName (filter isVarDeclaration insts)"
    by (rule map_cong) (auto simp: instName_hoistedVarOf)
  then show ?thesis
    by (simp add: processHoisting_def hoistPass_acc[of insts "[]" "[]" "[]", simplified]
          instName_hoistedFunction comp_def)
qed

lemma scanLines_examples:
  "scanLines consoleText = [Console ''log'' [EString ''hi''] 1]"
  "scanLines [] = []"
  "scanLines hoistingText = hoistingExample"
  "scanLines oneLineText = oneLineExample"
  "scanLines asyncText = asyncExample"
  "scanLines ''console.log(1)'' = [Console ''log'' [ENumber ''1''] 1]"
  by code_simp+

text \<open>
  C2 (as stated). The output of \<open>parse\<close> always starts with a hoisting marker. This fails
  whenever the line recognisers yield no function declaration and no \<open>var\<close> declaration:
  \<open>processHoisting\<close> adds the marker only under
  \<open>if (functionDeclarations.length > 0 || varDeclarations.length > 0)\<close>. For the
  one-line text \<open>console.log("hi")\<close> the output is the one console instruction; for the
  empty text it is empty.
\<close>

theorem hoisting_marker_absent_counterexample:
  "parse (''console.log('' @ [CHR 0x22] @ ''hi'' @ [CHR 0x22] @ '')'')
     = [Console ''log'' [EString ''hi''] 1]
   \<and> parse [] = []"
  by code_simp

text \<open>
  C2 (amended). Let \<open>raw\<close> be the sequence of instructions that the line recognisers
  yield for a text. When \<open>raw\<close> has a function declaration or a \<open>var\<close> declaration, the
  output of \<open>parse\<close> is one marker, whose two lists are the names of the function
  declarations and of the \<open>var\<close> declarations of \<open>raw\<close> in their order, then the function
  declarations marked as hoisted, then one value-less placeholder for each \<open>var\<close>
  declaration, then every instruction of \<open>raw\<close> that is not a function declaration in its
  original order (the \<open>var\<close> declarations with their initialisers among them). When \<open>raw\<close>
  has neither, there is no marker and the output is \<open>raw\<close>. The lists are those of the
  recognised instructions, not of the declarations that a reader sees in the text: the
  recognisers take one instruction from a line at most (\<open>var x = 1; var y = 2;\<close> on one
  line is one declaration, of \<open>x\<close>), and the lines of a function body are not scanned.
\<close>

theorem hoisting_marker_and_order:
  "(let raw = scanLines source;
        fds = filter isFunctionDeclaration raw;
        vds = filter isVarDeclaration raw
    in parse source =
         (if (\<exists>i \<in> set raw. isFunctionDeclaration i \<or> isVarDeclaration i)
          then [HoistingPhase (map instName fds) (map instName vds)] else [])
         @ map hoistedFunction fds @ map hoistedVarOf vds
         @ filter (\<lambda>i. \<not> isFunctionDeclaration i) raw
       \<and> ((\<forall>i \<in> set raw. \<not> isFunctionDeclaration i \<and> \<not> isVarDeclaration i)
            \<longrightarrow> parse source = raw))"
proof -
  let ?raw = "scanLines source"
  have a: "(filter isFunctionDeclaration ?raw \<noteq> [] \<or> filter isVarDeclaration ?raw \<noteq> [])
        = (\<exists>i \<in> set ?raw. isFunctionDeclaration i \<or> isVarDeclaration i)"
    by (auto simp: filter_empty_conv)
  have b: "processHoisting ?raw = ?raw"
    if "\<forall>i \<in> set ?raw. \<not> isFunctionDeclaration i \<and> \<not> isVarDeclaration i"
  proof -
    from that have "filter isFunctionDeclaration ?raw = []"
      "filter isVarDeclaration ?raw = []"
      "filter (\<lambda>i. \<not> isFunctionDeclaration i) ?raw = ?raw"
      by (simp_all add: filter_empty_conv filter_id_conv)
    then show ?thesis by (simp add: processHoisting_shape)
  qed
  show ?thesis
    unfolding Let_def parse_def
    by (subst processHoisting_shape, subst a) (use b in simp)
qed

theorem hoisting_marker_and_order_witness:
  "parse hoistingText =
     [HoistingPhase [''greet''] [''x''],
      FunctionDeclaration ''greet'' [] 7 ''    console.log(1);'' 9 True,
      HoistedVar ''x'' 5 5,
      Console ''log'' [EReference ''x''] 2,
      VariableDeclaration ''var'' ''x'' (ENumber ''5'') 5]
   \<and> parse oneLineText =
     [HoistingPhase [] [''x''],
      HoistedVar ''x'' 1 1,
      VariableDeclaration ''var'' ''x'' (EReference ''1; var y = 2'') 1]
   \<and> parse asyncText = asyncExample"
  using hoisting_marker_and_order[of hoistingText] hoisting_marker_and_order[of oneLineText]
    hoisting_marker_and_order[of asyncText]
  by (simp add: scanLines_examples hoistingExample_def oneLineExample_def asyncExample_def Let_def)



subsection \<open>Auxiliary facts\<close>

lemmas store_defs = setCode_def setParsedCode_def pushCallStack_def popCallStack_def
  updateFrameVariable_def allocateHeap_def addHeapReference_def deallocateHeap_def
  createScope_def addScopeVariable_def updateScopeVariable_def destroyScope_def
  addToWebAPI_def moveToCallbackQueue_def addToMicrotaskQueue_def processNextMicrotask_def
  processNextCallback_def setCurrentLine_def incrementStep_def setExecutionState_def
  setSpeed_def logConsole_def addTimer_def reset_def notify_def

lemma digitChar_inj: "a < 10 \<Longrightarrow> b < 10 \<Longrightarrow> digitChar a = digitChar b \<Longrightarrow> a = b"
proof -
  assume a: "a < 10" and b: "b < 10" and e: "digitChar a = digitChar b"
  have "(of_char (digitChar a) :: nat) = of_char (digitChar b)" using e by simp
  then show ?thesis using a b by (simp add: digitChar_def)
qed

lemma dec_nonempty: "dec n \<noteq> []"
  by (subst dec.simps) simp

lemma dec_last: "last (dec n) = digitChar (n mod 10)"
  by (subst dec.simps) simp

lemma dec_butlast: "butlast (dec n) = (if n < 10 then [] else dec (n div 10))"
  by (subst dec.simps) simp

lemma dec_inj: "dec m = dec n \<Longrightarrow> m = n"
proof (induction m arbitrary: n rule: dec.induct)
  case (1 m)
  from "1.prems" have l: "last (dec m) = last (dec n)" and b: "butlast (dec m) = butlast (dec n)"
    by simp_all
  from l have md: "m mod 10 = n mod 10"
    by (simp add: dec_last digitChar_inj)
  show ?case
  proof (cases "m < 10")
    case True
    with b have "n < 10"
      using dec_nonempty[of "n div 10"] by (auto simp: dec_butlast split: if_splits)
    with True md show ?thesis by simp
  next
    case False
    with b have n10: "\<not> n < 10" and "dec (m div 10) = dec (n div 10)"
      using dec_nonempty[of "m div 10"] by (auto simp: dec_butlast split: if_splits)
    with "1.IH" False have "m div 10 = n div 10" by simp
    with md show ?thesis by (metis div_mult_mod_eq)
  qed
qed

lemma dec_small:
  "dec 0 = ''0''" "dec 1 = ''1''" "dec 2 = ''2''" "dec 3 = ''3''" "dec 4 = ''4''"
  "dec (Suc 0) = ''1''" "dec (Suc (Suc 0)) = ''2''"
  by code_simp+

lemma list_update_last: "xs \<noteq> [] \<Longrightarrow> xs[length xs - 1 := y] = butlast xs @ [y]"
  by (induction xs rule: rev_induct) simp_all

subsection \<open>The call stack\<close>

lemma activeOnlyTop_push:
  "activeOnlyTop (callStack m) \<Longrightarrow> activeOnlyTop (callStack (snd (pushCallStack fresh fi m)))"
  by (auto simp: activeOnlyTop_def pushCallStack_def notify_def Let_def nth_append nth_list_update)

lemma activeOnlyTop_pop:
  "activeOnlyTop (callStack m) \<Longrightarrow> activeOnlyTop (callStack (snd (popCallStack m)))"
  by (auto simp: activeOnlyTop_def popCallStack_def notify_def Let_def nth_list_update nth_butlast)

lemma activeOnlyTop_update:
  "activeOnlyTop (callStack m) \<Longrightarrow> activeOnlyTop (callStack (updateFrameVariable n v t m))"
  by (auto simp: activeOnlyTop_def updateFrameVariable_def notify_def Let_def nth_list_update)

lemma activeOnlyTop_applyOp:
  "activeOnlyTop (callStack m) \<Longrightarrow> activeOnlyTop (callStack (applyOp op m))"
proof (cases op)
  case (OpPushCallStack fresh fi) then show "activeOnlyTop (callStack m) \<Longrightarrow> ?thesis"
    by (simp add: activeOnlyTop_push)
next
  case OpPopCallStack then show "activeOnlyTop (callStack m) \<Longrightarrow> ?thesis"
    by (simp add: activeOnlyTop_pop)
next
  case (OpUpdateFrameVariable n v t) then show "activeOnlyTop (callStack m) \<Longrightarrow> ?thesis"
    by (simp add: activeOnlyTop_update)
next
  case OpReset then show "activeOnlyTop (callStack m) \<Longrightarrow> ?thesis"
    by (simp add: reset_def notify_def activeOnlyTop_def)
qed (simp_all add: store_defs Let_def split: option.splits list.splits property.splits)

lemma activeOnlyTop_runOps:
  "activeOnlyTop (callStack m) \<Longrightarrow> activeOnlyTop (callStack (runOps ops m))"
  by (induction ops arbitrary: m) (simp_all add: activeOnlyTop_applyOp)

lemma activeOnlyTop_initial: "activeOnlyTop (callStack initialManager)"
  by (simp add: activeOnlyTop_def initialManager_def initialState_def state.defs)

lemma push_shape:
  assumes "activeOnlyTop (callStack m)"
  shows "callStack (snd (pushCallStack fresh fi m)) =
           map (\<lambda>f. f\<lparr> isActive := False \<rparr>) (callStack m) @ [fst (pushCallStack fresh fi m)]"
proof -
  have "(callStack m)[length (callStack m) - 1 :=
          (callStack m ! (length (callStack m) - 1))\<lparr> isActive := False \<rparr>]
        = map (\<lambda>f. f\<lparr> isActive := False \<rparr>) (callStack m)" if "callStack m \<noteq> []"
    using assms that
    by (intro nth_equalityI) (auto simp: activeOnlyTop_def nth_list_update)
  then show ?thesis
    by (auto simp: pushCallStack_def notify_def Let_def)
qed

lemma activate_last:
  "xs \<noteq> [] \<Longrightarrow> xs[length xs - 1 := (xs ! (length xs - 1))\<lparr> isActive := b \<rparr>] =
     butlast xs @ [(last xs)\<lparr> isActive := b \<rparr>]"
  by (induction xs rule: rev_induct) simp_all

lemma pop_shape:
  "callStack (snd (popCallStack m)) =
     (if butlast (callStack m) = [] then []
      else butlast (butlast (callStack m)) @ [(last (butlast (callStack m)))\<lparr> isActive := True \<rparr>])"
proof (cases "butlast (callStack m) = []")
  case True
  then show ?thesis by (simp add: popCallStack_def notify_def Let_def)
next
  case False
  then have "length (butlast (callStack m)) > 0" by blast
  with False activate_last[OF False, of True] show ?thesis
    by (simp add: popCallStack_def notify_def Let_def del: length_butlast)
qed

text \<open>
  C3. In every state that a sequence of operations reaches from the initial state, a
  frame of the call stack is active exactly when it is the top of the stack: no frame
  below the top is active, and the top, when there is one, is. Pushing leaves every
  earlier frame inactive under a new active top; popping removes the top and makes the
  frame below it, when there is one, active.
\<close>

theorem active_frame_is_top:
  "(let m = runOps ops initialManager in
      activeOnlyTop (callStack m)
    \<and> callStack (snd (pushCallStack fresh fi m)) =
        map (\<lambda>f. f\<lparr> isActive := False \<rparr>) (callStack m) @ [fst (pushCallStack fresh fi m)]
    \<and> isActive (fst (pushCallStack fresh fi m))
    \<and> callStack (snd (popCallStack m)) =
        (if butlast (callStack m) = [] then []
         else butlast (butlast (callStack m)) @
              [(last (butlast (callStack m)))\<lparr> isActive := True \<rparr>])
    \<and> activeOnlyTop (callStack (snd (popCallStack m))))"
proof -
  have inv: "activeOnlyTop (callStack (runOps ops initialManager))"
    by (rule activeOnlyTop_runOps[OF activeOnlyTop_initial])
  have new: "isActive (fst (pushCallStack fresh fi (runOps ops initialManager)))"
    by (simp add: pushCallStack_def Let_def)
  show ?thesis
    unfolding Let_def
    using inv new push_shape[OF inv] pop_shape activeOnlyTop_pop[OF inv] by blast
qed

theorem active_frame_is_top_witness:
  "map isActive (callStack (runOps [OpPushCallStack 1 frameInput0, OpPushCallStack 2 frameInput0]
       initialManager)) = [False, True]
   \<and> activeOnlyTop (callStack (runOps [OpPushCallStack 1 frameInput0, OpPushCallStack 2 frameInput0]
       initialManager))
   \<and> map isActive (callStack (snd (popCallStack
       (runOps [OpPushCallStack 1 frameInput0, OpPushCallStack 2 frameInput0] initialManager)))) = [True]"
  using active_frame_is_top[of "[OpPushCallStack 1 frameInput0, OpPushCallStack 2 frameInput0]" 3 frameInput0]
  by (simp add: Let_def pushCallStack_def popCallStack_def notify_def initialManager_def
        initialState_def state.defs frameInput0_def)

subsection \<open>The heap\<close>

lemma heapIdCounter_applyOp:
  "op \<noteq> OpReset \<Longrightarrow>
   heapIdCounter (applyOp op m) = heapIdCounter m + (if drawsIdentity op then 1 else 0)"
proof (cases op)
  case (OpAllocateHeap t v r)
  then show ?thesis
    by (cases r) (auto simp: allocateHeap_def notify_def Let_def)
qed (simp_all add: store_defs Let_def split: option.splits list.splits property.splits)

lemma returnedId_drawn:
  "drawsIdentity op \<Longrightarrow> returnedId op m = [''ref_'' @ dec (heapIdCounter m + 1)]"
proof (cases op)
  case (OpAllocateHeap t v r)
  then show "drawsIdentity op \<Longrightarrow> ?thesis"
    by (cases r) (auto simp: allocateHeap_def notify_def Let_def)
qed simp_all

lemma drawnIds_counter:
  "OpReset \<notin> set ops \<Longrightarrow>
   drawnIds ops m =
     map (\<lambda>k. ''ref_'' @ dec k)
       [heapIdCounter m + 1 ..< heapIdCounter m + 1 + length (filter drawsIdentity ops)]"
proof (induction ops arbitrary: m)
  case Nil
  then show ?case by simp
next
  case (Cons op ops)
  then have IH: "drawnIds ops (applyOp op m) =
     map (\<lambda>k. ''ref_'' @ dec k) [heapIdCounter (applyOp op m) + 1 ..<
        heapIdCounter (applyOp op m) + 1 + length (filter drawsIdentity ops)]"
    by simp
  from Cons.prems have "op \<noteq> OpReset" by auto
  then have c:
    "heapIdCounter (applyOp op m) = heapIdCounter m + (if drawsIdentity op then 1 else 0)"
    by (rule heapIdCounter_applyOp)
  show ?case
  proof (cases "drawsIdentity op")
    case True
    have "[heapIdCounter m + 1 ..< heapIdCounter m + 1 + Suc n] =
        (heapIdCounter m + 1) # [heapIdCounter m + 1 + 1 ..< heapIdCounter m + 1 + 1 + n]" for n
      by (simp add: upt_conv_Cons del: upt_Suc)
    then show ?thesis using IH c True returnedId_drawn[OF True, of m]
      by (simp del: upt_Suc)
  next
    case False
    with IH c show ?thesis by simp
  qed
qed

lemma ref_names_distinct: "distinct (map (\<lambda>k. ''ref_'' @ dec k) [a ..< b])"
  by (simp add: distinct_map inj_on_def dec_inj)

text \<open>
  C5 (as stated). Within a session every allocation returns an identity that no other
  allocation of the session returns. This fails: \<open>allocateHeap\<close> uses a \<open>refId\<close> that its
  caller passes as the identity, whatever was allocated before.
\<close>

theorem heap_identity_reused_counterexample:
  "\<not> distinct (allocatedIds
       [OpAllocateHeap ''object'' (ValuePayload VNull) None,
        OpAllocateHeap ''object'' (ValuePayload VNull) (Some ''ref_1'')] initialManager)"
  by (simp add: allocateHeap_def notify_def Let_def initialManager_def initialState_def
        state.defs dec_small)

text \<open>
  C5 (amended). In a sequence of operations without \<open>reset\<close>, the allocations that leave
  the identity to the module (no \<open>refId\<close>, or an empty one) return \<open>ref_(c+1)\<close>,
  \<open>ref_(c+2)\<close>, ... in this order, where \<open>c\<close> is the counter at the start: these identities
  are pairwise distinct and their numbers increase by one, whatever the sequence
  deallocates and whatever it allocates under an identity of the caller's in between.
  An allocation that passes a \<open>refId\<close> returns that \<open>refId\<close>, does not move the counter and
  replaces the heap entry of that identity if there is one; nothing keeps such an
  identity apart from those that the counter has given or will give.
\<close>

theorem heap_identities_fresh:
  assumes "OpReset \<notin> set ops"
  shows "drawnIds ops m =
           map (\<lambda>k. ''ref_'' @ dec k)
             [heapIdCounter m + 1 ..< heapIdCounter m + 1 + length (drawnIds ops m)]
       \<and> distinct (drawnIds ops m)
       \<and> length (drawnIds ops m) = length (filter drawsIdentity ops)
       \<and> heapIdCounter (runOps ops m) = heapIdCounter m + length (drawnIds ops m)
       \<and> (r \<noteq> [] \<longrightarrow>
            fst (allocateHeap t v (Some r) m) = r
            \<and> heapIdCounter (snd (allocateHeap t v (Some r) m)) = heapIdCounter m
            \<and> map_option heap_id (heap (snd (allocateHeap t v (Some r) m)) r) = Some r
            \<and> map_option references (heap (snd (allocateHeap t v (Some r) m)) r) = Some [])"
proof -
  let ?n = "length (filter drawsIdentity ops)"
  have eq: "drawnIds ops m =
      map (\<lambda>k. ''ref_'' @ dec k) [heapIdCounter m + 1 ..< heapIdCounter m + 1 + ?n]"
    by (rule drawnIds_counter[OF assms])
  have len: "length (drawnIds ops m) = ?n"
    by (subst eq) (simp only: length_map length_upt add_diff_cancel_left')
  have cnt: "heapIdCounter (runOps ops m) = heapIdCounter m + ?n"
    using assms
  proof (induction ops arbitrary: m)
    case Nil
    then show ?case by simp
  next
    case (Cons op ops)
    then have "op \<noteq> OpReset" "OpReset \<notin> set ops" by auto
    with Cons.IH[of "applyOp op m"] show ?case by (simp add: heapIdCounter_applyOp)
  qed
  have given: "fst (allocateHeap t v (Some r) m) = r
       \<and> heapIdCounter (snd (allocateHeap t v (Some r) m)) = heapIdCounter m
       \<and> map_option heap_id (heap (snd (allocateHeap t v (Some r) m)) r) = Some r
       \<and> map_option references (heap (snd (allocateHeap t v (Some r) m)) r) = Some []"
    if "r \<noteq> []"
    using that by (simp add: allocateHeap_def notify_def Let_def)
  from eq len have "distinct (drawnIds ops m)" by (metis ref_names_distinct)
  with eq len cnt given show ?thesis by simp
qed

theorem heap_identities_fresh_witness:
  "drawnIds [OpAllocateHeap ''object'' (ValuePayload VNull) (Some ''ref_1''),
             OpDeallocateHeap ''ref_1'',
             OpAllocateHeap ''object'' (ValuePayload VNull) None,
             OpAllocateHeap ''array'' (ValuePayload VNull) (Some ''mine''),
             OpAllocateHeap ''array'' (ValuePayload VNull) None] initialManager
     = [''ref_1'', ''ref_2'']
   \<and> allocatedIds [OpAllocateHeap ''object'' (ValuePayload VNull) (Some ''ref_1''),
             OpDeallocateHeap ''ref_1'',
             OpAllocateHeap ''object'' (ValuePayload VNull) None,
             OpAllocateHeap ''array'' (ValuePayload VNull) (Some ''mine''),
             OpAllocateHeap ''array'' (ValuePayload VNull) None] initialManager
     = [''ref_1'', ''ref_1'', ''mine'', ''ref_2'']
   \<and> fst (allocateHeap ''object'' (ValuePayload VNull) (Some ''ref_1'') initialManager) = ''ref_1''"
  using heap_identities_fresh[where ops = "[OpAllocateHeap ''object'' (ValuePayload VNull) (Some ''ref_1''),
             OpDeallocateHeap ''ref_1'',
             OpAllocateHeap ''object'' (ValuePayload VNull) None,
             OpAllocateHeap ''array'' (ValuePayload VNull) (Some ''mine''),
             OpAllocateHeap ''array'' (ValuePayload VNull) None]" and r = "''ref_1''"
             and m = initialManager and t = "''object''" and v = "ValuePayload VNull"]
  by (simp add: allocateHeap_def deallocateHeap_def notify_def Let_def initialManager_def
        initialState_def state.defs dec_small)

lemma addHeapReference_twice:
  "addHeapReference f t (addHeapReference f t m) = addHeapReference f t m"
  by (auto simp: addHeapReference_def notify_def split: option.splits)

lemma referencesDistinct_applyOp:
  "referencesDistinct (heap m) \<Longrightarrow> referencesDistinct (heap (applyOp op m))"
proof (cases op)
  case (OpAllocateHeap t v r) then show "referencesDistinct (heap m) \<Longrightarrow> ?thesis"
    by (auto simp: referencesDistinct_def allocateHeap_def notify_def Let_def)
next
  case (OpAddHeapReference f t) then show "referencesDistinct (heap m) \<Longrightarrow> ?thesis"
    by (auto simp: referencesDistinct_def addHeapReference_def notify_def
             split: option.splits if_splits)
next
  case (OpDeallocateHeap i) then show "referencesDistinct (heap m) \<Longrightarrow> ?thesis"
    by (auto simp: referencesDistinct_def deallocateHeap_def notify_def
             split: option.splits if_splits)
next
  case OpReset then show "referencesDistinct (heap m) \<Longrightarrow> ?thesis"
    by (simp add: reset_def notify_def referencesDistinct_def)
qed (simp_all add: store_defs Let_def split: option.splits list.splits property.splits)

lemma referencesDistinct_runOps:
  "referencesDistinct (heap m) \<Longrightarrow> referencesDistinct (heap (runOps ops m))"
  by (induction ops arbitrary: m) (simp_all add: referencesDistinct_applyOp)

lemma referencesDistinct_initial: "referencesDistinct (heap initialManager)"
  by (simp add: referencesDistinct_def initialManager_def initialState_def state.defs)

text \<open>
  C10. A second \<open>addHeapReference\<close> with the same pair changes nothing: the state, with
  the reference list of the source object, and the sequence of notifications are those
  after the first call. In every state reached from the initial one, no reference list
  of a heap object holds a target twice.
\<close>

theorem add_reference_idempotent:
  "addHeapReference fromId toId (addHeapReference fromId toId m) = addHeapReference fromId toId m
   \<and> emitted (addHeapReference fromId toId (addHeapReference fromId toId m)) =
       emitted (addHeapReference fromId toId m)
   \<and> referencesDistinct (heap (runOps ops initialManager))"
  by (simp add: addHeapReference_twice referencesDistinct_runOps[OF referencesDistinct_initial])

theorem add_reference_idempotent_witness:
  "map_option references (heap (runOps [OpAllocateHeap ''object'' (ValuePayload VNull) None,
        OpAddHeapReference ''ref_1'' ''ref_7'', OpAddHeapReference ''ref_1'' ''ref_7'']
        initialManager) ''ref_1'') = Some [''ref_7'']
   \<and> length (emitted (runOps [OpAllocateHeap ''object'' (ValuePayload VNull) None,
        OpAddHeapReference ''ref_1'' ''ref_7'', OpAddHeapReference ''ref_1'' ''ref_7'']
        initialManager)) = 2
   \<and> referencesDistinct (heap (runOps [OpAllocateHeap ''object'' (ValuePayload VNull) None,
        OpAddHeapReference ''ref_1'' ''ref_7'', OpAddHeapReference ''ref_1'' ''ref_7'']
        initialManager))"
  using add_reference_idempotent[of "''ref_1''" "''ref_7''"
     "runOps [OpAllocateHeap ''object'' (ValuePayload VNull) None] initialManager"
     "[OpAllocateHeap ''object'' (ValuePayload VNull) None,
        OpAddHeapReference ''ref_1'' ''ref_7'', OpAddHeapReference ''ref_1'' ''ref_7'']"]
  by (simp add: allocateHeap_def addHeapReference_def notify_def Let_def initialManager_def
        initialState_def state.defs dec_small)

subsection \<open>Reset\<close>

text \<open>
  C9. \<open>reset\<close> keeps the source text and the pacing speed and gives every other field of
  the state the value it has initially: the state after \<open>reset\<close> is the initial state with
  the code and the speed of the state before.
\<close>

theorem reset_keeps_code_and_speed:
  "state.truncate (reset m) = initialState\<lparr> code := code m, speed := speed m \<rparr>
   \<and> code (reset m) = code m \<and> speed (reset m) = speed m
   \<and> parsedCode (reset m) = [] \<and> callStack (reset m) = [] \<and> heap (reset m) = Map.empty
   \<and> heapIdCounter (reset m) = 0 \<and> scopes (reset m) = [] \<and> scopeIdCounter (reset m) = 0
   \<and> webAPIs (eventLoop (reset m)) = [] \<and> callbackQueue (eventLoop (reset m)) = []
   \<and> microtaskQueue (eventLoop (reset m)) = []
   \<and> currentLine (reset m) = -1 \<and> currentStep (reset m) = 0
   \<and> \<not> isRunning (reset m) \<and> \<not> isPaused (reset m)
   \<and> executionQueue (reset m) = [] \<and> timers (reset m) = []"
  by (simp add: reset_def notify_def initialState_def state.defs)

subsection \<open>Variable lookup\<close>

lemma getProperty_own: "vs name = Some b \<Longrightarrow> getProperty vs name = Own b"
  by (simp add: getProperty_def)

lemma getProperty_ordinary:
  "\<not> inheritedName name \<Longrightarrow> vs name = None \<Longrightarrow> getProperty vs name = Absent"
  by (simp add: getProperty_def inheritedName_def)

lemma getProperty_inherited:
  "name \<in> set objectPrototypeNames \<Longrightarrow> vs name = None \<Longrightarrow>
   getProperty vs name = InheritedFunction"
  by (simp add: getProperty_def)

lemma lookupFrom_append:
  "k \<le> length xs \<Longrightarrow> lookupFrom inh (xs @ ys) name k = lookupFrom inh xs name k"
  by (induction k) (simp_all add: nth_append split: property.splits)

lemma lookupFrom_snoc:
  "lookupFrom inh (ys @ [t]) name (Suc (length ys)) =
     (case getProperty (scope_variables t) name of
        Own b \<Rightarrow> sb_value b
      | InheritedFunction \<Rightarrow> (case inh name of Some v \<Rightarrow> v | None \<Rightarrow> VUndefined)
      | PrototypeObject \<Rightarrow> VUndefined
      | Absent \<Rightarrow> lookupFrom inh ys name (length ys))"
  by (simp add: lookupFrom_append split: property.splits)

lemma lookupFrom_skip:
  "\<forall>t \<in> set inner. getProperty (scope_variables t) name = Absent \<Longrightarrow>
   lookupFrom inh (xs @ inner) name (length (xs @ inner)) = lookupFrom inh xs name (length xs)"
proof (induction inner rule: rev_induct)
  case Nil
  then show ?case by simp
next
  case (snoc t inner)
  have "lookupFrom inh ((xs @ inner) @ [t]) name (Suc (length (xs @ inner))) =
        lookupFrom inh (xs @ inner) name (length (xs @ inner))"
    using snoc.prems by (subst lookupFrom_snoc) simp
  with snoc show ?case by simp
qed

lemma lookupFrom_none:
  "\<forall>t \<in> set xs. getProperty (scope_variables t) name = Absent \<Longrightarrow>
   lookupFrom inh xs name (length xs) = VUndefined"
  using lookupFrom_skip[of xs name inh "[]"] by simp

lemma scopes_getState: "scopes (getState m) = scopes m"
  by (simp add: getState_def state.defs)

lemma prototypeWritten_applyOp:
  "\<not> namesPrototype op \<Longrightarrow> prototypeWritten (applyOp op m) = prototypeWritten m"
  by (cases op)
     (simp_all add: store_defs getProperty_def Let_def
        split: option.splits list.splits property.splits)

lemma prototype_untouched:
  "\<forall>op \<in> set ops. \<not> namesPrototype op \<Longrightarrow> \<not> prototypeWritten (runOps ops initialManager)"
proof -
  have "prototypeWritten (runOps ops m) = prototypeWritten m"
    if "\<forall>op \<in> set ops. \<not> namesPrototype op" for m
    using that by (induction ops arbitrary: m) (simp_all add: prototypeWritten_applyOp)
  then show "\<forall>op \<in> set ops. \<not> namesPrototype op \<Longrightarrow> ?thesis"
    by (simp add: initialManager_def state.defs)
qed

lemma lookupVariable_last:
  "scopes m = outer @ [s] \<Longrightarrow>
   lookupVariable m name =
     (case getProperty (scope_variables s) name of
        Own b \<Rightarrow> sb_value b
      | InheritedFunction \<Rightarrow> (case inheritedValue m name of Some v \<Rightarrow> v | None \<Rightarrow> VUndefined)
      | PrototypeObject \<Rightarrow> VUndefined
      | Absent \<Rightarrow> lookupFrom (inheritedValue m) outer name (length outer))"
  using lookupFrom_snoc[of "inheritedValue m" outer s name]
  by (simp add: lookupVariable_def scopes_getState Let_def)

text \<open>
  C4. The lookup goes from the last scope of the list back to the first and stops at the
  first scope in which \<open>variables[name]\<close> is not \<open>undefined\<close>. For a name that
  \<open>Object.prototype\<close> does not have, that is the nearest scope that binds the name: its
  value is the result whatever the enclosing scopes bind, and the result is \<open>undefined\<close>
  when no scope binds the name. For a name that \<open>Object.prototype\<close> has (\<open>toString\<close>,
  \<open>valueOf\<close>, \<open>constructor\<close>, ...) the test holds in every scope, so the walk always ends
  in the innermost scope: a binding of that scope is found, but when the innermost scope
  does not bind the name, the bindings of the enclosing scopes are never read, and the
  result is the \<open>value\<close> property of the inherited function (\<open>undefined\<close> unless an
  assignment has written it). So a variable \<open>toString\<close> of an enclosing scope is not
  visible from a nested function's scope.
\<close>

theorem lookup_stops_at_inherited_name:
  assumes "\<not> prototypeWritten m"
  shows "(\<not> inheritedName name \<longrightarrow> scopes m = outer @ [s] @ inner \<longrightarrow>
            scope_variables s name = Some b \<longrightarrow>
            (\<forall>t \<in> set inner. scope_variables t name = None) \<longrightarrow>
            lookupVariable m name = sb_value b)
       \<and> (\<not> inheritedName name \<longrightarrow> (\<forall>t \<in> set (scopes m). scope_variables t name = None) \<longrightarrow>
            lookupVariable m name = VUndefined)
       \<and> (scopes m = outer @ [s] \<longrightarrow> scope_variables s name = Some b \<longrightarrow>
            lookupVariable m name = sb_value b)
       \<and> (name \<in> set objectPrototypeNames \<longrightarrow> scopes m = outer @ [s] \<longrightarrow>
            scope_variables s name = None \<longrightarrow>
            lookupVariable m name =
              (case inheritedValue m name of Some v \<Rightarrow> v | None \<Rightarrow> VUndefined))"
proof (intro conjI impI)
  assume n: "\<not> inheritedName name" and sc: "scopes m = outer @ [s] @ inner"
    and b: "scope_variables s name = Some b"
    and inner: "\<forall>t \<in> set inner. scope_variables t name = None"
  from n inner have "\<forall>t \<in> set inner. getProperty (scope_variables t) name = Absent"
    by (simp add: getProperty_ordinary)
  then have "lookupFrom (inheritedValue m) ((outer @ [s]) @ inner) name
                (length ((outer @ [s]) @ inner))
        = lookupFrom (inheritedValue m) (outer @ [s]) name (length (outer @ [s]))"
    by (rule lookupFrom_skip)
  also have "\<dots> = sb_value b"
    using lookupFrom_snoc[of "inheritedValue m" outer s name]
      getProperty_own[of "scope_variables s" name b] b by simp
  finally show "lookupVariable m name = sb_value b"
    using sc by (simp add: lookupVariable_def scopes_getState Let_def)
next
  assume n: "\<not> inheritedName name"
    and "\<forall>t \<in> set (scopes m). scope_variables t name = None"
  then have "\<forall>t \<in> set (scopes m). getProperty (scope_variables t) name = Absent"
    by (simp add: getProperty_ordinary)
  then show "lookupVariable m name = VUndefined"
    by (simp add: lookupVariable_def scopes_getState Let_def lookupFrom_none)
next
  assume "scopes m = outer @ [s]" "scope_variables s name = Some b"
  then show "lookupVariable m name = sb_value b"
    by (simp add: lookupVariable_last getProperty_own)
next
  assume "name \<in> set objectPrototypeNames" "scopes m = outer @ [s]"
    "scope_variables s name = None"
  then show "lookupVariable m name =
      (case inheritedValue m name of Some v \<Rightarrow> v | None \<Rightarrow> VUndefined)"
    by (simp add: lookupVariable_last getProperty_inherited)
qed

lemma scopesExample_scopes:
  "scopes scopesExample =
     [\<lparr>scope_id = ''scope_1'', scope_name = ''Global'', scope_type = ''global'', parentId = None,
        scope_variables = [''x'' \<mapsto> \<lparr>sb_value = VNumber ''1'', sb_type = ''number'', declarationType = ''var''\<rparr>,
                           ''y'' \<mapsto> \<lparr>sb_value = VNumber ''2'', sb_type = ''number'', declarationType = ''var''\<rparr>]\<rparr>,
      \<lparr>scope_id = ''scope_2'', scope_name = ''f'', scope_type = ''function'', parentId = Some ''scope_1'',
        scope_variables = [''x'' \<mapsto> \<lparr>sb_value = VNumber ''10'', sb_type = ''number'', declarationType = ''let''\<rparr>]\<rparr>]"
  by (simp add: scopesExample_def createScope_def addScopeVariable_def notify_def Let_def
        initialManager_def initialState_def state.defs dec_small hasScopeId_def)

lemma inheritedExample_scopes:
  "scopes inheritedExample =
     [\<lparr>scope_id = ''scope_1'', scope_name = ''Global'', scope_type = ''global'', parentId = None,
        scope_variables = [''toString'' \<mapsto> \<lparr>sb_value = VNumber ''5'', sb_type = ''number'', declarationType = ''var''\<rparr>,
                           ''y'' \<mapsto> \<lparr>sb_value = VNumber ''2'', sb_type = ''number'', declarationType = ''var''\<rparr>]\<rparr>,
      \<lparr>scope_id = ''scope_2'', scope_name = ''f'', scope_type = ''function'', parentId = Some ''scope_1'',
        scope_variables = Map.empty\<rparr>]"
  "inheritedValue inheritedExample = Map.empty"
  "\<not> prototypeWritten inheritedExample"
  by (simp_all add: inheritedExample_def createScope_def addScopeVariable_def notify_def Let_def
        initialManager_def initialState_def state.defs dec_small hasScopeId_def)

theorem lookup_stops_at_inherited_name_witness:
  "\<not> prototypeWritten inheritedExample
   \<and> map (\<lambda>s. map_option sb_value (scope_variables s ''toString'')) (scopes inheritedExample)
       = [Some (VNumber ''5''), None]
   \<and> lookupVariable inheritedExample ''toString'' = VUndefined
   \<and> lookupVariable inheritedExample ''y'' = VNumber ''2''
   \<and> lookupVariable inheritedExample ''z'' = VUndefined
   \<and> map_option (\<lambda>w. last (emitted (mgr w)))
        (executeInstruction host0 0 (Console ''log'' [EReference ''toString''] 2)
           (initialWorld\<lparr> mgr := inheritedExample \<rparr>))
       = Some (NConsole ''log'' [''undefined''])"
  using lookup_stops_at_inherited_name[where m = inheritedExample and name = "''toString''"
          and outer = "take 1 (scopes inheritedExample)" and s = "scopes inheritedExample ! 1"
          and inner = "[]"
          and b = "\<lparr>sb_value = VNull, sb_type = [], declarationType = []\<rparr>"]
        lookup_stops_at_inherited_name[where m = inheritedExample and name = "''y''"
          and outer = "[]" and s = "scopes inheritedExample ! 0"
          and inner = "drop 1 (scopes inheritedExample)"
          and b = "\<lparr>sb_value = VNumber ''2'', sb_type = ''number'', declarationType = ''var''\<rparr>"]
        lookup_stops_at_inherited_name[where m = inheritedExample and name = "''z''"
          and outer = "[]" and s = "scopes inheritedExample ! 0" and inner = "[]"
          and b = "\<lparr>sb_value = VNull, sb_type = [], declarationType = []\<rparr>"]
  by (simp add: inheritedExample_scopes inheritedName_def objectPrototypeNames_def
        executeConsole_def logConsole_def notify_def consoleOutput_def initialWorld_def)

subsection \<open>Scope identities\<close>


lemma map_updateFirst_same:
  "List.find P xs = Some x \<Longrightarrow> f y = f x \<Longrightarrow> map f (updateFirst P (\<lambda>_. y) xs) = map f xs"
  by (induction xs) (auto split: if_splits)

lemma set_removeFirst: "set (removeFirst P xs) \<subseteq> set xs"
  by (induction xs) auto

lemma set_map_removeFirst: "set (map f (removeFirst P xs)) \<subseteq> set (map f xs)"
  using set_removeFirst[of P xs] by auto

lemma distinct_map_removeFirst: "distinct (map f xs) \<Longrightarrow> distinct (map f (removeFirst P xs))"
proof (induction xs)
  case Nil
  then show ?case by simp
next
  case (Cons x xs)
  then show ?case using set_removeFirst[of P xs] by auto
qed

lemma scopeIdsOk_createScope: "scopeIdsOk m \<Longrightarrow> scopeIdsOk (snd (createScope n t p m))"
proof -
  assume a: "scopeIdsOk m"
  have new: "''scope_'' @ dec (Suc (scopeIdCounter m)) \<notin> set (map scope_id (scopes m))"
  proof
    assume "''scope_'' @ dec (Suc (scopeIdCounter m)) \<in> set (map scope_id (scopes m))"
    with a obtain k where "k \<le> scopeIdCounter m" "''scope_'' @ dec (Suc (scopeIdCounter m)) = ''scope_'' @ dec k"
      unfolding scopeIdsOk_def by blast
    then show False using dec_inj[of "Suc (scopeIdCounter m)" k] by simp
  qed
  have "\<exists>k. k \<le> Suc (scopeIdCounter m) \<and> i = ''scope_'' @ dec k"
    if "i \<in> set (map scope_id (scopes m))" for i
    using a that unfolding scopeIdsOk_def by (meson le_Suc_eq)
  with a new show ?thesis
    unfolding scopeIdsOk_def by (auto simp: createScope_def notify_def Let_def)
qed

lemma ids_addScopeVariable:
  "map scope_id (scopes (addScopeVariable s n v t d m)) = map scope_id (scopes m)"
  "scopeIdCounter (addScopeVariable s n v t d m) = scopeIdCounter m"
  by (auto simp: addScopeVariable_def notify_def Let_def map_updateFirst_same
           split: option.splits)

lemma ids_updateScopeVariable:
  "map scope_id (scopes (updateScopeVariable s n v m)) = map scope_id (scopes m)"
  "scopeIdCounter (updateScopeVariable s n v m) = scopeIdCounter m"
  by (auto simp: updateScopeVariable_def notify_def Let_def map_updateFirst_same
           split: option.splits property.splits)

lemma scopeIdsOk_addScopeVariable: "scopeIdsOk m \<Longrightarrow> scopeIdsOk (addScopeVariable s n v t d m)"
  by (simp add: scopeIdsOk_def ids_addScopeVariable)

lemma scopeIdsOk_updateScopeVariable: "scopeIdsOk m \<Longrightarrow> scopeIdsOk (updateScopeVariable s n v m)"
  by (simp add: scopeIdsOk_def ids_updateScopeVariable)

lemma scopeIdsOk_destroyScope: "scopeIdsOk m \<Longrightarrow> scopeIdsOk (destroyScope s m)"
  using set_map_removeFirst[of scope_id "hasScopeId s" "scopes m"]
  by (auto simp: scopeIdsOk_def destroyScope_def notify_def distinct_map_removeFirst
           split: option.splits)

lemma scopeIdsOk_applyOp: "scopeIdsOk m \<Longrightarrow> scopeIdsOk (applyOp op m)"
proof (cases op)
  case (OpCreateScope n t p) then show "scopeIdsOk m \<Longrightarrow> ?thesis"
    by (simp add: scopeIdsOk_createScope)
next
  case (OpAddScopeVariable s n v t d) then show "scopeIdsOk m \<Longrightarrow> ?thesis"
    by (simp add: scopeIdsOk_addScopeVariable)
next
  case (OpUpdateScopeVariable s n v) then show "scopeIdsOk m \<Longrightarrow> ?thesis"
    by (simp add: scopeIdsOk_updateScopeVariable)
next
  case (OpDestroyScope s) then show "scopeIdsOk m \<Longrightarrow> ?thesis"
    by (simp add: scopeIdsOk_destroyScope)
next
  case OpReset then show "scopeIdsOk m \<Longrightarrow> ?thesis"
    by (simp add: reset_def notify_def scopeIdsOk_def)
qed (simp_all add: scopeIdsOk_def store_defs Let_def split: option.splits list.splits)

lemma scopeIdsOk_runOps: "scopeIdsOk m \<Longrightarrow> scopeIdsOk (runOps ops m)"
  by (induction ops arbitrary: m) (simp_all add: scopeIdsOk_applyOp)

lemma scope_ids_distinct: "distinct (map scope_id (scopes (runOps ops initialManager)))"
proof -
  have "scopeIdsOk initialManager"
    by (simp add: scopeIdsOk_def initialManager_def initialState_def state.defs)
  from scopeIdsOk_runOps[OF this] show ?thesis by (simp add: scopeIdsOk_def)
qed

subsection \<open>Assignment\<close>

lemma findScopeFrom_append:
  "k \<le> length xs \<Longrightarrow> findScopeFrom (xs @ ys) name k = findScopeFrom xs name k"
  by (induction k) (simp_all add: nth_append split: property.splits)

lemma findScopeFrom_snoc:
  "findScopeFrom (ys @ [t]) name (Suc (length ys)) =
     (if getProperty (scope_variables t) name = Absent
      then findScopeFrom ys name (length ys) else Some (scope_id t))"
  by (simp add: findScopeFrom_append split: property.splits)

lemma findScopeFrom_skip:
  "\<forall>t \<in> set inner. getProperty (scope_variables t) name = Absent \<Longrightarrow>
   findScopeFrom (xs @ inner) name (length (xs @ inner)) = findScopeFrom xs name (length xs)"
proof (induction inner rule: rev_induct)
  case Nil
  then show ?case by simp
next
  case (snoc t inner)
  have "findScopeFrom ((xs @ inner) @ [t]) name (Suc (length (xs @ inner))) =
        findScopeFrom (xs @ inner) name (length (xs @ inner))"
    using snoc.prems by (subst findScopeFrom_snoc) simp
  with snoc show ?case by simp
qed

lemma findScopeFrom_none:
  "\<forall>t \<in> set xs. getProperty (scope_variables t) name = Absent \<Longrightarrow>
   findScopeFrom xs name (length xs) = None"
  using findScopeFrom_skip[of xs name "[]"] by simp

lemma findVariableScope_found:
  assumes "scopes m = outer @ [s] @ inner" "getProperty (scope_variables s) name \<noteq> Absent"
    "\<forall>t \<in> set inner. getProperty (scope_variables t) name = Absent"
  shows "findVariableScope m name = Some (scope_id s)"
proof -
  have "findScopeFrom ((outer @ [s]) @ inner) name (length ((outer @ [s]) @ inner))
        = findScopeFrom (outer @ [s]) name (length (outer @ [s]))"
    by (rule findScopeFrom_skip[OF assms(3)])
  also have "\<dots> = Some (scope_id s)"
    using assms(2) findScopeFrom_snoc[of outer s name] by simp
  finally show ?thesis using assms(1)
    by (simp add: findVariableScope_def scopes_getState Let_def)
qed

lemma findVariableScope_fallback:
  assumes "scopes m = outer @ [s]"
    "\<forall>t \<in> set (scopes m). getProperty (scope_variables t) name = Absent"
  shows "findVariableScope m name = Some (scope_id s)"
  using assms findScopeFrom_none[of "scopes m" name]
  by (simp add: findVariableScope_def getCurrentScopeId_def scopes_getState Let_def)

lemma find_skip: "\<forall>x \<in> set xs. \<not> P x \<Longrightarrow> List.find P (xs @ ys) = List.find P ys"
  by (induction xs) simp_all

lemma updateFirst_skip:
  "\<forall>x \<in> set xs. \<not> P x \<Longrightarrow> updateFirst P f (xs @ ys) = xs @ updateFirst P f ys"
  by (induction xs) simp_all

lemma find_scope_by_id:
  assumes d: "distinct (map scope_id (scopes m))" and sc: "scopes m = outer @ [s] @ inner"
  shows "List.find (hasScopeId (Some (scope_id s))) (scopes m) = Some s"
    and "updateFirst (hasScopeId (Some (scope_id s))) g (scopes m) = outer @ g s # inner"
proof -
  from d sc have no: "\<forall>t \<in> set outer. \<not> hasScopeId (Some (scope_id s)) t"
    by (auto simp: hasScopeId_def)
  have yes: "hasScopeId (Some (scope_id s)) s" by (simp add: hasScopeId_def)
  show "List.find (hasScopeId (Some (scope_id s))) (scopes m) = Some s"
    using sc yes find_skip[OF no, of "s # inner"] by simp
  show "updateFirst (hasScopeId (Some (scope_id s))) g (scopes m) = outer @ g s # inner"
    using sc yes updateFirst_skip[OF no, of g "s # inner"] by simp
qed

lemma updateScopeVariable_absent:
  assumes "\<forall>t \<in> set (scopes m). getProperty (scope_variables t) name = Absent"
  shows "updateScopeVariable sid name v m = m"
proof (cases "List.find (hasScopeId sid) (scopes m)")
  case None
  then show ?thesis by (simp add: updateScopeVariable_def)
next
  case (Some sc)
  then have "sc \<in> set (scopes m)" by (auto simp: find_Some_iff)
  with assms have "getProperty (scope_variables sc) name = Absent" by blast
  with Some show ?thesis by (simp add: updateScopeVariable_def)
qed

lemma updateScopeVariable_own:
  assumes d: "distinct (map scope_id (scopes m))"
    and sc: "scopes m = outer @ [s] @ inner" and b: "scope_variables s name = Some b"
  shows "updateScopeVariable (Some (scope_id s)) name v m =
           notify (NScopes ''updateVariable''
                     (Some (s\<lparr> scope_variables := (scope_variables s)(name \<mapsto> b\<lparr> sb_value := v \<rparr>) \<rparr>))
                     (Some name))
             (m\<lparr> scopes :=
                  outer @ [s\<lparr> scope_variables := (scope_variables s)(name \<mapsto> b\<lparr> sb_value := v \<rparr>) \<rparr>]
                  @ inner \<rparr>)"
  using find_scope_by_id[OF d sc] b
  by (simp add: updateScopeVariable_def Let_def getProperty_own)

lemma updateScopeVariable_inherited:
  assumes d: "distinct (map scope_id (scopes m))"
    and sc: "scopes m = outer @ [s] @ inner"
    and b: "getProperty (scope_variables s) name = InheritedFunction"
  shows "updateScopeVariable (Some (scope_id s)) name v m =
           notify (NScopes ''updateVariable'' (Some s) (Some name))
             (m\<lparr> inheritedValue := (inheritedValue m)(name \<mapsto> v) \<rparr>)"
  using find_scope_by_id(1)[OF d sc] b
  by (simp add: updateScopeVariable_def)

lemma updateFrameVariable_keeps:
  "scopes (updateFrameVariable n v t m) = scopes m"
  "inheritedValue (updateFrameVariable n v t m) = inheritedValue m"
  "n \<noteq> ''__proto__'' \<Longrightarrow> prototypeWritten (updateFrameVariable n v t m) = prototypeWritten m"
  by (simp_all add: updateFrameVariable_def notify_def Let_def)

lemma updateFrameVariable_top:
  "callStack m \<noteq> [] \<Longrightarrow> n \<noteq> ''__proto__'' \<Longrightarrow>
   frame_variables (last (callStack (updateFrameVariable n v t m))) n
     = Some \<lparr> fb_value = v, fb_type = t \<rparr>"
  by (simp add: updateFrameVariable_def notify_def Let_def last_list_update)

lemma notify_keeps:
  "scopes (notify ev m) = scopes m" "inheritedValue (notify ev m) = inheritedValue m"
  "prototypeWritten (notify ev m) = prototypeWritten m" "callStack (notify ev m) = callStack m"
  by (simp_all add: notify_def)

text \<open>
  C6. An assignment resolves its right-hand side, asks \<open>findVariableScope\<close> for a scope and
  hands that scope to \<open>updateScopeVariable\<close>; then it writes the name into the top frame.
  In the state that the resolution leaves (scope ids pairwise distinct, as in every state
  the operations reach):
  \<^item> for a name that \<open>Object.prototype\<close> does not have and that some scope binds, the value
    is written into the binding of the nearest such scope, and nothing else in the scopes
    changes;
  \<^item> a name that the innermost scope binds is written there, whatever the name;
  \<^item> for a name that \<open>Object.prototype\<close> does not have and that no scope binds,
    \<open>findVariableScope\<close> falls back to the current scope, but the guard
    \<open>scope && scope.variables[name]\<close> of \<open>updateScopeVariable\<close> fails there: no binding is
    created or changed in any scope and no scope notification is sent, while the top
    frame does get the name;
  \<^item> for a name that \<open>Object.prototype\<close> has and that the innermost scope does not bind,
    the search stops in the innermost scope, the guard holds for the inherited function,
    and the value is written on that function: every scope, also an enclosing one that
    binds the name, keeps its bindings, and a scope notification is sent.
\<close>

theorem assignment_misses_current_scope:
  assumes "\<not> prototypeWritten (mgr w1)" and "distinct (map scope_id (scopes (mgr w1)))"
  shows "executeInstruction h fuel (Assignment name e l) w =
           (case resolveValue h fuel e w of
              None \<Rightarrow> None
            | Some (v, w1) \<Rightarrow> Some (executeAssignment name v w1))
       \<and> (\<not> inheritedName name \<longrightarrow> scopes (mgr w1) = outer @ [s] @ inner \<longrightarrow>
            scope_variables s name = Some b \<longrightarrow>
            (\<forall>t \<in> set inner. scope_variables t name = None) \<longrightarrow>
            scopes (mgr (executeAssignment name v w1)) =
              outer @ [s\<lparr> scope_variables := (scope_variables s)(name \<mapsto> b\<lparr> sb_value := v \<rparr>) \<rparr>]
              @ inner
            \<and> inheritedValue (mgr (executeAssignment name v w1)) = inheritedValue (mgr w1))
       \<and> (scopes (mgr w1) = outer @ [s] \<longrightarrow> scope_variables s name = Some b \<longrightarrow>
            scopes (mgr (executeAssignment name v w1)) =
              outer @ [s\<lparr> scope_variables := (scope_variables s)(name \<mapsto> b\<lparr> sb_value := v \<rparr>) \<rparr>])
       \<and> (\<not> inheritedName name \<longrightarrow>
            (\<forall>t \<in> set (scopes (mgr w1)). scope_variables t name = None) \<longrightarrow>
            scopes (mgr (executeAssignment name v w1)) = scopes (mgr w1)
            \<and> inheritedValue (mgr (executeAssignment name v w1)) = inheritedValue (mgr w1)
            \<and> updateFrameVariable name (formatValue v) (getValueType v) (mgr w1) =
                mgr (executeAssignment name v w1)
            \<and> (callStack (mgr w1) \<noteq> [] \<longrightarrow>
                frame_variables (last (callStack (mgr (executeAssignment name v w1)))) name
                  = Some \<lparr> fb_value = formatValue v, fb_type = getValueType v \<rparr>))
       \<and> (name \<in> set objectPrototypeNames \<longrightarrow> scopes (mgr w1) = outer @ [s] \<longrightarrow>
            scope_variables s name = None \<longrightarrow>
            scopes (mgr (executeAssignment name v w1)) = scopes (mgr w1)
            \<and> inheritedValue (mgr (executeAssignment name v w1)) =
                (inheritedValue (mgr w1))(name \<mapsto> v)
            \<and> updateFrameVariable name (formatValue v) (getValueType v)
                  (notify (NScopes ''updateVariable'' (Some s) (Some name))
                     ((mgr w1)\<lparr> inheritedValue := (inheritedValue (mgr w1))(name \<mapsto> v) \<rparr>))
                = mgr (executeAssignment name v w1))
       \<and> (name \<noteq> ''__proto__'' \<longrightarrow> \<not> prototypeWritten (mgr (executeAssignment name v w1)))"
proof (intro conjI impI)
  show "executeInstruction h fuel (Assignment name e l) w =
     (case resolveValue h fuel e w of
        None \<Rightarrow> None
      | Some (v, w1) \<Rightarrow> Some (executeAssignment name v w1))"
    by simp
next
  assume n: "\<not> inheritedName name" and sc: "scopes (mgr w1) = outer @ [s] @ inner"
    and b: "scope_variables s name = Some b"
    and inner: "\<forall>t \<in> set inner. scope_variables t name = None"
  from n inner have i: "\<forall>t \<in> set inner. getProperty (scope_variables t) name = Absent"
    by (simp add: getProperty_ordinary)
  have f: "findVariableScope (mgr w1) name = Some (scope_id s)"
    using getProperty_own[of "scope_variables s" name b] b
    by (intro findVariableScope_found[OF sc _ i]) simp
  show "scopes (mgr (executeAssignment name v w1)) =
          outer @ [s\<lparr> scope_variables := (scope_variables s)(name \<mapsto> b\<lparr> sb_value := v \<rparr>) \<rparr>] @ inner"
    by (simp add: executeAssignment_def Let_def updateFrameVariable_keeps f
          updateScopeVariable_own[OF assms(2) sc b] notify_keeps)
  show "inheritedValue (mgr (executeAssignment name v w1)) = inheritedValue (mgr w1)"
    by (simp add: executeAssignment_def Let_def updateFrameVariable_keeps f
          updateScopeVariable_own[OF assms(2) sc b] notify_keeps)
next
  assume sc: "scopes (mgr w1) = outer @ [s]" and b: "scope_variables s name = Some b"
  have sc': "scopes (mgr w1) = outer @ [s] @ []" using sc by simp
  have f: "findVariableScope (mgr w1) name = Some (scope_id s)"
    using getProperty_own[of "scope_variables s" name b] b
    by (intro findVariableScope_found[OF sc']) simp_all
  show "scopes (mgr (executeAssignment name v w1)) =
          outer @ [s\<lparr> scope_variables := (scope_variables s)(name \<mapsto> b\<lparr> sb_value := v \<rparr>) \<rparr>]"
    by (simp add: executeAssignment_def Let_def updateFrameVariable_keeps f
          updateScopeVariable_own[OF assms(2) sc' b] notify_keeps)
next
  assume n: "\<not> inheritedName name"
    and u: "\<forall>t \<in> set (scopes (mgr w1)). scope_variables t name = None"
  then have a: "\<forall>t \<in> set (scopes (mgr w1)). getProperty (scope_variables t) name = Absent"
    by (simp add: getProperty_ordinary)
  have eq: "mgr (executeAssignment name v w1) =
          updateFrameVariable name (formatValue v) (getValueType v) (mgr w1)"
    by (simp add: executeAssignment_def Let_def updateScopeVariable_absent[OF a])
  then show "updateFrameVariable name (formatValue v) (getValueType v) (mgr w1) =
          mgr (executeAssignment name v w1)"
    by simp
  show "scopes (mgr (executeAssignment name v w1)) = scopes (mgr w1)"
    by (simp add: eq updateFrameVariable_keeps)
  show "inheritedValue (mgr (executeAssignment name v w1)) = inheritedValue (mgr w1)"
    by (simp add: eq updateFrameVariable_keeps)
  from n have np: "name \<noteq> ''__proto__''" by (auto simp: inheritedName_def)
  show "frame_variables (last (callStack (mgr (executeAssignment name v w1)))) name
          = Some \<lparr> fb_value = formatValue v, fb_type = getValueType v \<rparr>"
    if "callStack (mgr w1) \<noteq> []"
    using that np by (simp add: eq updateFrameVariable_top)
next
  assume n: "name \<in> set objectPrototypeNames" and sc: "scopes (mgr w1) = outer @ [s]"
    and b: "scope_variables s name = None"
  have g: "getProperty (scope_variables s) name = InheritedFunction"
    using getProperty_inherited[of name "scope_variables s"] n b by simp
  have sc': "scopes (mgr w1) = outer @ [s] @ []" using sc by simp
  have f: "findVariableScope (mgr w1) name = Some (scope_id s)"
    by (rule findVariableScope_found[OF sc']) (simp_all add: g)
  have eq: "mgr (executeAssignment name v w1) =
          updateFrameVariable name (formatValue v) (getValueType v)
            (notify (NScopes ''updateVariable'' (Some s) (Some name))
               ((mgr w1)\<lparr> inheritedValue := (inheritedValue (mgr w1))(name \<mapsto> v) \<rparr>))"
    by (simp add: executeAssignment_def Let_def f updateScopeVariable_inherited[OF assms(2) sc' g])
  then show "updateFrameVariable name (formatValue v) (getValueType v)
            (notify (NScopes ''updateVariable'' (Some s) (Some name))
               ((mgr w1)\<lparr> inheritedValue := (inheritedValue (mgr w1))(name \<mapsto> v) \<rparr>))
          = mgr (executeAssignment name v w1)"
    by simp
  show "scopes (mgr (executeAssignment name v w1)) = scopes (mgr w1)"
    by (simp add: eq updateFrameVariable_keeps notify_keeps)
  show "inheritedValue (mgr (executeAssignment name v w1)) =
          (inheritedValue (mgr w1))(name \<mapsto> v)"
    by (simp add: eq updateFrameVariable_keeps notify_keeps)
next
  assume np: "name \<noteq> ''__proto__''"
  have "prototypeWritten (updateScopeVariable sid name v (mgr w1)) = prototypeWritten (mgr w1)"
    for sid
    using np by (simp add: updateScopeVariable_def getProperty_def notify_def Let_def
                   split: option.splits)
  then show "\<not> prototypeWritten (mgr (executeAssignment name v w1))"
    using assms(1) np by (simp add: executeAssignment_def Let_def updateFrameVariable_keeps)
qed

lemma valueOfExample_scopes:
  "scopes (mgr valueOfExample) =
     [\<lparr>scope_id = ''scope_1'', scope_name = ''Global'', scope_type = ''global'', parentId = None,
        scope_variables = [''valueOf'' \<mapsto> \<lparr>sb_value = VNumber ''5'', sb_type = ''number'', declarationType = ''var''\<rparr>]\<rparr>,
      \<lparr>scope_id = ''scope_2'', scope_name = ''f'', scope_type = ''function'', parentId = Some ''scope_1'',
        scope_variables = Map.empty\<rparr>]"
  "inheritedValue (mgr valueOfExample) = Map.empty"
  "\<not> prototypeWritten (mgr valueOfExample)"
  "callStack (mgr valueOfExample) \<noteq> []"
  by (simp_all add: valueOfExample_def initialWorld_def createScope_def addScopeVariable_def
        pushCallStack_def notify_def Let_def
        initialManager_def initialState_def state.defs dec_small hasScopeId_def)

theorem assignment_misses_current_scope_witness:
  "\<not> prototypeWritten (mgr valueOfExample)
   \<and> distinct (map scope_id (scopes (mgr valueOfExample)))
   \<and> map (\<lambda>s. map_option sb_value (scope_variables s ''z''))
         (scopes (mgr (executeAssignment ''z'' (VNumber ''7'') valueOfExample)))
       = [None, None]
   \<and> frame_variables (last (callStack (mgr (executeAssignment ''z'' (VNumber ''7'') valueOfExample))))
         ''z'' = Some \<lparr> fb_value = ''7'', fb_type = ''number'' \<rparr>
   \<and> map (\<lambda>s. map_option sb_value (scope_variables s ''valueOf''))
         (scopes (mgr (executeAssignment ''valueOf'' (VNumber ''7'') valueOfExample)))
       = [Some (VNumber ''5''), None]
   \<and> inheritedValue (mgr (executeAssignment ''valueOf'' (VNumber ''7'') valueOfExample)) ''valueOf''
       = Some (VNumber ''7'')
   \<and> lookupVariable (mgr (executeAssignment ''valueOf'' (VNumber ''7'') valueOfExample)) ''valueOf''
       = VNumber ''7''"
  using assignment_misses_current_scope[where ?w1.0 = valueOfExample and name = "''z''"
          and v = "VNumber ''7''" and outer = "[]" and s = "scopes (mgr valueOfExample) ! 0"
          and inner = "[]"
          and b = "\<lparr>sb_value = VNull, sb_type = [], declarationType = []\<rparr>"
          and h = host0 and fuel = 0 and e = "ENumber ''7''" and l = 3 and w = valueOfExample]
        assignment_misses_current_scope[where ?w1.0 = valueOfExample and name = "''valueOf''"
          and outer = "take 1 (scopes (mgr valueOfExample))"
          and s = "scopes (mgr valueOfExample) ! 1" and v = "VNumber ''7''"
          and inner = "[]"
          and b = "\<lparr>sb_value = VNull, sb_type = [], declarationType = []\<rparr>"
          and h = host0 and fuel = 0 and e = "ENumber ''7''" and l = 3 and w = valueOfExample]
  by (simp add: valueOfExample_scopes inheritedName_def objectPrototypeNames_def
        lookupVariable_def scopes_getState getProperty_def eval_nat_numeral)

subsection \<open>Calls of unknown functions\<close>



subsection \<open>The event loop\<close>

lemma eventLoop_getState: "eventLoop (getState m) = eventLoop m"
  by (simp add: getState_def state.defs)

lemma drainMicrotasks_stale_snapshot:
  "microtaskQueue (eventLoop snapshot) \<noteq> [] \<Longrightarrow> drainMicrotasks h fuel iters snapshot w = None"
proof (induction iters arbitrary: w)
  case 0
  then show ?case by simp
next
  case (Suc iters)
  then show ?case
    by (simp add: Let_def split: prod.splits option.splits)
qed

lemma processEventLoop_stale_snapshot:
  "microtaskQueue (eventLoop (mgr w)) \<noteq> [] \<Longrightarrow> processEventLoop h fuel iters w = None"
  by (simp add: processEventLoop_def eventLoop_getState drainMicrotasks_stale_snapshot)

lemma step_stale_snapshot:
  "microtaskQueue (eventLoop (mgr w)) \<noteq> [] \<Longrightarrow>
   length (instructions (exe w)) \<le> currentIndex (exe w) \<Longrightarrow> step h fuel iters w = None"
  by (simp add: step_def processEventLoop_stale_snapshot)


lemma resolveValue_literal: "isLiteral e \<Longrightarrow> \<exists>v. resolveValue h fuel e w = Some (v, w)"
  by (cases e) simp_all

lemma resolveValues_literals:
  "list_all isLiteral es \<Longrightarrow> \<exists>vs. resolveValues h fuel es w = Some (vs, w)"
proof (induction es)
  case Nil
  then show ?case by simp
next
  case (Cons e es)
  then obtain v vs where "resolveValue h fuel e w = Some (v, w)"
    "resolveValues h fuel es w = Some (vs, w)"
    using resolveValue_literal[of e h fuel w] by auto
  then show ?case by simp
qed

lemma microtaskQueue_moveToCallbackQueue:
  "microtaskQueue (eventLoop (snd (moveToCallbackQueue i m))) = microtaskQueue (eventLoop m)"
  by (simp add: moveToCallbackQueue_def notify_def Let_def split: option.splits)

lemma microtaskQueue_moveFired:
  "microtaskQueue (eventLoop (moveFired ids m)) = microtaskQueue (eventLoop m)"
  unfolding moveFired_def
  by (induction ids arbitrary: m) (simp_all add: microtaskQueue_moveToCallbackQueue)

lemma delay_keeps:
  "exe (delay h w) = exe w"
  "microtaskQueue (eventLoop (mgr (delay h w))) = microtaskQueue (eventLoop (mgr w))"
  by (simp_all add: delay_def Let_def microtaskQueue_moveFired addTimer_def)

lemma plain_executes:
  assumes "plainInstruction i"
  shows "\<exists>w1. executeInstruction h fuel i w = Some w1
     \<and> instructions (exe w1) = instructions (exe w) \<and> currentIndex (exe w1) = currentIndex (exe w)
     \<and> isRunningEx (exe w1) = isRunningEx (exe w) \<and> isPausedEx (exe w1) = isPausedEx (exe w)
     \<and> (microtaskQueue (eventLoop (mgr w)) \<noteq> [] \<longrightarrow> microtaskQueue (eventLoop (mgr w1)) \<noteq> [])
     \<and> (isPromise i \<longrightarrow> microtaskQueue (eventLoop (mgr w1)) \<noteq> [])
     \<and> (\<not> isPromise i \<longrightarrow> microtaskQueue (eventLoop (mgr w1)) = microtaskQueue (eventLoop (mgr w)))"
proof (cases i)
  case (SetTimeout cb dl l)
  then show ?thesis
    by (simp add: executeSetTimeout_def addToWebAPI_def logConsole_def addTimer_def notify_def Let_def)
next
  case (Promise cb l)
  then show ?thesis
    by (simp add: executePromise_def addToMicrotaskQueue_def logConsole_def notify_def Let_def)
next
  case (Console cmeth cargs l)
  with assms obtain vs where "resolveValues h fuel cargs w = Some (vs, w)"
    using resolveValues_literals[of cargs h fuel w] by auto
  with Console show ?thesis
    by (simp add: executeConsole_def logConsole_def notify_def Let_def)
qed (use assms in simp_all)


lemma hasPendingTasks_microtasks:
  "microtaskQueue (eventLoop (mgr w)) \<noteq> [] \<Longrightarrow> hasPendingTasks w"
  by (simp add: hasPendingTasks_def eventLoop_getState Let_def)

lemma doomed_step:
  assumes d: "doomed w" and lt: "currentIndex (exe w) < length (instructions (exe w))"
  shows "\<exists>w2. step h fuel iters w = Some (Inr True, w2) \<and> doomed (delay h w2)"
proof -
  let ?i = "instructions (exe w) ! currentIndex (exe w)"
  let ?w0 = "w\<lparr> mgr := snd (incrementStep (setCurrentLine (int (instLine ?i)) (mgr w))) \<rparr>"
  from d lt have plain: "plainInstruction ?i" unfolding doomed_def by blast
  have q0: "microtaskQueue (eventLoop (mgr ?w0)) = microtaskQueue (eventLoop (mgr w))"
    by (simp add: incrementStep_def setCurrentLine_def notify_def)
  have e0: "exe ?w0 = exe w" by simp
  from plain_executes[OF plain, of h fuel ?w0] obtain w1 where
    ex: "executeInstruction h fuel ?i ?w0 = Some w1"
    and ins: "instructions (exe w1) = instructions (exe w)"
    and ci: "currentIndex (exe w1) = currentIndex (exe w)"
    and ru: "isRunningEx (exe w1) = isRunningEx (exe w)"
    and pa: "isPausedEx (exe w1) = isPausedEx (exe w)"
    and q1: "microtaskQueue (eventLoop (mgr w)) \<noteq> [] \<longrightarrow> microtaskQueue (eventLoop (mgr w1)) \<noteq> []"
    and q2: "isPromise ?i \<longrightarrow> microtaskQueue (eventLoop (mgr w1)) \<noteq> []"
    unfolding q0 e0 by blast
  let ?w2 = "w1\<lparr> exe := (exe w1)\<lparr> currentIndex := currentIndex (exe w1) + 1 \<rparr> \<rparr>"
  have later: "\<exists>j. currentIndex (exe w) + 1 \<le> j \<and> j < length (instructions (exe w))
                  \<and> isPromise (instructions (exe w) ! j)"
    if "microtaskQueue (eventLoop (mgr w1)) = []"
  proof -
    from that q1 have "microtaskQueue (eventLoop (mgr w)) = []" by blast
    with d obtain j where j: "currentIndex (exe w) \<le> j" "j < length (instructions (exe w))"
      "isPromise (instructions (exe w) ! j)" unfolding doomed_def by blast
    from that q2 have "\<not> isPromise ?i" by blast
    with j have "j \<noteq> currentIndex (exe w)" by metis
    with j show ?thesis by (metis Suc_eq_plus1 Suc_leI le_neq_implies_less)
  qed
  have more: "currentIndex (exe ?w2) < length (instructions (exe ?w2)) \<or> hasPendingTasks ?w2"
  proof (cases "microtaskQueue (eventLoop (mgr w1)) = []")
    case True
    from later[OF True] show ?thesis using ins ci by auto
  next
    case False
    then have "hasPendingTasks ?w2" by (simp add: hasPendingTasks_microtasks)
    then show ?thesis by blast
  qed
  have st: "step h fuel iters w = Some (Inr True, ?w2)"
    using lt ex more by (simp add: step_def Let_def)
  have "doomed (delay h ?w2)"
    unfolding doomed_def delay_keeps
  proof (intro conjI allI impI)
    show "isRunningEx (exe ?w2)" using d ru by (simp add: doomed_def)
    show "\<not> isPausedEx (exe ?w2)" using d pa by (simp add: doomed_def)
    show "plainInstruction (instructions (exe ?w2) ! j)"
      if "currentIndex (exe ?w2) \<le> j \<and> j < length (instructions (exe ?w2))" for j
      using that d ins ci unfolding doomed_def by simp
    show "microtaskQueue (eventLoop (mgr ?w2)) \<noteq> []
          \<or> (\<exists>j. currentIndex (exe ?w2) \<le> j \<and> j < length (instructions (exe ?w2))
                 \<and> isPromise (instructions (exe ?w2) ! j))"
      using later ins ci by auto
  qed
  with st show ?thesis by blast
qed

lemma doomed_runLoop: "doomed w \<Longrightarrow> runLoop h fuel iters steps w = None"
proof (induction steps arbitrary: w)
  case 0
  then show ?case by simp
next
  case (Suc steps)
  show ?case
  proof (cases "currentIndex (exe w) < length (instructions (exe w))")
    case True
    from doomed_step[OF Suc.prems True, of h fuel iters] obtain w2 where
      st: "step h fuel iters w = Some (Inr True, w2)" and d2: "doomed (delay h w2)" by blast
    from d2 have "isRunningEx (exe w2)" "\<not> isPausedEx (exe w2)"
      by (simp_all add: doomed_def delay_keeps)
    with st Suc.IH[OF d2] show ?thesis by simp
  next
    case False
    with Suc.prems have "microtaskQueue (eventLoop (mgr w)) \<noteq> []"
      unfolding doomed_def by (meson le_less_trans not_le_imp_less)
    from step_stale_snapshot[OF this, of h fuel iters] False
    have "step h fuel iters w = None" by simp
    then show ?thesis by simp
  qed
qed

lemma doomed_run_init:
  assumes "\<forall>i \<in> set prog. plainInstruction i" "\<exists>i \<in> set prog. isPromise i"
  shows "run h fuel iters steps (init h prog w) = None"
proof -
  let ?w0 = "(init h prog w)\<lparr> exe := (exe (init h prog w))\<lparr> isRunningEx := True, isPausedEx := False \<rparr>,
                  mgr := setExecutionState True False (mgr (init h prog w)) \<rparr>"
  have ins: "instructions (exe ?w0) = prog" and ci: "currentIndex (exe ?w0) = 0"
    by (simp_all add: init_def Let_def split: prod.splits)
  from assms(2) obtain j where "j < length prog" "isPromise (prog ! j)"
    by (metis in_set_conv_nth)
  then have "doomed ?w0"
    unfolding doomed_def ins ci using assms(1) by auto
  from doomed_runLoop[OF this] show ?thesis
    by (simp add: run_def Let_def)
qed

text \<open>
  For comparison, a run that registers a timer and no promise: the timer fires during
  the wait after the first step, the pass finds the microtask queue empty, runs the one
  callback and \<open>run\<close> completes.
\<close>

lemma timer_only_run_completes:
  "map_option (\<lambda>r. (fst r, consoleOutput (snd r)))
     (run host1 0 0 (Suc (Suc 0)) (init host1 timerExample initialWorld)) =
   Some (Inr (),
         [(''info'', [''setTimeout registered (1000ms)'']),
          (''info'', [''Executing callback: setTimeout'']),
          (''log'', [''1'']),
          (''info'', [''Execution completed''])])"
  apply (simp add: run_def init_def createScope_def pushCallStack_def setExecutionState_def
           notify_def initialWorld_def initialManager_def initialExecutor_def initialState_def
           state.defs dec_small timerExample_def Let_def)
  apply (subst step_def)
  apply (simp add: setCurrentLine_def incrementStep_def notify_def Let_def)
  apply (simp add: executeSetTimeout_def addToWebAPI_def logConsole_def addTimer_def notify_def
           Let_def)
  apply (simp add: hasPendingTasks_def getState_def state.defs Let_def)
  apply (simp add: delay_def addTimer_def moveFired_def moveToCallbackQueue_def notify_def
           Let_def host1_def)
  apply (subst step_def)
  apply simp
  apply (simp add: processEventLoop_def getState_def state.defs)
  apply (simp add: processNextCallback_def notify_def Let_def)
  apply (simp add: callbackText_def logConsole_def notify_def)
  apply (simp add: createScope_def notify_def dec_small Let_def)
  apply (simp add: pushCallStack_def notify_def Let_def)
  apply (simp add: delay_def addTimer_def moveFired_def Let_def)
  apply (simp add: parseBody_def processHoisting_def)
  apply (simp add: executeConsole_def logConsole_def notify_def delay_def addTimer_def
           moveFired_def Let_def)
  apply (simp add: popCallStack_def destroyScope_def hasScopeId_def notify_def Let_def)
  apply (simp add: shiftPendingTimers_def hasPendingTasks_def getState_def state.defs Let_def)
  apply (simp add: setExecutionState_def logConsole_def notify_def consoleOutput_def)
  done

text \<open>
  C1 (the code at the failing input). When the microtask queue is not empty as
  \<open>processEventLoop\<close> starts, the pass does not return, whatever the fuel and the bound on
  the iterations: the loop condition reads the length of the microtask queue in the
  snapshot taken before the loop, which no dequeue changes. The callback stage is never
  reached, and a step that finds the instructions exhausted does not return either. So
  for every program of timer registrations, promise registrations and console calls on
  literals that registers at least one promise callback, \<open>run\<close> does not return, whatever
  the host, the delays and the bounds: no timer callback is ever interpreted.
\<close>

theorem event_loop_pass_never_returns:
  "(microtaskQueue (eventLoop (mgr w)) \<noteq> [] \<longrightarrow>
      processEventLoop h fuel iters w = None
      \<and> (length (instructions (exe w)) \<le> currentIndex (exe w) \<longrightarrow> step h fuel iters w = None))
   \<and> ((\<forall>i \<in> set prog. plainInstruction i) \<longrightarrow> (\<exists>i \<in> set prog. isPromise i) \<longrightarrow>
      run h fuel iters steps (init h prog w0) = None)"
  using processEventLoop_stale_snapshot step_stale_snapshot doomed_run_init by blast

theorem event_loop_pass_never_returns_witness:
  "length (microtaskQueue (eventLoop (mgr asyncWorld))) = 2
   \<and> (\<forall>fuel iters. processEventLoop host0 fuel iters asyncWorld = None)
   \<and> (\<forall>h fuel iters steps. run h fuel iters steps (init h asyncExample initialWorld) = None)"
proof -
  have q: "length (microtaskQueue (eventLoop (mgr asyncWorld))) = 2"
    by (simp add: asyncWorld_def executePromise_def executeSetTimeout_def init_def
          addToMicrotaskQueue_def addToWebAPI_def logConsole_def addTimer_def notify_def
          createScope_def pushCallStack_def Let_def initialWorld_def initialManager_def
          initialState_def state.defs)
  then have ne: "microtaskQueue (eventLoop (mgr asyncWorld)) \<noteq> []" by auto
  have p: "\<forall>i \<in> set asyncExample. plainInstruction i" "\<exists>i \<in> set asyncExample. isPromise i"
    by (simp_all add: asyncExample_def)
  have a: "processEventLoop host0 fuel iters asyncWorld = None" for fuel iters
    using event_loop_pass_never_returns[of asyncWorld host0 fuel iters] ne by blast
  have b: "run h fuel iters steps (init h asyncExample initialWorld) = None" for h fuel iters steps
    using event_loop_pass_never_returns[of _ h fuel iters asyncExample steps initialWorld] p
    by blast
  from q a b show ?thesis by blast
qed

subsection \<open>The snapshot\<close>


lemma getStateObj_refs:
  "fst (getStateObj st mem) =
    st\<lparr> so_callStack := nextRef mem, so_heap := nextRef mem + 1, so_scopes := nextRef mem + 2,
         so_eventLoop := \<lparr> el_webAPIs = nextRef mem + 3, el_callbackQueue = nextRef mem + 4,
                           el_microtaskQueue = nextRef mem + 5 \<rparr> \<rparr>"
  "nextRef (snd (getStateObj st mem)) = nextRef mem + 6"
  by (simp_all add: getStateObj_def alloc_def Let_def)

lemma getStateObj_old:
  "a < nextRef mem \<Longrightarrow> cells (snd (getStateObj st mem)) a = cells mem a"
  by (simp add: getStateObj_def alloc_def Let_def)

lemma getStateObj_new:
  assumes "wellFormed st mem"
  shows "map (cells (snd (getStateObj st mem))) (snapshotContainers (fst (getStateObj st mem)))
         = map (cells mem) (snapshotContainers st)"
  using assms
  by (simp add: getStateObj_def alloc_def Let_def wellFormed_def snapshotContainers_def
        sharedContainers_def)


lemma cells_modifyFrame: "a \<noteq> b \<Longrightarrow> cells (modifyFrame a g mem) b = cells mem b"
  by (simp add: modifyFrame_def setCell_def split: cell.splits)

lemma nextRef_modifyFrame: "nextRef (modifyFrame a g mem) = nextRef mem"
  by (simp add: modifyFrame_def setCell_def split: cell.splits)

lemma arrayOf_modifyFrame: "arrayOf (cells (modifyFrame a g mem) b) = arrayOf (cells mem b)"
  by (cases "a = b") (auto simp: modifyFrame_def setCell_def split: cell.splits)

lemma keptApart_modifyFrame:
  "keptApart S st mem1 mem2 \<Longrightarrow> a \<notin> S \<Longrightarrow> keptApart S st mem1 (modifyFrame a g mem2)"
  unfolding keptApart_def
  by (metis arrayOf_modifyFrame cells_modifyFrame nextRef_modifyFrame)

lemma keptApart_setStack:
  "keptApart S st mem1 mem2 \<Longrightarrow> so_callStack st \<notin> S \<Longrightarrow> \<forall>a \<in> set xs. a \<notin> S \<Longrightarrow>
   keptApart S st mem1 (setCell (so_callStack st) (ArrayCell xs) mem2)"
  unfolding keptApart_def by (auto simp: setCell_def)

lemma keptApart_alloc:
  "keptApart S st mem1 mem2 \<Longrightarrow> so_callStack st < nextRef mem2 \<Longrightarrow>
   keptApart S st mem1 (snd (alloc c mem2))"
  unfolding keptApart_def by (auto simp: alloc_def)

lemma keptApart_applyObjOp:
  assumes k: "keptApart S st mem1 mem2" and cs: "so_callStack st \<notin> S" and tm: "so_timers st \<notin> S"
    and d: "so_timers st \<noteq> so_callStack st" and lt: "so_callStack st < nextRef mem2"
  shows "keptApart S st mem1 (applyObjOp st op mem2) \<and> so_callStack st < nextRef (applyObjOp st op mem2)"
proof (cases op)
  case (ObjPushCallStack fresh fi)
  let ?m1 = "snd (alloc (FrameCell \<lparr> frame_id = fresh,
            frame_name = (if fi_name fi = [] then ''anonymous'' else fi_name fi),
            frame_type = (if fi_type fi = [] then ''function'' else fi_type fi),
            frame_variables = fi_variables fi,
            thisBinding = (if fi_thisBinding fi = [] then ''window'' else fi_thisBinding fi),
            frame_line = fi_line fi,
            isActive = True \<rparr>) mem2)"
  let ?stack = "arrayOf (cells ?m1 (so_callStack st))"
  have k1: "keptApart S st mem1 ?m1" by (rule keptApart_alloc[OF k lt])
  have fresh: "nextRef mem2 \<notin> S" using k unfolding keptApart_def by auto
  have st: "\<forall>a \<in> set ?stack. a \<notin> S" using k1 unfolding keptApart_def by blast
  let ?m2 = "if length ?stack > 0
             then modifyFrame (?stack ! (length ?stack - 1)) (\<lambda>f. f\<lparr> isActive := False \<rparr>) ?m1
             else ?m1"
  have k2: "keptApart S st mem1 ?m2"
  proof (cases "length ?stack > 0")
    case True
    then have "?stack ! (length ?stack - 1) \<in> set ?stack" by simp
    with st have "?stack ! (length ?stack - 1) \<notin> S" by blast
    with k1 True show ?thesis by (simp add: keptApart_modifyFrame)
  next
    case False
    with k1 show ?thesis by simp
  qed
  have k3: "keptApart S st mem1 (setCell (so_callStack st) (ArrayCell (?stack @ [nextRef mem2])) ?m2)"
    by (rule keptApart_setStack[OF k2 cs]) (use st fresh in auto)
  have n: "nextRef (setCell (so_callStack st) (ArrayCell (?stack @ [nextRef mem2])) ?m2) = nextRef mem2 + 1"
    by (simp add: setCell_def nextRef_modifyFrame alloc_def)
  have e: "applyObjOp st op mem2 = setCell (so_callStack st) (ArrayCell (?stack @ [nextRef mem2])) ?m2"
    unfolding ObjPushCallStack by (simp add: pushCallStackObj_def Let_def alloc_def)
  show ?thesis using k3 n lt unfolding e by simp
next
  case ObjPopCallStack
  let ?stack = "arrayOf (cells mem2 (so_callStack st))"
  let ?m1 = "setCell (so_callStack st) (ArrayCell (butlast ?stack)) mem2"
  have st: "\<forall>a \<in> set ?stack. a \<notin> S" using k unfolding keptApart_def by blast
  then have bl: "\<forall>a \<in> set (butlast ?stack). a \<notin> S" by (meson in_set_butlastD)
  have k1: "keptApart S st mem1 ?m1" by (rule keptApart_setStack[OF k cs bl])
  have k2: "keptApart S st mem1 (modifyFrame (butlast ?stack ! (length (butlast ?stack) - 1)) g ?m1)"
    if "length (butlast ?stack) > 0" for g
  proof -
    from that have "butlast ?stack ! (length (butlast ?stack) - 1) \<in> set (butlast ?stack)"
      by (metis diff_less nth_mem zero_less_one)
    with bl have "butlast ?stack ! (length (butlast ?stack) - 1) \<notin> S" by blast
    with k1 show ?thesis by (simp add: keptApart_modifyFrame)
  qed
  have n1: "nextRef ?m1 = nextRef mem2" by (simp add: setCell_def)
  show ?thesis
  proof (cases "length (butlast ?stack) > 0")
    case True
    have e: "applyObjOp st op mem2 =
        modifyFrame (butlast ?stack ! (length (butlast ?stack) - 1)) (\<lambda>f. f\<lparr> isActive := True \<rparr>) ?m1"
      unfolding ObjPopCallStack using True
      by (simp add: popCallStackObj_def Let_def del: length_butlast)
    show ?thesis unfolding e using k2[OF True] lt n1 by (simp add: nextRef_modifyFrame)
  next
    case False
    have e: "applyObjOp st op mem2 = ?m1"
      unfolding ObjPopCallStack using False
      by (simp add: popCallStackObj_def Let_def del: length_butlast)
    show ?thesis unfolding e using k1 lt n1 by simp
  qed
next
  case (ObjUpdateFrameVariable n v t)
  let ?stack = "arrayOf (cells mem2 (so_callStack st))"
  have st: "\<forall>a \<in> set ?stack. a \<notin> S" using k unfolding keptApart_def by blast
  have "keptApart S st mem1 (modifyFrame (?stack ! (length ?stack - 1)) g mem2)"
    if "length ?stack > 0" for g
  proof -
    from that have "?stack ! (length ?stack - 1) \<in> set ?stack" by simp
    with st have "?stack ! (length ?stack - 1) \<notin> S" by blast
    with k show ?thesis by (simp add: keptApart_modifyFrame)
  qed
  then show ?thesis unfolding ObjUpdateFrameVariable using k lt
    by (simp add: updateFrameVariableObj_def Let_def nextRef_modifyFrame)
next
  case (ObjAddTimer h)
  show ?thesis using k cs tm d lt unfolding ObjAddTimer keptApart_def
    by (auto simp: addTimerObj_def setCell_def)
qed

lemma keptApart_runObjOps:
  assumes "keptApart S st mem1 mem2" "so_callStack st \<notin> S" "so_timers st \<notin> S"
    "so_timers st \<noteq> so_callStack st" "so_callStack st < nextRef mem2"
  shows "keptApart S st mem1 (runObjOps st ops mem2)"
  using assms
proof (induction ops arbitrary: mem2)
  case Nil
  then show ?case by simp
next
  case (Cons op ops)
  from keptApart_applyObjOp[OF Cons.prems(1-5), of op]
  have "keptApart S st mem1 (applyObjOp st op mem2)"
    "so_callStack st < nextRef (applyObjOp st op mem2)" by simp_all
  from Cons.IH[OF this(1) Cons.prems(2-4) this(2)] show ?case by simp
qed

text \<open>
  C7 (as stated). The snapshot is a deep, detached copy. This fails in both directions,
  because the snapshot's arrays hold the module's own frame objects. A frame is pushed
  and the snapshot taken: read through the snapshot, the frame is active. When the
  module then pushes a second frame, the frame read through the same snapshot is
  inactive. And when a client of the snapshot sets \<open>isActive\<close> of that frame to false,
  the frame read through the module's state is inactive. The \<open>timers\<close> array of the
  snapshot is the module's own: a handle that \<open>addTimer\<close> tracks afterwards is in it.
\<close>

theorem snapshot_shares_frames_counterexample:
  "activeFlags (fst snapshotExample) (snd snapshotExample) = [True]
   \<and> activeFlags (fst snapshotExample)
        (snd (pushCallStackObj 2 frameInput0 initialStateObject (snd snapshotExample))) = [False]
   \<and> activeFlags initialStateObject (snd snapshotExample) = [True]
   \<and> activeFlags initialStateObject
        (modifyFrame (arrayOf (cells (snd snapshotExample) (so_callStack (fst snapshotExample))) ! 0)
           setInactive (snd snapshotExample)) = [False]
   \<and> arrayOf (cells (snd snapshotExample) (so_timers (fst snapshotExample))) = []
   \<and> arrayOf (cells (addTimerObj 5 initialStateObject (snd snapshotExample))
                (so_timers (fst snapshotExample))) = [5]"
  by (simp add: snapshotExample_def getStateObj_def pushCallStackObj_def alloc_def setCell_def
        modifyFrame_def activeFlags_def setInactive_def addTimerObj_def initialMemory_def
        initialStateObject_def frameInput0_def Let_def)

text \<open>
  C7 (amended). The snapshot is a shallow copy. Its call stack, heap map, scope list and
  three queues are new containers, different from one another and from every object that
  existed, and each holds the same element references as the module's container at that
  moment; \<open>parsedCode\<close>, \<open>executionQueue\<close> and \<open>timers\<close> are the module's own arrays;
  taking the snapshot changes no object that existed. Afterwards the call-stack
  operations and \<open>addTimer\<close> of the module leave the snapshot's six containers as they
  were, and a write to one of them leaves every object that existed before the snapshot
  as it was. The frame, scope, heap-object and task records behind the element
  references are shared, so a change inside one of them is seen on both sides.
\<close>

theorem snapshot_is_shallow:
  assumes "wellFormed st mem"
  shows "(let snap = fst (getStateObj st mem); mem1 = snd (getStateObj st mem) in
       distinct (snapshotContainers snap)
     \<and> (\<forall>a \<in> set (snapshotContainers snap). nextRef mem \<le> a \<and> a < nextRef mem1)
     \<and> map (cells mem1) (snapshotContainers snap) = map (cells mem) (snapshotContainers st)
     \<and> sharedContainers snap = sharedContainers st
     \<and> (\<forall>a < nextRef mem. cells mem1 a = cells mem a)
     \<and> map (cells (runObjOps st ops mem1)) (snapshotContainers snap)
         = map (cells mem1) (snapshotContainers snap)
     \<and> (\<forall>a \<in> set (snapshotContainers snap). \<forall>b < nextRef mem.
           cells (setCell a c mem1) b = cells mem b))"
proof -
  let ?snap = "fst (getStateObj st mem)" and ?mem1 = "snd (getStateObj st mem)"
  let ?S = "set (snapshotContainers ?snap)"
  have refs: "snapshotContainers ?snap =
      [nextRef mem, nextRef mem + 1, nextRef mem + 2, nextRef mem + 3, nextRef mem + 4,
       nextRef mem + 5]"
    by (simp add: getStateObj_refs snapshotContainers_def)
  have d: "distinct (snapshotContainers ?snap)" unfolding refs by simp
  have r: "\<forall>a \<in> ?S. nextRef mem \<le> a \<and> a < nextRef ?mem1"
    unfolding refs by (simp add: getStateObj_refs)
  have sh: "sharedContainers ?snap = sharedContainers st"
    by (simp add: getStateObj_refs sharedContainers_def)
  have old: "\<forall>a < nextRef mem. cells ?mem1 a = cells mem a"
    by (simp add: getStateObj_old)
  from assms have cs: "so_callStack st < nextRef mem" and tm: "so_timers st < nextRef mem"
    and ne: "so_timers st \<noteq> so_callStack st"
    and el: "\<forall>a \<in> set (arrayOf (cells mem (so_callStack st))). a < nextRef mem"
    by (auto simp: wellFormed_def snapshotContainers_def sharedContainers_def)
  have k0: "keptApart ?S st ?mem1 ?mem1"
    unfolding keptApart_def using r el cs by (fastforce simp: getStateObj_old)
  have csS: "so_callStack st \<notin> ?S" and tmS: "so_timers st \<notin> ?S"
    using r cs tm by fastforce+
  have lt: "so_callStack st < nextRef ?mem1" using cs by (simp add: getStateObj_refs)
  have "keptApart ?S st ?mem1 (runObjOps st ops ?mem1)"
    by (rule keptApart_runObjOps[OF k0 csS tmS ne lt])
  then have kept: "map (cells (runObjOps st ops ?mem1)) (snapshotContainers ?snap)
      = map (cells ?mem1) (snapshotContainers ?snap)"
    unfolding keptApart_def by simp
  have wr: "\<forall>a \<in> ?S. \<forall>b < nextRef mem. cells (setCell a c ?mem1) b = cells mem b"
    using r by (auto simp: setCell_def getStateObj_old)
  show ?thesis
    unfolding Let_def using d r getStateObj_new[OF assms] sh old kept wr by blast
qed

theorem snapshot_is_shallow_witness:
  "wellFormed initialStateObject
     (snd (pushCallStackObj 1 frameInput0 initialStateObject initialMemory))
   \<and> snapshotContainers (fst snapshotExample) = [10, 11, 12, 13, 14, 15]
   \<and> arrayOf (cells (runObjOps initialStateObject [ObjPushCallStack 2 frameInput0]
                       (snd snapshotExample)) (so_callStack (fst snapshotExample))) = [9]
   \<and> arrayOf (cells (runObjOps initialStateObject [ObjPushCallStack 2 frameInput0]
                       (snd snapshotExample)) (so_callStack initialStateObject)) = [9, 16]"
proof -
  have wf: "wellFormed initialStateObject
     (snd (pushCallStackObj 1 frameInput0 initialStateObject initialMemory))"
    by (simp add: wellFormed_def snapshotContainers_def sharedContainers_def
          pushCallStackObj_def alloc_def setCell_def initialMemory_def initialStateObject_def
          Let_def)
  have ev: "snapshotContainers (fst snapshotExample) = [10, 11, 12, 13, 14, 15]"
    "arrayOf (cells (snd snapshotExample) (so_callStack (fst snapshotExample))) = [9]"
    "arrayOf (cells (runObjOps initialStateObject [ObjPushCallStack 2 frameInput0]
                       (snd snapshotExample)) (so_callStack initialStateObject)) = [9, 16]"
    by (simp_all add: snapshotExample_def getStateObj_def pushCallStackObj_def alloc_def
          setCell_def modifyFrame_def snapshotContainers_def initialMemory_def
          initialStateObject_def frameInput0_def Let_def)
  from snapshot_is_shallow[OF wf, of "[ObjPushCallStack 2 frameInput0]"]
  have "map (cells (runObjOps initialStateObject [ObjPushCallStack 2 frameInput0]
                      (snd snapshotExample))) (snapshotContainers (fst snapshotExample))
        = map (cells (snd snapshotExample)) (snapshotContainers (fst snapshotExample))"
    unfolding Let_def snapshotExample_def by blast
  then have "cells (runObjOps initialStateObject [ObjPushCallStack 2 frameInput0]
                      (snd snapshotExample)) (so_callStack (fst snapshotExample))
        = cells (snd snapshotExample) (so_callStack (fst snapshotExample))"
    by (simp add: snapshotContainers_def)
  with wf ev show ?thesis by simp
qed

end
